(* ===== verification/Prelude.thy ===== *)
theory Prelude
  imports Complex_Main "HOL-Library.Multiset" "HOL-Library.Stream"
begin

text \<open>
  Shared vocabulary of the development: the types that name the program's values
  (item identifiers, calendar days, instants, the random source), the JavaScript
  idioms the source relies on (numeric \<open>||\<close> defaults, \<open>Math.floor(Math.random() * n)\<close>,
  destructuring swap of two array cells), and the generic list and stream lemmas the
  component theories share. Component proofs pull these in through the named
  collections \<open>js_simps\<close> and \<open>swap_simps\<close>.
\<close>

named_theorems js_simps "rewrite rules for the JavaScript idioms of the source"
named_theorems swap_simps "facts about the destructuring swap of two array cells"

type_synonym item_id = nat

text \<open>
  A \<open>day\<close> is a local calendar day, counted from the local day that contains the
  epoch instant; it stands for the instant of its local midnight, which is what
  \<open>todayStart()\<close> and \<open>addDays\<close> produce. An \<open>instant\<close> is a time stamp in
  milliseconds, as \<open>new Date()\<close> gives it.
\<close>

type_synonym day = int
type_synonym instant = int

text \<open>
  The random source: the successive values of \<open>Math.random()\<close>, each a real in
  \<open>[0, 1)\<close>. The program draws from one global generator; the model threads the
  remaining stream of draws through every operation that consumes randomness.
\<close>

type_synonym rand = "real stream"

definition rand_ok :: "rand \<Rightarrow> bool" where
  "rand_ok rs \<longleftrightarrow> (\<forall>x \<in> sset rs. 0 \<le> x \<and> x < 1)"

subsection \<open>JavaScript idioms\<close>

text \<open>The one exception the modelled code can raise: reading a property of \<open>null\<close> or \<open>undefined\<close>.\<close>

datatype js_error = TypeError

text \<open>\<open>x || d\<close> on a number: \<open>0\<close> is falsy, every other integer is returned as it is.\<close>

definition num_or :: "int \<Rightarrow> int \<Rightarrow> int" where
  "num_or x d = (if x = 0 then d else x)"

text \<open>\<open>Math.floor(r * (i + 1))\<close> for a draw \<open>r\<close> of \<open>Math.random()\<close>.\<close>

definition random_index :: "real \<Rightarrow> nat \<Rightarrow> nat" where
  "random_index r i = nat \<lfloor>r * real (Suc i)\<rfloor>"

text \<open>
  \<open>[a[i], a[j]] = [a[j], a[i]]\<close>: the right-hand array is built first, then \<open>a[i]\<close>
  and \<open>a[j]\<close> are assigned in that order.
\<close>

definition swap :: "'a list \<Rightarrow> nat \<Rightarrow> nat \<Rightarrow> 'a list" where
  "swap a i j = a[i := a ! j, j := a ! i]"

text \<open>
  \<open>String(n)\<close> of a natural number, as an integer property key or a template
  literal writes it: its decimal numeral. \<open>str_nat\<close> reads a numeral back.
\<close>

fun nat_str :: "nat \<Rightarrow> string" where
  "nat_str n =
     (if n < 10 then [char_of (48 + n)] else nat_str (n div 10) @ [char_of (48 + n mod 10)])"

declare nat_str.simps [simp del]

definition str_nat :: "string \<Rightarrow> nat" where
  "str_nat s = foldl (\<lambda>acc c. 10 * acc + (of_char c - 48)) 0 s"

lemma num_or_nonzero [js_simps]: "x \<noteq> 0 \<Longrightarrow> num_or x d = x"
  by (simp add: num_or_def)

lemma num_or_zero [js_simps]: "num_or 0 d = d"
  by (simp add: num_or_def)

lemma num_or_pos: "0 < d \<Longrightarrow> 0 < x \<or> x = 0 \<Longrightarrow> 0 < num_or x d"
  by (auto simp: num_or_def)

lemma random_index_le:
  assumes "0 \<le> r" and "r < 1"
  shows "random_index r i \<le> i"
proof -
  from assms have "r * real (Suc i) < real (Suc i)" by simp
  then have "\<lfloor>r * real (Suc i)\<rfloor> < int (Suc i)"
    by (simp add: floor_less_iff)
  then show ?thesis unfolding random_index_def by linarith
qed

lemma rand_ok_shd: "rand_ok rs \<Longrightarrow> 0 \<le> shd rs \<and> shd rs < 1"
  by (simp add: rand_ok_def shd_sset)

lemma rand_ok_stl: "rand_ok rs \<Longrightarrow> rand_ok (stl rs)"
  by (cases rs) (simp add: rand_ok_def)

lemma rand_ok_sdrop: "rand_ok rs \<Longrightarrow> rand_ok (sdrop n rs)"
  by (induction n arbitrary: rs) (auto dest: rand_ok_stl)

lemma rand_ok_sconst: "0 \<le> x \<Longrightarrow> x < 1 \<Longrightarrow> rand_ok (sconst x)"
  by (simp add: rand_ok_def)

lemma random_index_ok:
  "rand_ok rs \<Longrightarrow> random_index (shd rs) i \<le> i"
  using rand_ok_shd random_index_le by blast

subsection \<open>Numerals\<close>

lemma str_nat_snoc: "str_nat (s @ [c]) = 10 * str_nat s + (of_char c - 48)"
  by (simp add: str_nat_def)

lemma str_nat_nat_str [simp]: "str_nat (nat_str n) = n"
proof (induction n rule: nat_str.induct)
  case (1 n)
  show ?case
  proof (cases "n < 10")
    case True
    then show ?thesis by (simp add: str_nat_def nat_str.simps)
  next
    case False
    then have "str_nat (nat_str n) = 10 * str_nat (nat_str (n div 10)) + n mod 10"
      by (simp add: str_nat_snoc nat_str.simps [of n])
    with 1 False show ?thesis by simp
  qed
qed

lemma nat_str_inj: "nat_str i = nat_str j \<longleftrightarrow> i = j"
  by (metis str_nat_nat_str)

subsection \<open>The swap\<close>

lemma length_swap [simp, swap_simps]: "length (swap a i j) = length a"
  by (simp add: swap_def)

lemma mset_swap_cells [swap_simps]:
  "i < length a \<Longrightarrow> j < length a \<Longrightarrow> mset (swap a i j) = mset a"
  unfolding swap_def
  by (cases "i = j") (simp_all add: mset_update nth_mem_mset)

lemma set_swap [swap_simps]:
  "i < length a \<Longrightarrow> j < length a \<Longrightarrow> set (swap a i j) = set a"
  by (metis mset_swap_cells set_mset_mset)

lemma distinct_swap [swap_simps]:
  "i < length a \<Longrightarrow> j < length a \<Longrightarrow> distinct (swap a i j) = distinct a"
  by (rule mset_eq_imp_distinct_iff [OF mset_swap_cells])

lemma swap_same [simp]: "i < length a \<Longrightarrow> swap a i i = a"
  by (simp add: swap_def)

lemma nth_swap:
  "i < length a \<Longrightarrow> j < length a \<Longrightarrow>
     swap a i j ! k = (if k = j then a ! i else if k = i then a ! j else a ! k)"
  by (simp add: swap_def nth_list_update)

subsection \<open>Lists\<close>

lemma filter_singleton_distinct:
  assumes "distinct xs" and "x \<in> set xs" and "\<forall>y \<in> set xs. P y \<longleftrightarrow> y = x"
  shows "filter P xs = [x]"
  using assms
proof (induction xs)
  case Nil
  then show ?case by simp
next
  case (Cons y ys)
  show ?case
  proof (cases "y = x")
    case True
    with Cons.prems have "\<forall>z \<in> set ys. \<not> P z" by auto
    with True Cons.prems show ?thesis by simp
  next
    case False
    with Cons.prems Cons.IH show ?thesis by auto
  qed
qed

end
