(* ===== verification/Catalog.thy ===== *)
theory Catalog
  imports Prelude
begin

text \<open>
  The item catalog: the constant \<open>RADICALS\<close> of \<open>src/app/page.tsx\<close>, sixty records
  with an identifier and six display fields, read-only at run time. Strings are the
  UTF-8 bytes of the source text: ASCII runs are written as string literals and every
  other byte as \<open>CHR 0xNN\<close>. JavaScript compares strings by UTF-16 code units; two
  strings are equal in UTF-16 exactly when they are equal in UTF-8, so the equality
  tests of the program (the quiz answer check) are modelled faithfully.
\<close>

record radical =
  radical_id :: item_id
  vn :: string
  radical :: string
  pinyin :: string
  meaning :: string
  mnemonic :: string
  examples :: "string list"

definition RADICALS :: "radical list" where
  "RADICALS = [
    \<lparr>radical_id = 1,
     vn = (''Nh'' @ [CHR 0xC3, CHR 0xA2] @ ''n''),
     radical = ([CHR 0xE4, CHR 0xBA, CHR 0xBA] @ '' / '' @ [CHR 0xE4, CHR 0xBA, CHR 0xBB]),
     pinyin = (''r'' @ [CHR 0xC3, CHR 0xA9] @ ''n''),
     meaning = (''con ng'' @ [CHR 0xC6, CHR 0xB0, CHR 0xE1, CHR 0xBB, CHR 0x9D] @ ''i; vi'' @ [CHR 0xE1, CHR 0xBB, CHR 0x87] @ ''c li'' @ [CHR 0xC3, CHR 0xAA] @ ''n quan ng'' @ [CHR 0xC6, CHR 0xB0, CHR 0xE1, CHR 0xBB, CHR 0x9D] @ ''i''),
     mnemonic = (''nh'' @ [CHR 0xC3, CHR 0xAC] @ ''n nh'' @ [CHR 0xC6, CHR 0xB0] @ '' ng'' @ [CHR 0xC6, CHR 0xB0, CHR 0xE1, CHR 0xBB, CHR 0x9D] @ ''i '' @ [CHR 0xC4, CHR 0x91] @ ''ang '' @ [CHR 0xC4, CHR 0x91, CHR 0xE1, CHR 0xBB, CHR 0xA9] @ ''ng''),
     examples = [[CHR 0xE4, CHR 0xBD, CHR 0xA0], [CHR 0xE4, CHR 0xBB, CHR 0x96], [CHR 0xE4, CHR 0xBD, CHR 0x8F], [CHR 0xE4, CHR 0xBD, CHR 0x9C], [CHR 0xE4, CHR 0xBC, CHR 0x91]]\<rparr>,
    \<lparr>radical_id = 2,
     vn = (''Kh'' @ [CHR 0xE1, CHR 0xBA, CHR 0xA9] @ ''u''),
     radical = [CHR 0xE5, CHR 0x8F, CHR 0xA3],
     pinyin = (''k'' @ [CHR 0xC7, CHR 0x92] @ ''u''),
     meaning = (''mi'' @ [CHR 0xE1, CHR 0xBB, CHR 0x87] @ ''ng; n'' @ [CHR 0xC3, CHR 0xB3] @ ''i; '' @ [CHR 0xC4, CHR 0x83] @ ''n u'' @ [CHR 0xE1, CHR 0xBB, CHR 0x91] @ ''ng''),
     mnemonic = (''c'' @ [CHR 0xC3, CHR 0xA1] @ ''i mi'' @ [CHR 0xE1, CHR 0xBB, CHR 0x87] @ ''ng vu'' @ [CHR 0xC3, CHR 0xB4] @ ''ng '' @ [CHR 0xC4, CHR 0x91] @ ''ang m'' @ [CHR 0xE1, CHR 0xBB, CHR 0x9F]),
     examples = [[CHR 0xE5, CHR 0x90, CHR 0x83], [CHR 0xE5, CHR 0x96, CHR 0x9D], [CHR 0xE5, CHR 0x95, CHR 0x8F], [CHR 0xE5, CHR 0x8F, CHR 0xAB], [CHR 0xE5, CHR 0x91, CHR 0xA2]]\<rparr>,
    \<lparr>radical_id = 3,
     vn = ([CHR 0xC4, CHR 0x90] @ ''ao''),
     radical = ([CHR 0xE5, CHR 0x88, CHR 0x80] @ '' / '' @ [CHR 0xE5, CHR 0x88, CHR 0x82]),
     pinyin = (''d'' @ [CHR 0xC4, CHR 0x81] @ ''o''),
     meaning = (''dao; c'' @ [CHR 0xE1, CHR 0xBA, CHR 0xAF] @ ''t; x'' @ [CHR 0xE1, CHR 0xBB, CHR 0xAD] @ '' l'' @ [CHR 0xC3, CHR 0xBD]),
     mnemonic = (''l'' @ [CHR 0xC6, CHR 0xB0, CHR 0xE1, CHR 0xBB, CHR 0xA1] @ ''i dao c'' @ [CHR 0xC3, CHR 0xB3] @ '' tay c'' @ [CHR 0xE1, CHR 0xBA, CHR 0xA7] @ ''m''),
     examples = [[CHR 0xE5, CHR 0x88, CHR 0xB0], [CHR 0xE5, CHR 0x88, CHR 0xA5], [CHR 0xE5, CHR 0x88, CHR 0xA9], [CHR 0xE5, CHR 0x88, CHR 0xBB], [CHR 0xE5, CHR 0x88, CHR 0xAA]]\<rparr>,
    \<lparr>radical_id = 4,
     vn = (''L'' @ [CHR 0xE1, CHR 0xBB, CHR 0xB1] @ ''c''),
     radical = [CHR 0xE5, CHR 0x8A, CHR 0x9B],
     pinyin = (''l'' @ [CHR 0xC3, CHR 0xAC]),
     meaning = (''s'' @ [CHR 0xE1, CHR 0xBB, CHR 0xA9] @ ''c; l'' @ [CHR 0xE1, CHR 0xBB, CHR 0xB1] @ ''c; c'' @ [CHR 0xE1, CHR 0xBB, CHR 0x91] @ '' g'' @ [CHR 0xE1, CHR 0xBA, CHR 0xAF] @ ''ng''),
     mnemonic = (''c'' @ [CHR 0xC3, CHR 0xA1] @ ''nh tay '' @ [CHR 0xC4, CHR 0x91] @ ''ang g'' @ [CHR 0xE1, CHR 0xBB, CHR 0x93] @ ''ng''),
     examples = [[CHR 0xE5, CHR 0x8B, CHR 0x95], [CHR 0xE5, CHR 0x8A, CHR 0xAA], [CHR 0xE5, CHR 0x8A, CHR 0xA0], [CHR 0xE5, CHR 0x8A, CHR 0xA9], [CHR 0xE5, CHR 0x8B, CHR 0x9E]]\<rparr>,
    \<lparr>radical_id = 5,
     vn = (''Th'' @ [CHR 0xE1, CHR 0xBB, CHR 0x95]),
     radical = [CHR 0xE5, CHR 0x9C, CHR 0x9F],
     pinyin = (''t'' @ [CHR 0xC7, CHR 0x94]),
     meaning = ([CHR 0xC4, CHR 0x91, CHR 0xE1, CHR 0xBA, CHR 0xA5] @ ''t; n'' @ [CHR 0xE1, CHR 0xBB, CHR 0x81] @ ''n; '' @ [CHR 0xC4, CHR 0x91, CHR 0xE1, CHR 0xBB, CHR 0x8B] @ ''a ph'' @ [CHR 0xC6, CHR 0xB0, CHR 0xC6, CHR 0xA1] @ ''ng''),
     mnemonic = (''m'' @ [CHR 0xE1, CHR 0xBA, CHR 0xB7] @ ''t '' @ [CHR 0xC4, CHR 0x91, CHR 0xE1, CHR 0xBA, CHR 0xA5] @ ''t + c'' @ [CHR 0xE1, CHR 0xBB, CHR 0x8D] @ ''c '' @ [CHR 0xC4, CHR 0x91, CHR 0xE1, CHR 0xBB, CHR 0xA9] @ ''ng''),
     examples = [[CHR 0xE5, CHR 0x9C, CHR 0xB0], [CHR 0xE5, CHR 0x9C, CHR 0xA8], [CHR 0xE5, CHR 0x9F, CHR 0x8E], [CHR 0xE5, CHR 0xA0, CHR 0xB4], [CHR 0xE5, CHR 0xA2, CHR 0x83]]\<rparr>,
    \<lparr>radical_id = 6,
     vn = ([CHR 0xC4, CHR 0x90, CHR 0xE1, CHR 0xBA, CHR 0xA1] @ ''i''),
     radical = [CHR 0xE5, CHR 0xA4, CHR 0xA7],
     pinyin = (''d'' @ [CHR 0xC3, CHR 0xA0]),
     meaning = (''to; l'' @ [CHR 0xE1, CHR 0xBB, CHR 0x9B] @ ''n''),
     mnemonic = (''ng'' @ [CHR 0xC6, CHR 0xB0, CHR 0xE1, CHR 0xBB, CHR 0x9D] @ ''i dang tay ch'' @ [CHR 0xC3, CHR 0xA2] @ ''n th'' @ [CHR 0xE1, CHR 0xBA, CHR 0xAD] @ ''t r'' @ [CHR 0xE1, CHR 0xBB, CHR 0x99] @ ''ng''),
     examples = [[CHR 0xE5, CHR 0xA4, CHR 0xA9], [CHR 0xE5, CHR 0xA4, CHR 0xAA], [CHR 0xE5, CHR 0xA4, CHR 0xAB], [CHR 0xE5, CHR 0xA4, CHR 0xAE], [CHR 0xE5, CHR 0xA5, CHR 0x87]]\<rparr>,
    \<lparr>radical_id = 7,
     vn = (''N'' @ [CHR 0xE1, CHR 0xBB, CHR 0xAF]),
     radical = [CHR 0xE5, CHR 0xA5, CHR 0xB3],
     pinyin = (''n'' @ [CHR 0xC7, CHR 0x9A]),
     meaning = (''ph'' @ [CHR 0xE1, CHR 0xBB, CHR 0xA5] @ '' n'' @ [CHR 0xE1, CHR 0xBB, CHR 0xAF] @ ''; n'' @ [CHR 0xE1, CHR 0xBB, CHR 0xAF]),
     mnemonic = (''ng'' @ [CHR 0xC6, CHR 0xB0, CHR 0xE1, CHR 0xBB, CHR 0x9D] @ ''i ph'' @ [CHR 0xE1, CHR 0xBB, CHR 0xA5] @ '' n'' @ [CHR 0xE1, CHR 0xBB, CHR 0xAF] @ '' ng'' @ [CHR 0xE1, CHR 0xBB, CHR 0x93] @ ''i''),
     examples = [[CHR 0xE5, CHR 0xA5, CHR 0xBD], [CHR 0xE5, CHR 0xAA, CHR 0xBD], [CHR 0xE5, CHR 0xA7, CHR 0x90], [CHR 0xE5, CHR 0xA6, CHR 0xB9], [CHR 0xE5, CHR 0xA7, CHR 0x93]]\<rparr>,
    \<lparr>radical_id = 8,
     vn = (''T'' @ [CHR 0xE1, CHR 0xBB, CHR 0xAD]),
     radical = [CHR 0xE5, CHR 0xAD, CHR 0x90],
     pinyin = (''z'' @ [CHR 0xC7, CHR 0x90]),
     meaning = (''con; tr'' @ [CHR 0xE1, CHR 0xBA, CHR 0xBB] @ '' em''),
     mnemonic = (''em b'' @ [CHR 0xC3, CHR 0xA9] @ '' dang tay''),
     examples = [[CHR 0xE5, CHR 0xAD, CHR 0x97], [CHR 0xE5, CHR 0xAD, CHR 0xA9], [CHR 0xE5, CHR 0xAD, CHR 0x94], [CHR 0xE5, CHR 0xAD, CHR 0xAB], [CHR 0xE5, CHR 0xAD, CHR 0xB8]]\<rparr>,
    \<lparr>radical_id = 9,
     vn = (''Mi'' @ [CHR 0xC3, CHR 0xAA] @ ''n''),
     radical = [CHR 0xE5, CHR 0xAE, CHR 0x80],
     pinyin = (''mi'' @ [CHR 0xC3, CHR 0xA1] @ ''n''),
     meaning = (''m'' @ [CHR 0xC3, CHR 0xA1] @ ''i nh'' @ [CHR 0xC3, CHR 0xA0] @ ''; trong nh'' @ [CHR 0xC3, CHR 0xA0]),
     mnemonic = (''m'' @ [CHR 0xC3, CHR 0xA1] @ ''i che ph'' @ [CHR 0xC3, CHR 0xAD] @ ''a tr'' @ [CHR 0xC3, CHR 0xAA] @ ''n''),
     examples = [[CHR 0xE5, CHR 0xAE, CHR 0xB6], [CHR 0xE5, CHR 0xAE, CHR 0x89], [CHR 0xE5, CHR 0xAE, CHR 0xA4], [CHR 0xE5, CHR 0xAE, CHR 0xA2], [CHR 0xE5, CHR 0xAE, CHR 0xBF]]\<rparr>,
    \<lparr>radical_id = 10,
     vn = (''S'' @ [CHR 0xC6, CHR 0xA1] @ ''n''),
     radical = [CHR 0xE5, CHR 0xB1, CHR 0xB1],
     pinyin = (''sh'' @ [CHR 0xC4, CHR 0x81] @ ''n''),
     meaning = (''n'' @ [CHR 0xC3, CHR 0xBA] @ ''i''),
     mnemonic = (''ba '' @ [CHR 0xC4, CHR 0x91, CHR 0xE1, CHR 0xBB, CHR 0x89] @ ''nh n'' @ [CHR 0xC3, CHR 0xBA] @ ''i''),
     examples = [[CHR 0xE5, CHR 0x87, CHR 0xBA], [CHR 0xE5, CHR 0xB3, CHR 0xB6], [CHR 0xE5, CHR 0xB2, CHR 0xA9], [CHR 0xE5, CHR 0xB3, CHR 0xB0], [CHR 0xE5, CHR 0xB2, CHR 0xB8]]\<rparr>,
    \<lparr>radical_id = 11,
     vn = (''Nh'' @ [CHR 0xE1, CHR 0xBA, CHR 0xAD] @ ''t''),
     radical = [CHR 0xE6, CHR 0x97, CHR 0xA5],
     pinyin = (''r'' @ [CHR 0xC3, CHR 0xAC]),
     meaning = (''m'' @ [CHR 0xE1, CHR 0xBA, CHR 0xB7] @ ''t tr'' @ [CHR 0xE1, CHR 0xBB, CHR 0x9D] @ ''i; ng'' @ [CHR 0xC3, CHR 0xA0] @ ''y''),
     mnemonic = (''m'' @ [CHR 0xE1, CHR 0xBA, CHR 0xB7] @ ''t tr'' @ [CHR 0xE1, CHR 0xBB, CHR 0x9D] @ ''i h'' @ [CHR 0xC3, CHR 0xAC] @ ''nh '' @ [CHR 0xC3, CHR 0xB4] @ '' vu'' @ [CHR 0xC3, CHR 0xB4] @ ''ng''),
     examples = [[CHR 0xE6, CHR 0x98, CHR 0x8E], [CHR 0xE6, CHR 0x99, CHR 0x82], [CHR 0xE6, CHR 0x97, CHR 0xA9], [CHR 0xE6, CHR 0x99, CHR 0x9A], [CHR 0xE6, CHR 0x98, CHR 0x9F]]\<rparr>,
    \<lparr>radical_id = 12,
     vn = (''Nguy'' @ [CHR 0xE1, CHR 0xBB, CHR 0x87] @ ''t''),
     radical = [CHR 0xE6, CHR 0x9C, CHR 0x88],
     pinyin = (''yu'' @ [CHR 0xC3, CHR 0xA8]),
     meaning = (''m'' @ [CHR 0xE1, CHR 0xBA, CHR 0xB7] @ ''t tr'' @ [CHR 0xC4, CHR 0x83] @ ''ng; th'' @ [CHR 0xC3, CHR 0xA1] @ ''ng ('' @ [CHR 0xC4, CHR 0x91, CHR 0xC3, CHR 0xB4] @ ''i khi g'' @ [CHR 0xE1, CHR 0xBB, CHR 0xA3] @ ''i b'' @ [CHR 0xE1, CHR 0xBB, CHR 0x99] @ '' ph'' @ [CHR 0xE1, CHR 0xBA, CHR 0xAD] @ ''n c'' @ [CHR 0xC6, CHR 0xA1] @ '' th'' @ [CHR 0xE1, CHR 0xBB, CHR 0x83] @ '')''),
     mnemonic = (''m'' @ [CHR 0xE1, CHR 0xBA, CHR 0xB7] @ ''t tr'' @ [CHR 0xC4, CHR 0x83] @ ''ng cong''),
     examples = [[CHR 0xE6, CHR 0x9C, CHR 0x8D], [CHR 0xE6, CHR 0x9C, CHR 0x9F], [CHR 0xE6, CHR 0x9C, CHR 0x8B], [CHR 0xE8, CHR 0x85, CHR 0xA6], [CHR 0xE8, CHR 0x85, CHR 0xB3]]\<rparr>,
    \<lparr>radical_id = 13,
     vn = (''M'' @ [CHR 0xE1, CHR 0xBB, CHR 0x99] @ ''c''),
     radical = [CHR 0xE6, CHR 0x9C, CHR 0xA8],
     pinyin = (''m'' @ [CHR 0xC3, CHR 0xB9]),
     meaning = (''c'' @ [CHR 0xC3, CHR 0xA2] @ ''y; g'' @ [CHR 0xE1, CHR 0xBB, CHR 0x97]),
     mnemonic = (''th'' @ [CHR 0xC3, CHR 0xA2] @ ''n c'' @ [CHR 0xC3, CHR 0xA2] @ ''y + c'' @ [CHR 0xC3, CHR 0xA0] @ ''nh''),
     examples = [[CHR 0xE6, CHR 0x9E, CHR 0x97], [CHR 0xE6, CHR 0xA3, CHR 0xAE], [CHR 0xE6, CHR 0xA1, CHR 0x8C], [CHR 0xE6, CHR 0xA0, CHR 0xA1], [CHR 0xE6, CHR 0x9D, CHR 0xAF]]\<rparr>,
    \<lparr>radical_id = 14,
     vn = (''Th'' @ [CHR 0xE1, CHR 0xBB, CHR 0xA7] @ ''y''),
     radical = ([CHR 0xE6, CHR 0xB0, CHR 0xB4] @ '' / '' @ [CHR 0xE6, CHR 0xB0, CHR 0xB5]),
     pinyin = (''shu'' @ [CHR 0xC7, CHR 0x90]),
     meaning = (''n'' @ [CHR 0xC6, CHR 0xB0, CHR 0xE1, CHR 0xBB, CHR 0x9B] @ ''c; ch'' @ [CHR 0xE1, CHR 0xBA, CHR 0xA5] @ ''t l'' @ [CHR 0xE1, CHR 0xBB, CHR 0x8F] @ ''ng''),
     mnemonic = (''d'' @ [CHR 0xC3, CHR 0xB2] @ ''ng n'' @ [CHR 0xC6, CHR 0xB0, CHR 0xE1, CHR 0xBB, CHR 0x9B] @ ''c ch'' @ [CHR 0xE1, CHR 0xBA, CHR 0xA3] @ ''y''),
     examples = [[CHR 0xE6, CHR 0xB2, CHR 0xB3], [CHR 0xE6, CHR 0xB5, CHR 0xB7], [CHR 0xE6, CHR 0xB4, CHR 0x97], [CHR 0xE9, CHR 0x85, CHR 0x92], [CHR 0xE6, CHR 0xB8, CHR 0xB8]]\<rparr>,
    \<lparr>radical_id = 15,
     vn = (''H'' @ [CHR 0xE1, CHR 0xBB, CHR 0x8F] @ ''a''),
     radical = ([CHR 0xE7, CHR 0x81, CHR 0xAB] @ '' / '' @ [CHR 0xE7, CHR 0x81, CHR 0xAC]),
     pinyin = (''hu'' @ [CHR 0xC7, CHR 0x92]),
     meaning = (''l'' @ [CHR 0xE1, CHR 0xBB, CHR 0xAD] @ ''a; n'' @ [CHR 0xC3, CHR 0xB3] @ ''ng; n'' @ [CHR 0xE1, CHR 0xBA, CHR 0xA5] @ ''u''),
     mnemonic = (''ng'' @ [CHR 0xE1, CHR 0xBB, CHR 0x8D] @ ''n l'' @ [CHR 0xE1, CHR 0xBB, CHR 0xAD] @ ''a b'' @ [CHR 0xE1, CHR 0xBB, CHR 0x91] @ ''c l'' @ [CHR 0xC3, CHR 0xAA] @ ''n''),
     examples = [[CHR 0xE7, CHR 0x86, CHR 0xB1], [CHR 0xE7, CHR 0x87, CHR 0x88], [CHR 0xE7, CHR 0x85, CHR 0xAE], [CHR 0xE7, CHR 0x84, CHR 0xB6], [CHR 0xE7, CHR 0x85, CHR 0x99]]\<rparr>,
    \<lparr>radical_id = 16,
     vn = (''Ng'' @ [CHR 0xC6, CHR 0xB0] @ ''u''),
     radical = [CHR 0xE7, CHR 0x89, CHR 0x9B],
     pinyin = (''ni'' @ [CHR 0xC3, CHR 0xBA]),
     meaning = (''tr'' @ [CHR 0xC3, CHR 0xA2] @ ''u/b'' @ [CHR 0xC3, CHR 0xB2]),
     mnemonic = ([CHR 0xC4, CHR 0x91, CHR 0xE1, CHR 0xBA, CHR 0xA7] @ ''u b'' @ [CHR 0xC3, CHR 0xB2] @ '' c'' @ [CHR 0xC3, CHR 0xB3] @ '' s'' @ [CHR 0xE1, CHR 0xBB, CHR 0xAB] @ ''ng''),
     examples = [[CHR 0xE7, CHR 0x89, CHR 0xA9], [CHR 0xE7, CHR 0x89, CHR 0xB9], [CHR 0xE7, CHR 0x89, CHR 0xBD], [CHR 0xE7, CHR 0x89, CHR 0xA7], [CHR 0xE7, CHR 0x8A, CHR 0xA7]]\<rparr>,
    \<lparr>radical_id = 17,
     vn = (''Khuy'' @ [CHR 0xE1, CHR 0xBB, CHR 0x83] @ ''n''),
     radical = ([CHR 0xE7, CHR 0x8A, CHR 0xAC] @ '' / '' @ [CHR 0xE7, CHR 0x8A, CHR 0xAD]),
     pinyin = (''qu'' @ [CHR 0xC7, CHR 0x8E] @ ''n''),
     meaning = (''ch'' @ [CHR 0xC3, CHR 0xB3] @ ''; th'' @ [CHR 0xC3, CHR 0xBA]),
     mnemonic = (''con ch'' @ [CHR 0xC3, CHR 0xB3] @ '' c'' @ [CHR 0xC3, CHR 0xB3] @ '' '' @ [CHR 0xC4, CHR 0x91] @ ''u'' @ [CHR 0xC3, CHR 0xB4] @ ''i''),
     examples = [[CHR 0xE7, CHR 0x8B, CHR 0x97], [CHR 0xE7, CHR 0x8D, CHR 0xA8], [CHR 0xE7, CHR 0x8D, CHR 0x8E], [CHR 0xE7, CHR 0x8C, CHR 0xB6], [CHR 0xE7, CHR 0x8D, CHR 0xB5]]\<rparr>,
    \<lparr>radical_id = 18,
     vn = ([CHR 0xC4, CHR 0x90] @ ''i'' @ [CHR 0xE1, CHR 0xBB, CHR 0x81] @ ''n''),
     radical = [CHR 0xE7, CHR 0x94, CHR 0xB0],
     pinyin = (''ti'' @ [CHR 0xC3, CHR 0xA1] @ ''n''),
     meaning = (''ru'' @ [CHR 0xE1, CHR 0xBB, CHR 0x99] @ ''ng; '' @ [CHR 0xC3, CHR 0xB4] @ ''/khu''),
     mnemonic = (''ru'' @ [CHR 0xE1, CHR 0xBB, CHR 0x99] @ ''ng chia 4 '' @ [CHR 0xC3, CHR 0xB4]),
     examples = [[CHR 0xE7, CHR 0x94, CHR 0xB7], [CHR 0xE7, CHR 0x95, CHR 0x8C], [CHR 0xE7, CHR 0x95, CHR 0x99], [CHR 0xE7, CHR 0x95, CHR 0xB6], [CHR 0xE7, CHR 0x95, CHR 0xAB]]\<rparr>,
    \<lparr>radical_id = 19,
     vn = (''M'' @ [CHR 0xE1, CHR 0xBB, CHR 0xA5] @ ''c''),
     radical = [CHR 0xE7, CHR 0x9B, CHR 0xAE],
     pinyin = (''m'' @ [CHR 0xC3, CHR 0xB9]),
     meaning = (''m'' @ [CHR 0xE1, CHR 0xBA, CHR 0xAF] @ ''t; nh'' @ [CHR 0xC3, CHR 0xAC] @ ''n''),
     mnemonic = (''con m'' @ [CHR 0xE1, CHR 0xBA, CHR 0xAF] @ ''t c'' @ [CHR 0xC3, CHR 0xB3] @ '' '' @ [CHR 0xC4, CHR 0x91, CHR 0xE1, CHR 0xBB, CHR 0x93] @ ''ng t'' @ [CHR 0xE1, CHR 0xBB, CHR 0xAD]),
     examples = [[CHR 0xE7, CHR 0x9C, CHR 0x8B], [CHR 0xE7, CHR 0x9B, CHR 0xB8], [CHR 0xE7, CHR 0x9C, CHR 0xBC], [CHR 0xE7, CHR 0x9B, CHR 0xB4], [CHR 0xE7, CHR 0x9D, CHR 0xA1]]\<rparr>,
    \<lparr>radical_id = 20,
     vn = (''Th'' @ [CHR 0xE1, CHR 0xBA, CHR 0xA1] @ ''ch''),
     radical = [CHR 0xE7, CHR 0x9F, CHR 0xB3],
     pinyin = (''sh'' @ [CHR 0xC3, CHR 0xAD]),
     meaning = ([CHR 0xC4, CHR 0x91, CHR 0xC3, CHR 0xA1] @ ''; c'' @ [CHR 0xE1, CHR 0xBB, CHR 0xA9] @ ''ng; kho'' @ [CHR 0xC3, CHR 0xA1] @ ''ng''),
     mnemonic = (''h'' @ [CHR 0xC3, CHR 0xB2] @ ''n '' @ [CHR 0xC4, CHR 0x91, CHR 0xC3, CHR 0xA1] @ '' d'' @ [CHR 0xC6, CHR 0xB0, CHR 0xE1, CHR 0xBB, CHR 0x9B] @ ''i ch'' @ [CHR 0xC3, CHR 0xA2] @ ''n n'' @ [CHR 0xC3, CHR 0xBA] @ ''i''),
     examples = [[CHR 0xE7, CHR 0xA1, CHR 0xAC], [CHR 0xE7, CHR 0xA0, CHR 0xB4], [CHR 0xE7, CHR 0xA2, CHR 0x97], [CHR 0xE7, CHR 0xA4, CHR 0xA6], [CHR 0xE7, CHR 0xA2, CHR 0xBC]]\<rparr>,
    \<lparr>radical_id = 21,
     vn = (''H'' @ [CHR 0xC3, CHR 0xB2] @ ''a''),
     radical = [CHR 0xE7, CHR 0xA6, CHR 0xBE],
     pinyin = (''h'' @ [CHR 0xC3, CHR 0xA9]),
     meaning = (''l'' @ [CHR 0xC3, CHR 0xBA] @ ''a; m'' @ [CHR 0xC3, CHR 0xB9] @ ''a v'' @ [CHR 0xE1, CHR 0xBB, CHR 0xA5]),
     mnemonic = (''b'' @ [CHR 0xC3, CHR 0xB4] @ ''ng l'' @ [CHR 0xC3, CHR 0xBA] @ ''a c'' @ [CHR 0xC3, CHR 0xB3] @ '' h'' @ [CHR 0xE1, CHR 0xBA, CHR 0xA1] @ ''t''),
     examples = [[CHR 0xE7, CHR 0xA7, CHR 0x8B], [CHR 0xE7, CHR 0xA8, CHR 0xAE], [CHR 0xE7, CHR 0xA7, CHR 0x91], [CHR 0xE7, CHR 0xA8, CHR 0x85], [CHR 0xE7, CHR 0xA9, CHR 0xA9]]\<rparr>,
    \<lparr>radical_id = 22,
     vn = (''Tr'' @ [CHR 0xC3, CHR 0xBA] @ ''c''),
     radical = ([CHR 0xE7, CHR 0xAB, CHR 0xB9] @ '' / '' @ [CHR 0xE2, CHR 0xBA, CHR 0xAE]),
     pinyin = (''zh'' @ [CHR 0xC3, CHR 0xBA]),
     meaning = (''tre; '' @ [CHR 0xC4, CHR 0x91, CHR 0xE1, CHR 0xBB, CHR 0x93] @ '' tre; b'' @ [CHR 0xC3, CHR 0xBA] @ ''t/s'' @ [CHR 0xC3, CHR 0xA1] @ ''ch''),
     mnemonic = (''hai th'' @ [CHR 0xC3, CHR 0xA2] @ ''n tre song song''),
     examples = [[CHR 0xE7, CHR 0xAD, CHR 0x86], [CHR 0xE7, CHR 0xAC, CHR 0x91], [CHR 0xE7, CHR 0xAD, CHR 0x89], [CHR 0xE7, CHR 0xAE, CHR 0xB1], [CHR 0xE7, CHR 0xB0, CHR 0xA1]]\<rparr>,
    \<lparr>radical_id = 23,
     vn = (''M'' @ [CHR 0xE1, CHR 0xBB, CHR 0x85]),
     radical = [CHR 0xE7, CHR 0xB1, CHR 0xB3],
     pinyin = (''m'' @ [CHR 0xC7, CHR 0x90]),
     meaning = (''g'' @ [CHR 0xE1, CHR 0xBA, CHR 0xA1] @ ''o; h'' @ [CHR 0xE1, CHR 0xBA, CHR 0xA1] @ ''t; b'' @ [CHR 0xE1, CHR 0xBB, CHR 0x99] @ ''t''),
     mnemonic = (''h'' @ [CHR 0xE1, CHR 0xBA, CHR 0xA1] @ ''t g'' @ [CHR 0xE1, CHR 0xBA, CHR 0xA1] @ ''o t'' @ [CHR 0xE1, CHR 0xBB, CHR 0x8F] @ ''a ra''),
     examples = [[CHR 0xE7, CHR 0xB2, CHR 0x89], [CHR 0xE7, CHR 0xB3, CHR 0x96], [CHR 0xE7, CHR 0xB2, CHR 0xBE], [CHR 0xE7, CHR 0xB3, CHR 0xA7], [CHR 0xE7, CHR 0xB2, CHR 0xA5]]\<rparr>,
    \<lparr>radical_id = 24,
     vn = (''Th'' @ [CHR 0xE1, CHR 0xBA, CHR 0xA3] @ ''o''),
     radical = ([CHR 0xE8, CHR 0x89, CHR 0xB8] @ '' / '' @ [CHR 0xE8, CHR 0x89, CHR 0xB9]),
     pinyin = (''c'' @ [CHR 0xC7, CHR 0x8E] @ ''o''),
     meaning = (''c'' @ [CHR 0xE1, CHR 0xBB, CHR 0x8F] @ ''; th'' @ [CHR 0xE1, CHR 0xBA, CHR 0xA3] @ ''o m'' @ [CHR 0xE1, CHR 0xBB, CHR 0x99] @ ''c''),
     mnemonic = (''c'' @ [CHR 0xE1, CHR 0xBB, CHR 0x8F] @ '' m'' @ [CHR 0xE1, CHR 0xBB, CHR 0x8D] @ ''c tr'' @ [CHR 0xC3, CHR 0xAA] @ ''n '' @ [CHR 0xC4, CHR 0x91, CHR 0xE1, CHR 0xBA, CHR 0xA7] @ ''u ch'' @ [CHR 0xE1, CHR 0xBB, CHR 0xAF]),
     examples = [[CHR 0xE8, CHR 0x8A, CHR 0xB1], [CHR 0xE8, CHR 0x8C, CHR 0xB6], [CHR 0xE8, CHR 0x8F, CHR 0x9C], [CHR 0xE8, CHR 0x97, CHR 0xA5], [CHR 0xE8, CHR 0x8D, CHR 0x89]]\<rparr>,
    \<lparr>radical_id = 25,
     vn = (''Tr'' @ [CHR 0xC3, CHR 0xB9] @ ''ng''),
     radical = [CHR 0xE8, CHR 0x99, CHR 0xAB],
     pinyin = (''ch'' @ [CHR 0xC3, CHR 0xB3] @ ''ng''),
     meaning = (''c'' @ [CHR 0xC3, CHR 0xB4] @ ''n tr'' @ [CHR 0xC3, CHR 0xB9] @ ''ng; s'' @ [CHR 0xC3, CHR 0xA2] @ ''u''),
     mnemonic = (''con s'' @ [CHR 0xC3, CHR 0xA2] @ ''u c'' @ [CHR 0xC3, CHR 0xB3] @ '' '' @ [CHR 0xC4, CHR 0x91, CHR 0xE1, CHR 0xBA, CHR 0xA7] @ ''u''),
     examples = [[CHR 0xE8, CHR 0x9B, CHR 0x87], [CHR 0xE8, CHR 0x9D, CHR 0xA6], [CHR 0xE8, CHR 0x9C, CHR 0x82], [CHR 0xE8, CHR 0x9A, CHR 0x8A], [CHR 0xE8, CHR 0x9B, CHR 0x8B]]\<rparr>,
    \<lparr>radical_id = 26,
     vn = ''Y'',
     radical = ([CHR 0xE8, CHR 0xA1, CHR 0xA3] @ '' / '' @ [CHR 0xE8, CHR 0xA1, CHR 0xA4]),
     pinyin = (''y'' @ [CHR 0xC4, CHR 0xAB]),
     meaning = (''qu'' @ [CHR 0xE1, CHR 0xBA, CHR 0xA7] @ ''n '' @ [CHR 0xC3, CHR 0xA1] @ ''o; m'' @ [CHR 0xE1, CHR 0xBA, CHR 0xB7] @ ''c''),
     mnemonic = ([CHR 0xC3, CHR 0xA1] @ ''o cho'' @ [CHR 0xC3, CHR 0xA0] @ ''ng ph'' @ [CHR 0xE1, CHR 0xBB, CHR 0xA7] @ '' ng'' @ [CHR 0xC6, CHR 0xB0, CHR 0xE1, CHR 0xBB, CHR 0x9D] @ ''i''),
     examples = [[CHR 0xE8, CHR 0xA2, CHR 0xAB], [CHR 0xE8, CHR 0xA4, CHR 0xB2], [CHR 0xE8, CHR 0xA3, CHR 0x99], [CHR 0xE8, CHR 0xA3, CHR 0x9D], [CHR 0xE8, CHR 0xA3, CHR 0x9C]]\<rparr>,
    \<lparr>radical_id = 27,
     vn = (''Ng'' @ [CHR 0xC3, CHR 0xB4] @ ''n''),
     radical = ([CHR 0xE8, CHR 0xA8, CHR 0x80] @ '' / '' @ [CHR 0xE8, CHR 0xA8, CHR 0x81]),
     pinyin = (''y'' @ [CHR 0xC3, CHR 0xA1] @ ''n''),
     meaning = (''l'' @ [CHR 0xE1, CHR 0xBB, CHR 0x9D] @ ''i n'' @ [CHR 0xC3, CHR 0xB3] @ ''i; ng'' @ [CHR 0xC3, CHR 0xB4] @ ''n ng'' @ [CHR 0xE1, CHR 0xBB, CHR 0xAF]),
     mnemonic = (''mi'' @ [CHR 0xE1, CHR 0xBB, CHR 0x87] @ ''ng ph'' @ [CHR 0xC3, CHR 0xA1] @ ''t ra l'' @ [CHR 0xE1, CHR 0xBB, CHR 0x9D] @ ''i''),
     examples = [[CHR 0xE8, CHR 0xA9, CHR 0xB1], [CHR 0xE8, CHR 0xAA, CHR 0xAA], [CHR 0xE8, CHR 0xAC, CHR 0x9D], [CHR 0xE8, CHR 0xAB, CHR 0x8B], [CHR 0xE8, CHR 0xAA, CHR 0x8D]]\<rparr>,
    \<lparr>radical_id = 28,
     vn = (''T'' @ [CHR 0xC3, CHR 0xA2] @ ''m''),
     radical = ([CHR 0xE5, CHR 0xBF, CHR 0x83] @ '' / '' @ [CHR 0xE5, CHR 0xBF, CHR 0x84]),
     pinyin = (''x'' @ [CHR 0xC4, CHR 0xAB] @ ''n''),
     meaning = (''tim; c'' @ [CHR 0xE1, CHR 0xBA, CHR 0xA3] @ ''m x'' @ [CHR 0xC3, CHR 0xBA] @ ''c; ngh'' @ [CHR 0xC4, CHR 0xA9]),
     mnemonic = (''tr'' @ [CHR 0xC3, CHR 0xA1] @ ''i tim 3 nh'' @ [CHR 0xE1, CHR 0xBB, CHR 0x8B] @ ''p''),
     examples = [[CHR 0xE6, CHR 0x83, CHR 0xB3], [CHR 0xE5, CHR 0xBF, CHR 0x99], [CHR 0xE5, CHR 0xBF, CHR 0xAB], [CHR 0xE6, CHR 0x84, CHR 0x9B], [CHR 0xE6, CHR 0x83, CHR 0x85]]\<rparr>,
    \<lparr>radical_id = 29,
     vn = (''B'' @ [CHR 0xE1, CHR 0xBB, CHR 0x91] @ ''i''),
     radical = [CHR 0xE8, CHR 0xB2, CHR 0x9D],
     pinyin = (''b'' @ [CHR 0xC3, CHR 0xA8] @ ''i''),
     meaning = (''ti'' @ [CHR 0xE1, CHR 0xBB, CHR 0x81] @ ''n; c'' @ [CHR 0xE1, CHR 0xBB, CHR 0xA7] @ ''a c'' @ [CHR 0xE1, CHR 0xBA, CHR 0xA3] @ ''i''),
     mnemonic = (''v'' @ [CHR 0xE1, CHR 0xBB, CHR 0x8F] @ '' s'' @ [CHR 0xC3, CHR 0xB2] @ '' c'' @ [CHR 0xE1, CHR 0xBB, CHR 0x95] @ '' '' @ [CHR 0xC4, CHR 0x91, CHR 0xE1, CHR 0xBA, CHR 0xA1] @ ''i = ti'' @ [CHR 0xE1, CHR 0xBB, CHR 0x81] @ ''n''),
     examples = [[CHR 0xE8, CHR 0xB2, CHR 0xB7], [CHR 0xE8, CHR 0xB2, CHR 0xB4], [CHR 0xE8, CHR 0xB2, CHR 0xA1], [CHR 0xE8, CHR 0xB2, CHR 0xBB], [CHR 0xE8, CHR 0xB2, CHR 0xBF]]\<rparr>,
    \<lparr>radical_id = 30,
     vn = (''T'' @ [CHR 0xC3, CHR 0xBA] @ ''c''),
     radical = ([CHR 0xE8, CHR 0xB6, CHR 0xB3] @ '' / '' @ [CHR 0xE2, CHR 0xBB, CHR 0x8A]),
     pinyin = (''z'' @ [CHR 0xC3, CHR 0xBA]),
     meaning = (''ch'' @ [CHR 0xC3, CHR 0xA2] @ ''n; '' @ [CHR 0xC4, CHR 0x91] @ ''i; '' @ [CHR 0xC4, CHR 0x91, CHR 0xE1, CHR 0xBB, CHR 0xA7]),
     mnemonic = (''b'' @ [CHR 0xC3, CHR 0xA0] @ ''n ch'' @ [CHR 0xC3, CHR 0xA2] @ ''n b'' @ [CHR 0xC6, CHR 0xB0, CHR 0xE1, CHR 0xBB, CHR 0x9B] @ ''c '' @ [CHR 0xC4, CHR 0x91] @ ''i''),
     examples = [[CHR 0xE8, CHR 0xB7, CHR 0xAF], [CHR 0xE8, CHR 0xB7, CHR 0x91], [CHR 0xE8, CHR 0xB7, CHR 0x9F], [CHR 0xE8, CHR 0xB7, CHR 0x9D], [CHR 0xE8, CHR 0xB7, CHR 0xB3]]\<rparr>,
    \<lparr>radical_id = 31,
     vn = ''Xa'',
     radical = [CHR 0xE8, CHR 0xBB, CHR 0x8A],
     pinyin = (''ch'' @ [CHR 0xC4, CHR 0x93]),
     meaning = (''xe; ph'' @ [CHR 0xC6, CHR 0xB0, CHR 0xC6, CHR 0xA1] @ ''ng ti'' @ [CHR 0xE1, CHR 0xBB, CHR 0x87] @ ''n''),
     mnemonic = (''khung xe + b'' @ [CHR 0xC3, CHR 0xA1] @ ''nh''),
     examples = [[CHR 0xE9, CHR 0x96, CHR 0x8B], [CHR 0xE8, CHR 0xBB, CHR 0x8D], [CHR 0xE8, CHR 0xBD, CHR 0x89], [CHR 0xE8, CHR 0xBC, CHR 0xAA], [CHR 0xE8, CHR 0xBC, CHR 0x95]]\<rparr>,
    \<lparr>radical_id = 32,
     vn = (''S'' @ [CHR 0xC6, CHR 0xB0, CHR 0xE1, CHR 0xBB, CHR 0x9B] @ ''c''),
     radical = [CHR 0xE8, CHR 0xBE, CHR 0xB6],
     pinyin = (''chu'' @ [CHR 0xC3, CHR 0xB2]),
     meaning = ([CHR 0xC4, CHR 0x91] @ ''i l'' @ [CHR 0xE1, CHR 0xBA, CHR 0xA1] @ ''i; '' @ [CHR 0xC4, CHR 0x91, CHR 0xC6, CHR 0xB0, CHR 0xE1, CHR 0xBB, CHR 0x9D] @ ''ng; '' @ [CHR 0xC4, CHR 0x91, CHR 0xE1, CHR 0xBA, CHR 0xBF] @ ''n''),
     mnemonic = ([CHR 0xC4, CHR 0x91, CHR 0xC6, CHR 0xB0, CHR 0xE1, CHR 0xBB, CHR 0x9D] @ ''ng cong + b'' @ [CHR 0xC6, CHR 0xB0, CHR 0xE1, CHR 0xBB, CHR 0x9B] @ ''c''),
     examples = [[CHR 0xE9, CHR 0x80, CHR 0x99], [CHR 0xE9, CHR 0x80, CHR 0xB2], [CHR 0xE8, CHR 0xBF, CHR 0x91], [CHR 0xE9, CHR 0x81, CHR 0xA0], [CHR 0xE9, CHR 0x82, CHR 0x84]]\<rparr>,
    \<lparr>radical_id = 33,
     vn = ([CHR 0xE1, CHR 0xBA, CHR 0xA4] @ ''p''),
     radical = ([CHR 0xE9, CHR 0x82, CHR 0x91] @ '' / '' @ [CHR 0xE9, CHR 0x98, CHR 0x9D] @ ''(pha'' @ [CHR 0xCC, CHR 0x89] @ ''i)''),
     pinyin = (''y'' @ [CHR 0xC3, CHR 0xAC]),
     meaning = (''l'' @ [CHR 0xC3, CHR 0xA0] @ ''ng/th'' @ [CHR 0xC3, CHR 0xA0] @ ''nh; n'' @ [CHR 0xC6, CHR 0xA1] @ ''i ch'' @ [CHR 0xE1, CHR 0xBB, CHR 0x91] @ ''n''),
     mnemonic = (''khu d'' @ [CHR 0xC3, CHR 0xA2] @ ''n c'' @ [CHR 0xC6, CHR 0xB0] @ '' c'' @ [CHR 0xC3, CHR 0xB3] @ '' t'' @ [CHR 0xC6, CHR 0xB0, CHR 0xE1, CHR 0xBB, CHR 0x9D] @ ''ng''),
     examples = [[CHR 0xE9, CHR 0x83, CHR 0xBD], [CHR 0xE9, CHR 0x83, CHR 0xB5], [CHR 0xE9, CHR 0x83, CHR 0x8A], [CHR 0xE9, CHR 0x84, CHR 0x89], [CHR 0xE9, CHR 0x84, CHR 0xB0]]\<rparr>,
    \<lparr>radical_id = 34,
     vn = (''Ph'' @ [CHR 0xE1, CHR 0xBB, CHR 0xA5]),
     radical = ([CHR 0xE9, CHR 0x98, CHR 0x9C] @ '' / '' @ [CHR 0xE9, CHR 0x98, CHR 0x9D] @ ''(tra'' @ [CHR 0xCC, CHR 0x81] @ ''i)''),
     pinyin = (''f'' @ [CHR 0xC3, CHR 0xB9]),
     meaning = (''g'' @ [CHR 0xC3, CHR 0xB2] @ ''/'' @ [CHR 0xC4, CHR 0x91, CHR 0xE1, CHR 0xBB, CHR 0x93] @ ''i; b'' @ [CHR 0xE1, CHR 0xBA, CHR 0xAD] @ ''c''),
     mnemonic = (''b'' @ [CHR 0xE1, CHR 0xBA, CHR 0xAD] @ ''c th'' @ [CHR 0xE1, CHR 0xBB, CHR 0x81] @ ''m/'' @ [CHR 0xC4, CHR 0x91, CHR 0xE1, CHR 0xBB, CHR 0x91] @ ''ng '' @ [CHR 0xC4, CHR 0x91, CHR 0xE1, CHR 0xBA, CHR 0xA5] @ ''t''),
     examples = [[CHR 0xE9, CHR 0x99, CHR 0xB8], [CHR 0xE9, CHR 0x9A, CHR 0x8E], [CHR 0xE9, CHR 0x99, CHR 0x8D], [CHR 0xE9, CHR 0x9A, CHR 0x8A], [CHR 0xE9, CHR 0x99, CHR 0xBD]]\<rparr>,
    \<lparr>radical_id = 35,
     vn = ''Kim'',
     radical = [CHR 0xE9, CHR 0x87, CHR 0x91],
     pinyin = (''j'' @ [CHR 0xC4, CHR 0xAB] @ ''n''),
     meaning = (''kim lo'' @ [CHR 0xE1, CHR 0xBA, CHR 0xA1] @ ''i; v'' @ [CHR 0xC3, CHR 0xA0] @ ''ng''),
     mnemonic = (''kim lo'' @ [CHR 0xE1, CHR 0xBA, CHR 0xA1] @ ''i l'' @ [CHR 0xE1, CHR 0xBA, CHR 0xA5] @ ''p l'' @ [CHR 0xC3, CHR 0xA1] @ ''nh''),
     examples = [[CHR 0xE9, CHR 0x8C, CHR 0xA2], [CHR 0xE9, CHR 0x8A, CHR 0x80], [CHR 0xE9, CHR 0x90, CHR 0xB5], [CHR 0xE9, CHR 0x90, CHR 0x98], [CHR 0xE9, CHR 0x8A, CHR 0xB7]]\<rparr>,
    \<lparr>radical_id = 36,
     vn = (''M'' @ [CHR 0xC3, CHR 0xB4] @ ''n''),
     radical = [CHR 0xE9, CHR 0x96, CHR 0x80],
     pinyin = (''m'' @ [CHR 0xC3, CHR 0xA9] @ ''n''),
     meaning = (''c'' @ [CHR 0xE1, CHR 0xBB, CHR 0xAD] @ ''a; c'' @ [CHR 0xE1, CHR 0xBB, CHR 0x95] @ ''ng''),
     mnemonic = (''hai c'' @ [CHR 0xC3, CHR 0xA1] @ ''nh c'' @ [CHR 0xE1, CHR 0xBB, CHR 0xAD] @ ''a''),
     examples = [[CHR 0xE9, CHR 0x96, CHR 0x8B], [CHR 0xE9, CHR 0x96, CHR 0x93], [CHR 0xE8, CHR 0x81, CHR 0x9E], [CHR 0xE9, CHR 0x96, CHR 0x83], [CHR 0xE9, CHR 0x96, CHR 0x89]]\<rparr>,
    \<lparr>radical_id = 37,
     vn = (''V'' @ [CHR 0xC5, CHR 0xA9]),
     radical = [CHR 0xE9, CHR 0x9B, CHR 0xA8],
     pinyin = (''y'' @ [CHR 0xC7, CHR 0x94]),
     meaning = (''m'' @ [CHR 0xC6, CHR 0xB0] @ ''a; th'' @ [CHR 0xE1, CHR 0xBB, CHR 0x9D] @ ''i ti'' @ [CHR 0xE1, CHR 0xBA, CHR 0xBF] @ ''t''),
     mnemonic = (''m'' @ [CHR 0xC3, CHR 0xA2] @ ''y + gi'' @ [CHR 0xE1, CHR 0xBB, CHR 0x8D] @ ''t m'' @ [CHR 0xC6, CHR 0xB0] @ ''a''),
     examples = [[CHR 0xE9, CHR 0x9B, CHR 0xAA], [CHR 0xE9, CHR 0x9B, CHR 0xB7], [CHR 0xE9, CHR 0x9B, CHR 0xB2], [CHR 0xE9, CHR 0x9C, CHR 0xA7], [CHR 0xE9, CHR 0x9C, CHR 0xB2]]\<rparr>,
    \<lparr>radical_id = 38,
     vn = (''Th'' @ [CHR 0xE1, CHR 0xBB, CHR 0xB1] @ ''c''),
     radical = ([CHR 0xE9, CHR 0xA3, CHR 0x9F] @ '' / '' @ [CHR 0xE9, CHR 0xA3, CHR 0xA0]),
     pinyin = (''sh'' @ [CHR 0xC3, CHR 0xAD]),
     meaning = ([CHR 0xC4, CHR 0x83] @ ''n; th'' @ [CHR 0xE1, CHR 0xBB, CHR 0xA9] @ ''c '' @ [CHR 0xC4, CHR 0x83] @ ''n''),
     mnemonic = (''mi'' @ [CHR 0xE1, CHR 0xBB, CHR 0x87] @ ''ng + '' @ [CHR 0xC4, CHR 0x91, CHR 0xE1, CHR 0xBB, CHR 0x93] @ '' '' @ [CHR 0xC4, CHR 0x83] @ ''n''),
     examples = [[CHR 0xE9, CHR 0xA3, CHR 0xAF], [CHR 0xE9, CHR 0xA4, CHR 0x93], [CHR 0xE9, CHR 0xA4, CHR 0xA8], [CHR 0xE9, CHR 0xA3, CHR 0xB2], [CHR 0xE9, CHR 0xA4, CHR 0x85]]\<rparr>,
    \<lparr>radical_id = 39,
     vn = (''M'' @ [CHR 0xC3, CHR 0xA3]),
     radical = [CHR 0xE9, CHR 0xA6, CHR 0xAC],
     pinyin = (''m'' @ [CHR 0xC7, CHR 0x8E]),
     meaning = (''ng'' @ [CHR 0xE1, CHR 0xBB, CHR 0xB1] @ ''a''),
     mnemonic = (''ng'' @ [CHR 0xE1, CHR 0xBB, CHR 0xB1] @ ''a c'' @ [CHR 0xC3, CHR 0xB3] @ '' b'' @ [CHR 0xE1, CHR 0xBB, CHR 0x9D] @ ''m''),
     examples = [[CHR 0xE9, CHR 0xA8, CHR 0x8E], [CHR 0xE9, CHR 0xA9, CHR 0x9A], [CHR 0xE9, CHR 0xA7, CHR 0x95], [CHR 0xE9, CHR 0xA9, CHR 0x97], [CHR 0xE9, CHR 0xA9, CHR 0x9B]]\<rparr>,
    \<lparr>radical_id = 40,
     vn = (''Ng'' @ [CHR 0xC6, CHR 0xB0]),
     radical = [CHR 0xE9, CHR 0xAD, CHR 0x9A],
     pinyin = (''y'' @ [CHR 0xC3, CHR 0xBA]),
     meaning = (''c'' @ [CHR 0xC3, CHR 0xA1]),
     mnemonic = (''c'' @ [CHR 0xC3, CHR 0xA1] @ '' c'' @ [CHR 0xC3, CHR 0xB3] @ '' v'' @ [CHR 0xC3, CHR 0xA2] @ ''y''),
     examples = [[CHR 0xE9, CHR 0xAE, CHR 0xAE], [CHR 0xE9, CHR 0xAF, CHR 0xA8], [CHR 0xE9, CHR 0xB0, CHR 0xBB], [CHR 0xE9, CHR 0xB1, CHR 0x97], [CHR 0xE9, CHR 0xAD, CHR 0xAF]]\<rparr>,
    \<lparr>radical_id = 41,
     vn = ([CHR 0xC4, CHR 0x90] @ ''i'' @ [CHR 0xE1, CHR 0xBB, CHR 0x83] @ ''u''),
     radical = [CHR 0xE9, CHR 0xB3, CHR 0xA5],
     pinyin = (''ni'' @ [CHR 0xC7, CHR 0x8E] @ ''o''),
     meaning = ''chim'',
     mnemonic = (''chim c'' @ [CHR 0xC3, CHR 0xB3] @ '' m'' @ [CHR 0xE1, CHR 0xBB, CHR 0x8F]),
     examples = [[CHR 0xE9, CHR 0xB3, CHR 0xB4], [CHR 0xE9, CHR 0xB4, CHR 0xA8], [CHR 0xE9, CHR 0x9B, CHR 0x9E], [CHR 0xE9, CHR 0xB7, CHR 0xB9], [CHR 0xE9, CHR 0xB4, CHR 0xBF]]\<rparr>,
    \<lparr>radical_id = 42,
     vn = (''Qu'' @ [CHR 0xE1, CHR 0xBA, CHR 0xA3] @ ''ng''),
     radical = [CHR 0xE5, CHR 0xB9, CHR 0xBF],
     pinyin = (''gu'' @ [CHR 0xC7, CHR 0x8E] @ ''ng''),
     meaning = (''m'' @ [CHR 0xC3, CHR 0xA1] @ ''i che; t'' @ [CHR 0xC3, CHR 0xB2] @ ''a nh'' @ [CHR 0xC3, CHR 0xA0]),
     mnemonic = (''m'' @ [CHR 0xC3, CHR 0xA1] @ ''i nghi'' @ [CHR 0xC3, CHR 0xAA] @ ''ng''),
     examples = [[CHR 0xE5, CHR 0xBA, CHR 0x97], [CHR 0xE5, CHR 0xBA, CHR 0x8A], [CHR 0xE5, CHR 0xBA, CHR 0xAB], [CHR 0xE5, CHR 0xBB, CHR 0xB3], [CHR 0xE5, CHR 0xBA, CHR 0x9C]]\<rparr>,
    \<lparr>radical_id = 43,
     vn = (''Hi'' @ [CHR 0xE1, CHR 0xBB, CHR 0x87] @ ''t''),
     radical = [CHR 0xE9, CHR 0xA0, CHR 0x81],
     pinyin = (''y'' @ [CHR 0xC3, CHR 0xA8]),
     meaning = ([CHR 0xC4, CHR 0x91, CHR 0xE1, CHR 0xBA, CHR 0xA7] @ ''u; m'' @ [CHR 0xE1, CHR 0xBA, CHR 0xB7] @ ''t''),
     mnemonic = ([CHR 0xC4, CHR 0x91, CHR 0xE1, CHR 0xBA, CHR 0xA7] @ ''u ng'' @ [CHR 0xC6, CHR 0xB0, CHR 0xE1, CHR 0xBB, CHR 0x9D] @ ''i nghi'' @ [CHR 0xC3, CHR 0xAA] @ ''ng''),
     examples = [[CHR 0xE9, CHR 0xA1, CHR 0x8F], [CHR 0xE9, CHR 0xA1, CHR 0x8D], [CHR 0xE9, CHR 0xA0, CHR 0x86], [CHR 0xE9, CHR 0xA1, CHR 0x8C], [CHR 0xE9, CHR 0xA0, CHR 0xAD]]\<rparr>,
    \<lparr>radical_id = 44,
     vn = (''C'' @ [CHR 0xC3, CHR 0xB4] @ ''ng''),
     radical = [CHR 0xE5, CHR 0xB7, CHR 0xA5],
     pinyin = (''g'' @ [CHR 0xC5, CHR 0x8D] @ ''ng''),
     meaning = (''c'' @ [CHR 0xC3, CHR 0xB4] @ ''ng vi'' @ [CHR 0xE1, CHR 0xBB, CHR 0x87] @ ''c; k'' @ [CHR 0xE1, CHR 0xBB, CHR 0xB9] @ '' thu'' @ [CHR 0xE1, CHR 0xBA, CHR 0xAD] @ ''t''),
     mnemonic = (''khung d'' @ [CHR 0xE1, CHR 0xBB, CHR 0xA5] @ ''ng c'' @ [CHR 0xE1, CHR 0xBB, CHR 0xA5]),
     examples = [[CHR 0xE4, CHR 0xBD, CHR 0x9C], [CHR 0xE5, CHR 0x8A, CHR 0x9F], [CHR 0xE6, CHR 0xB1, CHR 0x9F], [CHR 0xE7, CHR 0xB4, CHR 0x85], [CHR 0xE5, CHR 0xB7, CHR 0xA7]]\<rparr>,
    \<lparr>radical_id = 45,
     vn = (''Ph'' @ [CHR 0xE1, CHR 0xBB, CHR 0x99] @ ''c''),
     radical = ([CHR 0xE6, CHR 0x94, CHR 0xB4] @ '' / '' @ [CHR 0xE6, CHR 0x94, CHR 0xB5]),
     pinyin = (''p'' @ [CHR 0xC5, CHR 0xAB]),
     meaning = ([CHR 0xC4, CHR 0x91, CHR 0xC3, CHR 0xA1] @ ''nh/t'' @ [CHR 0xC3, CHR 0xA1] @ ''c '' @ [CHR 0xC4, CHR 0x91, CHR 0xE1, CHR 0xBB, CHR 0x99] @ ''ng; s'' @ [CHR 0xE1, CHR 0xBB, CHR 0xAD] @ ''a '' @ [CHR 0xC4, CHR 0x91, CHR 0xE1, CHR 0xBB, CHR 0x95] @ ''i''),
     mnemonic = (''tay c'' @ [CHR 0xE1, CHR 0xBA, CHR 0xA7] @ ''m que g'' @ [CHR 0xC3, CHR 0xB5]),
     examples = [[CHR 0xE6, CHR 0x94, CHR 0xB9], [CHR 0xE6, CHR 0x95, CHR 0x99], [CHR 0xE6, CHR 0x94, CHR 0xB6], [CHR 0xE6, CHR 0x94, CHR 0xBB], [CHR 0xE6, CHR 0x94, CHR 0xBF]]\<rparr>,
    \<lparr>radical_id = 46,
     vn = (''Th'' @ [CHR 0xE1, CHR 0xBB, CHR 0x8B]),
     radical = ([CHR 0xE7, CHR 0xA4, CHR 0xBA] @ '' / '' @ [CHR 0xE7, CHR 0xA4, CHR 0xBB]),
     pinyin = (''sh'' @ [CHR 0xC3, CHR 0xAC]),
     meaning = (''l'' @ [CHR 0xE1, CHR 0xBB, CHR 0x85] @ ''; th'' @ [CHR 0xE1, CHR 0xBB, CHR 0x9D] @ ''; ph'' @ [CHR 0xC3, CHR 0xBA] @ ''c''),
     mnemonic = (''b'' @ [CHR 0xC3, CHR 0xA0] @ ''n th'' @ [CHR 0xE1, CHR 0xBB, CHR 0x9D] @ '' nh'' @ [CHR 0xE1, CHR 0xBB, CHR 0x8F]),
     examples = [[CHR 0xE7, CHR 0xA5, CHR 0x9E], [CHR 0xE7, CHR 0xA6, CHR 0x8F], [CHR 0xE7, CHR 0xA5, CHR 0x9D], [CHR 0xE7, CHR 0xA6, CHR 0xAE], [CHR 0xE7, CHR 0xA5, CHR 0x96]]\<rparr>,
    \<lparr>radical_id = 47,
     vn = ''Ty'',
     radical = ([CHR 0xE7, CHR 0xB3, CHR 0xB8] @ '' / '' @ [CHR 0xE7, CHR 0xB3, CHR 0xB9]),
     pinyin = (''m'' @ [CHR 0xC3, CHR 0xAC]),
     meaning = (''s'' @ [CHR 0xE1, CHR 0xBB, CHR 0xA3] @ ''i; d'' @ [CHR 0xE1, CHR 0xBB, CHR 0x87] @ ''t; li'' @ [CHR 0xC3, CHR 0xAA] @ ''n k'' @ [CHR 0xE1, CHR 0xBA, CHR 0xBF] @ ''t''),
     mnemonic = (''cu'' @ [CHR 0xE1, CHR 0xBB, CHR 0x99] @ ''n ch'' @ [CHR 0xE1, CHR 0xBB, CHR 0x89]),
     examples = [[CHR 0xE7, CHR 0xB6, CHR 0x93], [CHR 0xE7, CHR 0xB7, CHR 0x9A], [CHR 0xE7, CHR 0xB5, CHR 0x90], [CHR 0xE7, CHR 0xB4, CHR 0x9A], [CHR 0xE7, CHR 0xBA, CHR 0x8C]]\<rparr>,
    \<lparr>radical_id = 48,
     vn = (''T'' @ [CHR 0xE1, CHR 0xBA, CHR 0xA9] @ ''u''),
     radical = [CHR 0xE8, CHR 0xB5, CHR 0xB0],
     pinyin = (''z'' @ [CHR 0xC7, CHR 0x92] @ ''u''),
     meaning = ([CHR 0xC4, CHR 0x91] @ ''i; ch'' @ [CHR 0xE1, CHR 0xBA, CHR 0xA1] @ ''y''),
     mnemonic = (''ng'' @ [CHR 0xC6, CHR 0xB0, CHR 0xE1, CHR 0xBB, CHR 0x9D] @ ''i ch'' @ [CHR 0xE1, CHR 0xBA, CHR 0xA1] @ ''y nghi'' @ [CHR 0xC3, CHR 0xAA] @ ''ng''),
     examples = [[CHR 0xE8, CHR 0xB5, CHR 0xB7], [CHR 0xE8, CHR 0xB6, CHR 0x85], [CHR 0xE8, CHR 0xB5, CHR 0xB4], [CHR 0xE8, CHR 0xB6, CHR 0x95], [CHR 0xE8, CHR 0xB6, CHR 0x8A]]\<rparr>,
    \<lparr>radical_id = 49,
     vn = (''Th'' @ [CHR 0xE1, CHR 0xBA, CHR 0xAD] @ ''p''),
     radical = [CHR 0xE5, CHR 0x8D, CHR 0x81],
     pinyin = (''sh'' @ [CHR 0xC3, CHR 0xAD]),
     meaning = (''m'' @ [CHR 0xC6, CHR 0xB0, CHR 0xE1, CHR 0xBB, CHR 0x9D] @ ''i; d'' @ [CHR 0xE1, CHR 0xBA, CHR 0xA5] @ ''u c'' @ [CHR 0xE1, CHR 0xBB, CHR 0x99] @ ''ng''),
     mnemonic = (''c'' @ [CHR 0xE1, CHR 0xBA, CHR 0xAF] @ ''t ngang '' @ [CHR 0xE1, CHR 0xBB, CHR 0x9F] @ '' gi'' @ [CHR 0xE1, CHR 0xBB, CHR 0xAF] @ ''a''),
     examples = [[CHR 0xE5, CHR 0x8D, CHR 0x83], [CHR 0xE5, CHR 0x8D, CHR 0x94], [CHR 0xE5, CHR 0x8D, CHR 0x9A], [CHR 0xE5, CHR 0x8D, CHR 0x97], [CHR 0xE5, CHR 0x8D, CHR 0x81]]\<rparr>,
    \<lparr>radical_id = 50,
     vn = (''B'' @ [CHR 0xC3, CHR 0xA1] @ ''t''),
     radical = [CHR 0xE5, CHR 0x85, CHR 0xAB],
     pinyin = (''b'' @ [CHR 0xC4, CHR 0x81]),
     meaning = (''t'' @ [CHR 0xC3, CHR 0xA1] @ ''ch ra; chia''),
     mnemonic = (''hai n'' @ [CHR 0xC3, CHR 0xA9] @ ''t t'' @ [CHR 0xC3, CHR 0xA1] @ ''ch '' @ [CHR 0xC4, CHR 0x91, CHR 0xC3, CHR 0xB4] @ ''i''),
     examples = [[CHR 0xE5, CHR 0x88, CHR 0x86], [CHR 0xE5, CHR 0x85, CHR 0xAC], [CHR 0xE5, CHR 0x85, CHR 0xB1], [CHR 0xE5, CHR 0x85, CHR 0xB5], [CHR 0xE5, CHR 0x85, CHR 0xB6]]\<rparr>,
    \<lparr>radical_id = 51,
     vn = (''H'' @ [CHR 0xE1, CHR 0xBB, CHR 0xB1] @ ''u''),
     radical = [CHR 0xE5, CHR 0x8F, CHR 0x88],
     pinyin = (''y'' @ [CHR 0xC3, CHR 0xB2] @ ''u''),
     meaning = (''tay; l'' @ [CHR 0xE1, CHR 0xBA, CHR 0xA1] @ ''i n'' @ [CHR 0xE1, CHR 0xBB, CHR 0xAF] @ ''a''),
     mnemonic = (''b'' @ [CHR 0xC3, CHR 0xA0] @ ''n tay ph'' @ [CHR 0xE1, CHR 0xBA, CHR 0xA3] @ ''i''),
     examples = [[CHR 0xE5, CHR 0x8F, CHR 0x8B], [CHR 0xE5, CHR 0x8F, CHR 0x96], [CHR 0xE5, CHR 0x8F, CHR 0x97], [CHR 0xE9, CHR 0x9B, CHR 0x99], [CHR 0xE5, CHR 0x8F, CHR 0x8D]]\<rparr>,
    \<lparr>radical_id = 52,
     vn = (''Nh'' @ [CHR 0xE1, CHR 0xBB, CHR 0xA5] @ ''c''),
     radical = ([CHR 0xE8, CHR 0x82, CHR 0x89] @ '' / '' @ [CHR 0xE2, CHR 0xBA, CHR 0xBC]),
     pinyin = (''r'' @ [CHR 0xC3, CHR 0xB2] @ ''u''),
     meaning = (''th'' @ [CHR 0xE1, CHR 0xBB, CHR 0x8B] @ ''t; th'' @ [CHR 0xC3, CHR 0xA2] @ ''n th'' @ [CHR 0xE1, CHR 0xBB, CHR 0x83]),
     mnemonic = (''mi'' @ [CHR 0xE1, CHR 0xBA, CHR 0xBF] @ ''ng th'' @ [CHR 0xE1, CHR 0xBB, CHR 0x8B] @ ''t c'' @ [CHR 0xC3, CHR 0xB3] @ '' v'' @ [CHR 0xC3, CHR 0xA2] @ ''n''),
     examples = [[CHR 0xE8, CHR 0x82, CHR 0xA5], [CHR 0xE8, CHR 0x85, CHR 0xB8], [CHR 0xE8, CHR 0x83, CHR 0x83], [CHR 0xE8, CHR 0x85, CHR 0xB3], [CHR 0xE8, CHR 0x85, CHR 0xA6]]\<rparr>,
    \<lparr>radical_id = 53,
     vn = (''C'' @ [CHR 0xC3, CHR 0xA2] @ ''n''),
     radical = [CHR 0xE5, CHR 0xB7, CHR 0xBE],
     pinyin = (''j'' @ [CHR 0xC4, CHR 0xAB] @ ''n''),
     meaning = (''kh'' @ [CHR 0xC4, CHR 0x83] @ ''n; v'' @ [CHR 0xE1, CHR 0xBA, CHR 0xA3] @ ''i''),
     mnemonic = (''kh'' @ [CHR 0xC4, CHR 0x83] @ ''n treo xu'' @ [CHR 0xE1, CHR 0xBB, CHR 0x91] @ ''ng''),
     examples = [[CHR 0xE5, CHR 0xB8, CHR 0x83], [CHR 0xE5, CHR 0xB8, CHR 0xBD], [CHR 0xE5, CHR 0xB8, CHR 0x86], [CHR 0xE5, CHR 0xB8, CHR 0xB3], [CHR 0xE5, CHR 0xB9, CHR 0xAB]]\<rparr>,
    \<lparr>radical_id = 54,
     vn = (''Huy'' @ [CHR 0xE1, CHR 0xBB, CHR 0x87] @ ''t''),
     radical = [CHR 0xE7, CHR 0xA9, CHR 0xB4],
     pinyin = (''xu'' @ [CHR 0xC3, CHR 0xA9]),
     meaning = (''hang; l'' @ [CHR 0xE1, CHR 0xBB, CHR 0x97] @ ''; ch'' @ [CHR 0xE1, CHR 0xBB, CHR 0x97] @ '' tr'' @ [CHR 0xE1, CHR 0xBB, CHR 0x91] @ ''ng''),
     mnemonic = (''m'' @ [CHR 0xC3, CHR 0xA1] @ ''i che + l'' @ [CHR 0xE1, CHR 0xBB, CHR 0x97]),
     examples = [[CHR 0xE7, CHR 0xA9, CHR 0xBA], [CHR 0xE7, CHR 0xAA, CHR 0x97], [CHR 0xE7, CHR 0xA9, CHR 0xB6], [CHR 0xE7, CHR 0xA9, CHR 0xBF], [CHR 0xE7, CHR 0xAA, CHR 0x84]]\<rparr>,
    \<lparr>radical_id = 55,
     vn = (''Ph'' @ [CHR 0xC6, CHR 0xB0, CHR 0xC6, CHR 0xA1] @ ''ng''),
     radical = [CHR 0xE6, CHR 0x96, CHR 0xB9],
     pinyin = (''f'' @ [CHR 0xC4, CHR 0x81] @ ''ng''),
     meaning = (''h'' @ [CHR 0xC6, CHR 0xB0, CHR 0xE1, CHR 0xBB, CHR 0x9B] @ ''ng; c'' @ [CHR 0xC3, CHR 0xA1] @ ''ch; ph'' @ [CHR 0xC6, CHR 0xB0, CHR 0xC6, CHR 0xA1] @ ''ng''),
     mnemonic = (''t'' @ [CHR 0xE1, CHR 0xBA, CHR 0xA5] @ ''m b'' @ [CHR 0xE1, CHR 0xBA, CHR 0xA3] @ ''ng vu'' @ [CHR 0xC3, CHR 0xB4] @ ''ng''),
     examples = [[CHR 0xE6, CHR 0x88, CHR 0xBF], [CHR 0xE6, CHR 0x97, CHR 0x85], [CHR 0xE6, CHR 0x97, CHR 0x8F], [CHR 0xE6, CHR 0x94, CHR 0xBE], [CHR 0xE6, CHR 0x96, CHR 0xB9, CHR 0xE6, CHR 0xB3, CHR 0x95]]\<rparr>,
    \<lparr>radical_id = 56,
     vn = (''L'' @ [CHR 0xC3, CHR 0xA3] @ ''o''),
     radical = [CHR 0xE8, CHR 0x80, CHR 0x81],
     pinyin = (''l'' @ [CHR 0xC7, CHR 0x8E] @ ''o''),
     meaning = (''gi'' @ [CHR 0xC3, CHR 0xA0] @ ''; c'' @ [CHR 0xC5, CHR 0xA9]),
     mnemonic = (''ng'' @ [CHR 0xC6, CHR 0xB0, CHR 0xE1, CHR 0xBB, CHR 0x9D] @ ''i gi'' @ [CHR 0xC3, CHR 0xA0] @ '' ch'' @ [CHR 0xE1, CHR 0xBB, CHR 0x91] @ ''ng g'' @ [CHR 0xE1, CHR 0xBA, CHR 0xAD] @ ''y''),
     examples = [[CHR 0xE8, CHR 0x80, CHR 0x83], [CHR 0xE8, CHR 0x80, CHR 0x85], [CHR 0xE8, CHR 0x80, CHR 0x81, CHR 0xE5, CHR 0xB8, CHR 0xAB], [CHR 0xE5, CHR 0xAD, CHR 0x9D]]\<rparr>,
    \<lparr>radical_id = 57,
     vn = (''Th'' @ [CHR 0xE1, CHR 0xBA, CHR 0xA7] @ ''n''),
     radical = [CHR 0xE8, CHR 0xBE, CHR 0xB0],
     pinyin = (''ch'' @ [CHR 0xC3, CHR 0xA9] @ ''n''),
     meaning = (''bu'' @ [CHR 0xE1, CHR 0xBB, CHR 0x95] @ ''i s'' @ [CHR 0xE1, CHR 0xBB, CHR 0x9B] @ ''m; th'' @ [CHR 0xE1, CHR 0xBB, CHR 0x9D] @ ''i '' @ [CHR 0xC4, CHR 0x91] @ ''i'' @ [CHR 0xE1, CHR 0xBB, CHR 0x83] @ ''m''),
     mnemonic = (''m'' @ [CHR 0xE1, CHR 0xBA, CHR 0xB7] @ ''t tr'' @ [CHR 0xE1, CHR 0xBB, CHR 0x9D] @ ''i v'' @ [CHR 0xE1, CHR 0xBB, CHR 0xAB] @ ''a nh'' @ [CHR 0xC3, CHR 0xBA]),
     examples = [[CHR 0xE6, CHR 0x99, CHR 0xA8], [CHR 0xE8, CHR 0xBE, CHR 0xB2], [CHR 0xE8, CHR 0xBE, CHR 0xB1]]\<rparr>,
    \<lparr>radical_id = 58,
     vn = ''Cung'',
     radical = [CHR 0xE5, CHR 0xBC, CHR 0x93],
     pinyin = (''g'' @ [CHR 0xC5, CHR 0x8D] @ ''ng''),
     meaning = (''cung; k'' @ [CHR 0xC3, CHR 0xA9] @ ''o''),
     mnemonic = (''c'' @ [CHR 0xC3, CHR 0xA2] @ ''y cung cong''),
     examples = [[CHR 0xE5, CHR 0xBC, CHR 0xB7], [CHR 0xE5, CHR 0xBC, CHR 0xB5], [CHR 0xE5, CHR 0xBC, CHR 0x95], [CHR 0xE5, CHR 0xBD, CHR 0x88]]\<rparr>,
    \<lparr>radical_id = 59,
     vn = (''B'' @ [CHR 0xE1, CHR 0xBA, CHR 0xA1] @ ''ch''),
     radical = [CHR 0xE7, CHR 0x99, CHR 0xBD],
     pinyin = (''b'' @ [CHR 0xC3, CHR 0xA1] @ ''i''),
     meaning = (''tr'' @ [CHR 0xE1, CHR 0xBA, CHR 0xAF] @ ''ng; s'' @ [CHR 0xC3, CHR 0xA1] @ ''ng; r'' @ [CHR 0xC3, CHR 0xB5]),
     mnemonic = ([CHR 0xC3, CHR 0xA1] @ ''nh s'' @ [CHR 0xC3, CHR 0xA1] @ ''ng trong '' @ [CHR 0xC3, CHR 0xB4]),
     examples = [[CHR 0xE6, CHR 0x98, CHR 0x8E, CHR 0xE7, CHR 0x99, CHR 0xBD], [CHR 0xE7, CHR 0x99, CHR 0xBE], [CHR 0xE7, CHR 0x9A, CHR 0x86], [CHR 0xE7, CHR 0x9A, CHR 0x82]]\<rparr>,
    \<lparr>radical_id = 60,
     vn = (''H'' @ [CHR 0xE1, CHR 0xBB, CHR 0x99]),
     radical = [CHR 0xE6, CHR 0x88, CHR 0xB6],
     pinyin = (''h'' @ [CHR 0xC3, CHR 0xB9]),
     meaning = (''c'' @ [CHR 0xE1, CHR 0xBB, CHR 0xAD] @ ''a nh'' @ [CHR 0xC3, CHR 0xA0] @ ''; h'' @ [CHR 0xE1, CHR 0xBB, CHR 0x99] @ '' gia '' @ [CHR 0xC4, CHR 0x91, CHR 0xC3, CHR 0xAC] @ ''nh''),
     mnemonic = (''c'' @ [CHR 0xC3, CHR 0xA1] @ ''nh c'' @ [CHR 0xE1, CHR 0xBB, CHR 0xAD] @ ''a nh'' @ [CHR 0xC3, CHR 0xAC] @ ''n nghi'' @ [CHR 0xC3, CHR 0xAA] @ ''ng''),
     examples = [[CHR 0xE6, CHR 0x89, CHR 0x80], [CHR 0xE6, CHR 0x88, CHR 0xBF], [CHR 0xE6, CHR 0x89, CHR 0x87], [CHR 0xE6, CHR 0x88, CHR 0xB6, CHR 0xE5, CHR 0x8F, CHR 0xA3]]\<rparr>]"

text \<open>
  \<open>RADICALS.map((r) => r.id)\<close>, the full deck in catalog order (\<open>idsAll\<close> of
  \<open>buildDeck\<close>), and the card lookup of \<open>StudySession\<close>:
  \<open>RADICALS.find((r) => r.id === id) || RADICALS[0]\<close>, where the id comes from
  \<open>deck[index] ?? deck[0]\<close> and is absent (\<open>undefined\<close>) on an empty deck.
\<close>

definition idsAll :: "item_id list" where
  "idsAll = map radical_id RADICALS"

definition card_of :: "item_id option \<Rightarrow> radical" where
  "card_of oid =
     (case oid of
        None \<Rightarrow> RADICALS ! 0
      | Some i \<Rightarrow> (case find (\<lambda>r. radical_id r = i) RADICALS of
                    None \<Rightarrow> RADICALS ! 0
                  | Some r \<Rightarrow> r))"

subsection \<open>Facts about the dataset\<close>

lemma idsAll_eq: "idsAll = [1..<61]"
  by (simp add: idsAll_def RADICALS_def upt_rec)

lemma length_RADICALS [simp]: "length RADICALS = 60"
  by (simp add: RADICALS_def)

lemma distinct_idsAll [simp]: "distinct idsAll"
  by (simp add: idsAll_eq)

lemma length_idsAll [simp]: "length idsAll = 60"
  by (simp add: idsAll_eq)

lemma set_idsAll: "set idsAll = {1..60}"
  by (auto simp: idsAll_eq)

lemma distinct_meanings: "distinct (map meaning RADICALS)"
  by (simp add: RADICALS_def)

lemma radical_id_nth: "i < 60 \<Longrightarrow> radical_id (RADICALS ! i) = Suc i"
proof -
  assume "i < 60"
  then have "idsAll ! i = [1..<61] ! i" by (simp add: idsAll_eq)
  with \<open>i < 60\<close> show ?thesis by (simp add: idsAll_def)
qed

lemma find_RADICALS:
  assumes "i \<in> {1..60}"
  shows "find (\<lambda>r. radical_id r = i) RADICALS = Some (RADICALS ! (i - 1))"
proof -
  have "\<forall>k < i - 1. radical_id (RADICALS ! k) \<noteq> i"
  proof (intro allI impI)
    fix k
    assume "k < i - 1"
    with assms have "k < 60" by auto
    then have "radical_id (RADICALS ! k) = Suc k" by (rule radical_id_nth)
    with \<open>k < i - 1\<close> show "radical_id (RADICALS ! k) \<noteq> i" by simp
  qed
  moreover have "radical_id (RADICALS ! (i - 1)) = i"
    using assms radical_id_nth [of "i - 1"] by auto
  moreover have "i - 1 < length RADICALS" using assms by auto
  ultimately show ?thesis by (auto simp: find_Some_iff)
qed

lemma card_of_id:
  "i \<in> {1..60} \<Longrightarrow> card_of (Some i) = RADICALS ! (i - 1)"
  by (simp add: card_of_def find_RADICALS)

lemma radical_id_card_of:
  "i \<in> {1..60} \<Longrightarrow> radical_id (card_of (Some i)) = i"
  using radical_id_nth [of "i - 1"] by (auto simp: card_of_id)

lemma card_of_in_catalog: "card_of oid \<in> set RADICALS"
proof -
  have "RADICALS ! 0 \<in> set RADICALS" by simp
  then show ?thesis
    by (auto simp: card_of_def split: option.splits dest: find_Some_iff [THEN iffD1])
qed

end
