(* ===== verification/Scheduler.thy ===== *)
theory Scheduler
  imports Prelude
begin

text \<open>
  The scheduler of \<open>src/app/page.tsx\<close>: the pure functions \<open>intervalByBox\<close>,
  \<open>applyGrade\<close> and \<open>addDays\<close>. Boxes and grades are JavaScript numbers; they are
  \<^typ>\<open>int\<close> here, so that values outside \<open>1..5\<close> (a hand-edited or stale persisted
  record) and grades outside \<open>1..4\<close> are inside the model. \<open>addDays\<close> moves a local
  midnight by whole calendar days (\<open>setDate(getDate() + days)\<close>), which on the day
  numbering of the prelude is addition. The second half states the Leitner scheme the
  scheduler promises, on five levels and four answers, and proves that the integer
  functions implement it.
\<close>

definition intervalByBox :: "int \<Rightarrow> int" where
  "intervalByBox box =
     (if box \<le> 1 then 0
      else if box = 2 then 1
      else if box = 3 then 3
      else if box = 4 then 7
      else 14)"

definition applyGrade :: "int \<Rightarrow> int \<Rightarrow> int" where
  "applyGrade currentBox grade =
     (if grade = 1 then 1
      else if grade = 2 then max 1 currentBox
      else if grade = 3 then min 5 (currentBox + 1)
      else min 5 (currentBox + 2))"

definition addDays :: "day \<Rightarrow> int \<Rightarrow> day" where
  "addDays d days = d + days"

definition box_ok :: "int \<Rightarrow> bool" where
  "box_ok b \<longleftrightarrow> 1 \<le> b \<and> b \<le> 5"

subsection \<open>The Leitner scheme the scheduler implements\<close>

datatype level = Box1 | Box2 | Box3 | Box4 | Box5

datatype answer = Again | Hard | Good | Easy

fun up :: "level \<Rightarrow> level" where
  "up Box1 = Box2"
| "up Box2 = Box3"
| "up Box3 = Box4"
| "up Box4 = Box5"
| "up Box5 = Box5"

fun promote :: "answer \<Rightarrow> level \<Rightarrow> level" where
  "promote Again l = Box1"
| "promote Hard l = l"
| "promote Good l = up l"
| "promote Easy l = up (up l)"

fun wait :: "level \<Rightarrow> int" where
  "wait Box1 = 0"
| "wait Box2 = 1"
| "wait Box3 = 3"
| "wait Box4 = 7"
| "wait Box5 = 14"

fun level_box :: "level \<Rightarrow> int" where
  "level_box Box1 = 1"
| "level_box Box2 = 2"
| "level_box Box3 = 3"
| "level_box Box4 = 4"
| "level_box Box5 = 5"

fun grade_code :: "answer \<Rightarrow> int" where
  "grade_code Again = 1"
| "grade_code Hard = 2"
| "grade_code Good = 3"
| "grade_code Easy = 4"

lemmas scheduler_defs = intervalByBox_def applyGrade_def addDays_def box_ok_def

subsection \<open>Basic facts\<close>

lemma box_ok_level_box [simp]: "box_ok (level_box l)"
  by (cases l) (simp_all add: box_ok_def)

lemma box_ok_cases:
  assumes "box_ok b"
  obtains "b = 1" | "b = 2" | "b = 3" | "b = 4" | "b = 5"
  using assms unfolding box_ok_def by linarith

lemma box_ok_range: "box_ok b \<longleftrightarrow> b \<in> range level_box"
proof
  assume "box_ok b"
  then show "b \<in> range level_box"
  proof (cases rule: box_ok_cases)
    case 1 then show ?thesis by (metis level_box.simps(1) rangeI)
  next
    case 2 then show ?thesis by (metis level_box.simps(2) rangeI)
  next
    case 3 then show ?thesis by (metis level_box.simps(3) rangeI)
  next
    case 4 then show ?thesis by (metis level_box.simps(4) rangeI)
  next
    case 5 then show ?thesis by (metis level_box.simps(5) rangeI)
  qed
next
  assume "b \<in> range level_box"
  then show "box_ok b" by auto
qed

lemma box_ok_applyGrade: "box_ok b \<Longrightarrow> box_ok (applyGrade b g)"
  by (auto simp: applyGrade_def box_ok_def)

lemma applyGrade_ge1: "1 \<le> applyGrade b g \<or> b < 0"
  by (auto simp: applyGrade_def)

lemma intervalByBox_nonneg: "0 \<le> intervalByBox b"
  by (simp add: intervalByBox_def)

lemma intervalByBox_le14: "intervalByBox b \<le> 14"
  by (simp add: intervalByBox_def)

subsection \<open>Properties\<close>

text \<open>C4: from a box in \<open>1..5\<close>, every grade, valid or not, lands in \<open>1..5\<close>.\<close>

theorem applyGrade_box_ok: "box_ok b \<Longrightarrow> box_ok (applyGrade b g)"
  by (rule box_ok_applyGrade)

theorem applyGrade_box_ok_witness: "box_ok 3 \<and> box_ok (applyGrade 3 4)"
proof -
  have h: "box_ok 3" by (simp add: box_ok_def)
  show ?thesis using h applyGrade_box_ok [OF h, of 4] by simp
qed

text \<open>C5: \<open>applyGrade\<close> and \<open>intervalByBox\<close> implement the Leitner scheme.\<close>

theorem applyGrade_refines:
  "applyGrade (level_box l) (grade_code a) = level_box (promote a l) \<and>
   intervalByBox (level_box l) = wait l"
  by (cases a; cases l) (simp_all add: applyGrade_def intervalByBox_def)

text \<open>The waiting time never shrinks as the box grows.\<close>

theorem intervalByBox_mono: "a \<le> b \<Longrightarrow> intervalByBox a \<le> intervalByBox b"
  by (simp add: intervalByBox_def)

theorem intervalByBox_mono_witness:
  "(2::int) \<le> 4 \<and> intervalByBox 2 \<le> intervalByBox 4"
  using intervalByBox_mono [of 2 4] by simp

text \<open>A better answer never gives a lower box (grades \<open>1..4\<close>).\<close>

theorem applyGrade_mono_grade:
  "box_ok b \<Longrightarrow> 1 \<le> g \<Longrightarrow> g \<le> g' \<Longrightarrow> g' \<le> 4 \<Longrightarrow> applyGrade b g \<le> applyGrade b g'"
  by (auto simp: applyGrade_def box_ok_def)

theorem applyGrade_mono_grade_witness:
  "box_ok 2 \<and> (1::int) \<le> 2 \<and> (2::int) \<le> 3 \<and> (3::int) \<le> 4 \<and> applyGrade 2 2 \<le> applyGrade 2 3"
proof -
  have h: "box_ok 2" by (simp add: box_ok_def)
  show ?thesis using h applyGrade_mono_grade [OF h, of 2 3] by simp
qed

text \<open>A higher box never lands lower under the same grade.\<close>

theorem applyGrade_mono_box: "b \<le> b' \<Longrightarrow> applyGrade b g \<le> applyGrade b' g"
  by (auto simp: applyGrade_def)

theorem applyGrade_mono_box_witness:
  "(2::int) \<le> 4 \<and> applyGrade 2 3 \<le> applyGrade 4 3"
  using applyGrade_mono_box [of 2 4 3] by simp

text \<open>
  C37: a grade outside \<open>1..4\<close> is not a no-op: the code treats it as Easy, and moves a
  box below 5 up by up to two.
\<close>

theorem applyGrade_invalid_grade:
  "g \<notin> {1, 2, 3, 4} \<Longrightarrow> box_ok b \<Longrightarrow> b < 5 \<Longrightarrow>
     applyGrade b g = applyGrade b 4 \<and> applyGrade b g \<noteq> b"
  by (auto simp: applyGrade_def box_ok_def)

theorem applyGrade_invalid_grade_witness:
  "(0::int) \<notin> {1, 2, 3, 4} \<and> box_ok 2 \<and> (2::int) < 5 \<and>
   applyGrade 2 0 = applyGrade 2 4 \<and> applyGrade 2 0 \<noteq> 2"
proof -
  have h1: "(0::int) \<notin> {1, 2, 3, 4}" by simp
  have h2: "box_ok 2" by (simp add: box_ok_def)
  show ?thesis using h1 h2 applyGrade_invalid_grade [OF h1 h2] by simp
qed

text \<open>C38: a box above 5 (a corrupt record) is kept out of range by Hard.\<close>

theorem applyGrade_not_clamped: "5 < b \<Longrightarrow> applyGrade b 2 = b \<and> \<not> box_ok (applyGrade b 2)"
  by (simp add: applyGrade_def box_ok_def)

theorem applyGrade_not_clamped_witness:
  "(5::int) < 9 \<and> applyGrade 9 2 = 9 \<and> \<not> box_ok (applyGrade 9 2)"
  using applyGrade_not_clamped [of 9] by (simp add: box_ok_def)

end
