(* ===== verification/Progress.thy ===== *)
theory Progress
  imports Catalog Scheduler
begin

text \<open>
  The progress store of \<open>src/app/page.tsx\<close>: the types \<open>ProgressItem\<close> and
  \<open>ProgressState\<close>, \<open>emptyProgress\<close>, and the three mutators of \<open>useProgress\<close>
  (\<open>patchId\<close>, \<open>patchSettings\<close>, \<open>resetAll\<close>), each a function from the old
  state to the new one, as the functional updates passed to \<open>setProgress\<close> are.
  \<open>byId\<close> is a map from item identifiers; its time stamps are the parsed values of the
  stored ISO strings (a \<open>day\<close> for \<open>due\<close>, an \<open>instant\<close> for \<open>lastReviewed\<close>,
  with \<open>null\<close> as \<^const>\<open>None\<close>). \<open>todayStart()\<close> is the parameter \<open>t\<close>.
\<close>

record progress_item =
  box :: int
  learned :: bool
  correct :: nat
  wrong :: nat
  lastReviewed :: "instant option"
  due :: day

record settings =
  showExamples :: bool
  showMnemonic :: bool
  toneMarks :: bool
  shuffleLearn :: bool
  keyboardShortcuts :: bool

record progress_state =
  byId :: "item_id \<rightharpoonup> progress_item"
  settings :: settings

text \<open>A partial settings object, as the argument of \<open>patchSettings\<close>: absent fields are \<^const>\<open>None\<close>.\<close>

record settings_patch =
  p_showExamples :: "bool option"
  p_showMnemonic :: "bool option"
  p_toneMarks :: "bool option"
  p_shuffleLearn :: "bool option"
  p_keyboardShortcuts :: "bool option"

definition fresh_item :: "day \<Rightarrow> progress_item" where
  "fresh_item t =
     \<lparr>box = 1, learned = False, correct = 0, wrong = 0, lastReviewed = None, due = t\<rparr>"

definition default_settings :: settings where
  "default_settings =
     \<lparr>showExamples = True, showMnemonic = True, toneMarks = True,
      shuffleLearn = False, keyboardShortcuts = True\<rparr>"

text \<open>The loop \<open>for (const r of RADICALS) base[r.id] = {...}\<close> is a left fold.\<close>

definition emptyProgress :: "day \<Rightarrow> progress_state" where
  "emptyProgress t =
     \<lparr>byId = fold (\<lambda>r base. base(radical_id r \<mapsto> fresh_item t)) RADICALS Map.empty,
      settings = default_settings\<rparr>"

text \<open>
  \<open>patchId(id, patch)\<close> stores \<open>{ ...p.byId[id], ...patch }\<close>. Its one caller,
  \<open>grade\<close>, passes all six fields of a \<open>ProgressItem\<close>, so the spread keeps none
  of the old record and the stored record is the patch itself.
\<close>

definition patchId :: "item_id \<Rightarrow> progress_item \<Rightarrow> progress_state \<Rightarrow> progress_state" where
  "patchId i patch p = p\<lparr>byId := (byId p)(i \<mapsto> patch)\<rparr>"

definition merge_settings :: "settings \<Rightarrow> settings_patch \<Rightarrow> settings" where
  "merge_settings s q =
     \<lparr>showExamples = case_option (showExamples s) id (p_showExamples q),
      showMnemonic = case_option (showMnemonic s) id (p_showMnemonic q),
      toneMarks = case_option (toneMarks s) id (p_toneMarks q),
      shuffleLearn = case_option (shuffleLearn s) id (p_shuffleLearn q),
      keyboardShortcuts = case_option (keyboardShortcuts s) id (p_keyboardShortcuts q)\<rparr>"

definition patchSettings :: "settings_patch \<Rightarrow> progress_state \<Rightarrow> progress_state" where
  "patchSettings q p = p\<lparr>settings := merge_settings (settings p) q\<rparr>"

definition resetAll :: "day \<Rightarrow> progress_state \<Rightarrow> progress_state" where
  "resetAll t p = emptyProgress t"

text \<open>
  The five switches of \<open>SettingsDialog\<close>: each calls \<open>patchSettings\<close> with a
  one-field object.
\<close>

datatype setting_key = KShowExamples | KShowMnemonic | KToneMarks | KShuffleLearn
  | KKeyboardShortcuts

definition no_patch :: settings_patch where
  "no_patch =
     \<lparr>p_showExamples = None, p_showMnemonic = None, p_toneMarks = None,
      p_shuffleLearn = None, p_keyboardShortcuts = None\<rparr>"

fun switch_patch :: "setting_key \<Rightarrow> bool \<Rightarrow> settings_patch" where
  "switch_patch KShowExamples v = no_patch\<lparr>p_showExamples := Some v\<rparr>"
| "switch_patch KShowMnemonic v = no_patch\<lparr>p_showMnemonic := Some v\<rparr>"
| "switch_patch KToneMarks v = no_patch\<lparr>p_toneMarks := Some v\<rparr>"
| "switch_patch KShuffleLearn v = no_patch\<lparr>p_shuffleLearn := Some v\<rparr>"
| "switch_patch KKeyboardShortcuts v = no_patch\<lparr>p_keyboardShortcuts := Some v\<rparr>"

text \<open>The value each switch shows (\<open>checked={s.showExamples}\<close> and so on).\<close>

fun setting_of :: "setting_key \<Rightarrow> settings \<Rightarrow> bool" where
  "setting_of KShowExamples s = showExamples s"
| "setting_of KShowMnemonic s = showMnemonic s"
| "setting_of KToneMarks s = toneMarks s"
| "setting_of KShuffleLearn s = shuffleLearn s"
| "setting_of KKeyboardShortcuts s = keyboardShortcuts s"

text \<open>
  Well-formed progress: every catalog item has a record, and its box is in \<open>1..5\<close>.
  A fresh state is well formed; a state read back from storage need not be.
\<close>

definition progress_ok :: "progress_state \<Rightarrow> bool" where
  "progress_ok p \<longleftrightarrow>
     (\<forall>i \<in> set idsAll. case byId p i of None \<Rightarrow> False | Some r \<Rightarrow> box_ok (box r))"

subsection \<open>Lemmas\<close>

lemma fold_update_lookup:
  "fold (\<lambda>r base. base(f r \<mapsto> v)) rs m i = (if i \<in> f ` set rs then Some v else m i)"
  by (induction rs arbitrary: m) auto

lemma byId_emptyProgress:
  "byId (emptyProgress t) i = (if i \<in> {1..60} then Some (fresh_item t) else None)"
proof -
  have "radical_id ` set RADICALS = set idsAll" by (simp add: idsAll_def)
  then show ?thesis by (simp add: emptyProgress_def fold_update_lookup set_idsAll)
qed

lemma settings_emptyProgress [simp]: "settings (emptyProgress t) = default_settings"
  by (simp add: emptyProgress_def)

lemma byId_patchId: "byId (patchId i r p) = (byId p)(i \<mapsto> r)"
  by (simp add: patchId_def)

lemma settings_patchId [simp]: "settings (patchId i r p) = settings p"
  by (simp add: patchId_def)

lemma byId_patchSettings [simp]: "byId (patchSettings q p) = byId p"
  by (simp add: patchSettings_def)

lemma box_ok_fresh_item [simp]: "box_ok (box (fresh_item t))"
  by (simp add: fresh_item_def box_ok_def)

lemma progress_okI:
  "(\<And>i. i \<in> {1..60} \<Longrightarrow> \<exists>r. byId p i = Some r \<and> box_ok (box r)) \<Longrightarrow> progress_ok p"
  by (fastforce simp: progress_ok_def set_idsAll)

lemma progress_okD:
  assumes "progress_ok p" and "i \<in> {1..60}"
  shows "\<exists>r. byId p i = Some r \<and> box_ok (box r)"
proof -
  from assms have "case byId p i of None \<Rightarrow> False | Some r \<Rightarrow> box_ok (box r)"
    by (simp add: progress_ok_def set_idsAll)
  then show ?thesis by (cases "byId p i") auto
qed

lemma progress_ok_fresh: "progress_ok (emptyProgress t)"
  by (rule progress_okI) (simp add: byId_emptyProgress)

lemma progress_ok_patchId:
  "progress_ok p \<Longrightarrow> box_ok (box r) \<Longrightarrow> progress_ok (patchId i r p)"
  by (rule progress_okI) (auto simp: byId_patchId dest: progress_okD)

subsection \<open>Properties\<close>

text \<open>A fresh state has one record per catalog item, each the initial record, and the default settings.\<close>

theorem emptyProgress_spec:
  "byId (emptyProgress t) i = (if 1 \<le> i \<and> i \<le> 60 then Some (fresh_item t) else None) \<and>
   settings (emptyProgress t) = default_settings"
  by (simp add: byId_emptyProgress)

text \<open>A fresh state is well formed: every catalog item has a record with its box in \<open>1..5\<close>.\<close>

theorem emptyProgress_ok: "progress_ok (emptyProgress t)"
  by (rule progress_ok_fresh)

text \<open>\<open>patchId\<close> replaces the one record and leaves every other record and the settings as they were.\<close>

theorem patchId_frame:
  "byId (patchId i r p) i = Some r \<and>
   (j \<noteq> i \<longrightarrow> byId (patchId i r p) j = byId p j) \<and>
   settings (patchId i r p) = settings p"
  by (simp add: byId_patchId)

theorem patchId_frame_witness:
  "byId (patchId 1 (fresh_item 5) (emptyProgress 0)) 1 = Some (fresh_item 5) \<and>
   (2::nat) \<noteq> 1 \<and>
   byId (patchId 1 (fresh_item 5) (emptyProgress 0)) 2 = byId (emptyProgress 0) 2 \<and>
   settings (patchId 1 (fresh_item 5) (emptyProgress 0)) = settings (emptyProgress 0)"
  using patchId_frame [of 1 "fresh_item 5" "emptyProgress 0" 2] by simp

text \<open>Storing a record whose box is in range keeps the state well formed.\<close>

theorem patchId_ok:
  "progress_ok p \<Longrightarrow> box_ok (box r) \<Longrightarrow> progress_ok (patchId i r p)"
  by (rule progress_ok_patchId)

theorem patchId_ok_witness:
  "progress_ok (emptyProgress 0) \<and> box_ok (box (fresh_item 3)) \<and>
   progress_ok (patchId 7 (fresh_item 3) (emptyProgress 0))"
proof -
  have h1: "progress_ok (emptyProgress 0)" by (rule progress_ok_fresh)
  have h2: "box_ok (box (fresh_item 3))" by simp
  show ?thesis using h1 h2 patchId_ok [OF h1 h2, of 7] by simp
qed

text \<open>
  Each switch of the settings dialog changes its own setting to the new value and
  leaves the other four settings and every progress record as they were.
\<close>

theorem switch_patch_spec:
  "setting_of k' (settings (patchSettings (switch_patch k v) p)) =
     (if k' = k then v else setting_of k' (settings p)) \<and>
   byId (patchSettings (switch_patch k v) p) = byId p"
  by (cases k; cases k') (simp_all add: patchSettings_def merge_settings_def no_patch_def)

end
