(* ===== verification/Deck.thy ===== *)
theory Deck
  imports Progress
begin

text \<open>
  The deck builder of \<open>src/app/page.tsx\<close>: \<open>shuffle\<close> (Fisher-Yates on a copy of the
  array) and \<open>buildDeck\<close>. The loop \<open>for (i = a.length - 1; i > 0; i--)\<close> is
  \<open>shuffle_for\<close>, a recursion on the counter \<open>i\<close>, a JavaScript number (\<open>-1\<close> for
  an empty array) kept as an integer, with its termination proof; \<open>fy_loop\<close> is the
  same loop as a structural recursion on a natural number, the reference the lemmas are
  proved on. Each iteration takes one draw of \<open>Math.random()\<close> from the stream and
  returns the rest. The mode is the string
  \<open>"learn"\<close>, \<open>"review"\<close> or \<open>"quiz"\<close> (the only values \<open>setMode\<close> receives),
  and any mode other than learn and review builds a shuffled deck, as the final
  \<open>return\<close> does. \<open>todayStart()\<close> is the parameter \<open>t\<close>.
\<close>

fun fy_loop :: "nat \<Rightarrow> 'a list \<Rightarrow> rand \<Rightarrow> 'a list \<times> rand" where
  "fy_loop 0 a rs = (a, rs)"
| "fy_loop (Suc i) a rs =
     fy_loop i (swap a (Suc i) (random_index (shd rs) (Suc i))) (stl rs)"

function shuffle_for :: "int \<Rightarrow> 'a list \<Rightarrow> rand \<Rightarrow> 'a list \<times> rand" where
  "shuffle_for i a rs =
     (if 0 < i then shuffle_for (i - 1) (swap a (nat i) (random_index (shd rs) (nat i))) (stl rs)
      else (a, rs))"
  by pat_completeness auto
termination
  by (relation "measure (\<lambda>(i, a, rs). nat i)") auto

declare shuffle_for.simps [simp del]

definition shuffle :: "'a list \<Rightarrow> rand \<Rightarrow> 'a list \<times> rand" where
  "shuffle arr rs = shuffle_for (int (length arr) - 1) arr rs"

datatype mode = Learn | Review | Quiz

text \<open>
  \<open>progress.byId[r.id]?.due || 0\<close>: a missing record reads as the epoch, which lies in
  day \<open>0\<close> of the day numbering.
\<close>

definition epochDay :: day where
  "epochDay = 0"

definition dueDay :: "progress_state \<Rightarrow> item_id \<Rightarrow> day" where
  "dueDay progress i = (case byId progress i of None \<Rightarrow> epochDay | Some r \<Rightarrow> due r)"

definition buildDeck ::
  "mode \<Rightarrow> progress_state \<Rightarrow> bool \<Rightarrow> day \<Rightarrow> rand \<Rightarrow> item_id list \<times> rand" where
  "buildDeck mode progress shuffle_learn t rs =
     (case mode of
        Learn \<Rightarrow> if shuffle_learn then shuffle idsAll rs else (idsAll, rs)
      | Review \<Rightarrow>
          (let dueIds = map radical_id (filter (\<lambda>r. dueDay progress (radical_id r) \<le> t) RADICALS)
           in (if dueIds \<noteq> [] then dueIds else idsAll, rs))
      | Quiz \<Rightarrow> shuffle idsAll rs)"

text \<open>A deck as \<open>StudySession\<close> needs it: non-empty, no id twice, only catalog ids.\<close>

definition deck_ok :: "item_id list \<Rightarrow> bool" where
  "deck_ok d \<longleftrightarrow> d \<noteq> [] \<and> distinct d \<and> set d \<subseteq> set idsAll"

subsection \<open>The shuffle\<close>

lemma shuffle_for_nonpos: "i \<le> 0 \<Longrightarrow> shuffle_for i a rs = (a, rs)"
  by (simp add: shuffle_for.simps [of i])

lemma shuffle_for_nat: "shuffle_for (int n) a rs = fy_loop n a rs"
proof (induction n arbitrary: a rs)
  case 0
  then show ?case by (simp add: shuffle_for_nonpos)
next
  case (Suc n)
  have "shuffle_for (int (Suc n)) a rs =
        shuffle_for (int n) (swap a (Suc n) (random_index (shd rs) (Suc n))) (stl rs)"
  proof -
    have h: "int (Suc n) - 1 = int n" by simp
    show ?thesis by (subst shuffle_for.simps) (simp del: of_nat_Suc add: h)
  qed
  with Suc.IH show ?case by simp
qed

lemma shuffle_fy_loop: "shuffle arr rs = fy_loop (length arr - 1) arr rs"
proof (cases arr)
  case Nil
  then show ?thesis by (simp add: shuffle_def shuffle_for_nonpos)
next
  case (Cons x xs)
  then have "int (length arr) - 1 = int (length arr - 1)" by simp
  then have "shuffle arr rs = shuffle_for (int (length arr - 1)) arr rs" by (simp only: shuffle_def)
  then show ?thesis by (simp only: shuffle_for_nat)
qed

lemma fy_loop_rest: "snd (fy_loop i a rs) = sdrop i rs"
  by (induction i arbitrary: a rs) auto

lemma fy_loop_mset:
  "rand_ok rs \<Longrightarrow> i < length a \<Longrightarrow> mset (fst (fy_loop i a rs)) = mset a"
proof (induction i arbitrary: a rs)
  case 0
  then show ?case by simp
next
  case (Suc i)
  let ?j = "random_index (shd rs) (Suc i)"
  have "?j \<le> Suc i" using Suc.prems(1) by (rule random_index_ok)
  with Suc.prems(2) have j: "?j < length a" by simp
  have "mset (fst (fy_loop i (swap a (Suc i) ?j) (stl rs))) = mset (swap a (Suc i) ?j)"
    using Suc.prems by (intro Suc.IH) (simp_all add: rand_ok_stl)
  also have "\<dots> = mset a"
    using Suc.prems(2) j by (simp add: mset_swap_cells)
  finally show ?case by simp
qed

lemma shuffle_mset: "rand_ok rs \<Longrightarrow> mset (fst (shuffle xs rs)) = mset xs"
  by (cases xs) (simp_all add: shuffle_fy_loop fy_loop_mset)

lemma shuffle_rest: "snd (shuffle xs rs) = sdrop (length xs - 1) rs"
  by (simp add: shuffle_fy_loop fy_loop_rest)

lemma shuffle_set: "rand_ok rs \<Longrightarrow> set (fst (shuffle xs rs)) = set xs"
  by (metis shuffle_mset set_mset_mset)

lemma shuffle_distinct: "rand_ok rs \<Longrightarrow> distinct (fst (shuffle xs rs)) = distinct xs"
  by (rule mset_eq_imp_distinct_iff [OF shuffle_mset])

lemma shuffle_length: "rand_ok rs \<Longrightarrow> length (fst (shuffle xs rs)) = length xs"
  by (metis shuffle_mset size_mset)

subsection \<open>Every ordering is reachable\<close>

text \<open>
  The draw \<open>j / (i + 1)\<close> makes iteration \<open>i\<close> pick index \<open>j\<close>: for every
  \<open>j \<le> i\<close> some legal value of \<open>Math.random()\<close> selects it.
\<close>

lemma random_index_pick:
  assumes "j \<le> i"
  shows "random_index (real j / real (Suc i)) i = j \<and> 0 \<le> real j / real (Suc i) \<and>
         real j / real (Suc i) < 1"
  using assms by (simp add: random_index_def)

lemma mset_take_Suc_nth:
  "n < length xs \<Longrightarrow> mset (take (Suc n) xs) = add_mset (xs ! n) (mset (take n xs))"
  by (simp add: take_Suc_conv_app_nth)

lemma fy_loop_complete:
  assumes "length a = length ys" and "i < length a"
    and "mset (take (Suc i) a) = mset (take (Suc i) ys)"
    and "drop (Suc i) a = drop (Suc i) ys"
  shows "\<exists>rs. rand_ok rs \<and> fst (fy_loop i a rs) = ys"
  using assms
proof (induction i arbitrary: a)
  case 0
  from "0.prems"(2,3) have "a ! 0 = ys ! 0"
    by (cases a; cases ys) auto
  with "0.prems" have "a = ys"
    by (metis One_nat_def append_take_drop_id take_Suc_conv_app_nth take_0 append_Nil)
  moreover have "rand_ok (sconst 0)" by (simp add: rand_ok_sconst)
  ultimately show ?case by auto
next
  case (Suc i)
  let ?n = "Suc i"
  from Suc.prems have n: "?n < length a" and ny: "?n < length ys" by simp_all
  have "ys ! ?n \<in># mset (take (Suc ?n) a)"
    using Suc.prems(3) ny by (simp add: mset_take_Suc_nth)
  then obtain j where j: "j \<le> ?n" and aj: "a ! j = ys ! ?n"
    by (auto simp: in_set_conv_nth less_Suc_eq_le)
  define a' where "a' = swap a ?n j"
  from j n have jl: "j < length a" by simp
  have a'n: "a' ! ?n = ys ! ?n" using n jl aj by (simp add: a'_def nth_swap)
  have drop': "drop (Suc i) a' = drop (Suc i) ys"
  proof -
    have "drop (Suc ?n) a' = drop (Suc ?n) a"
      using j by (auto simp: a'_def swap_def intro: nth_equalityI)
    with Suc.prems(4) have "drop (Suc ?n) a' = drop (Suc ?n) ys" by simp
    with a'n n ny show ?thesis
      by (simp add: Cons_nth_drop_Suc [symmetric] a'_def)
  qed
  have mtake: "mset (take (Suc ?n) a') = mset (take (Suc ?n) a)"
  proof -
    have "take (Suc ?n) a' = swap (take (Suc ?n) a) ?n j"
      using j n by (simp add: a'_def swap_def take_update_swap nth_take)
    then show ?thesis using j n by (simp add: mset_swap_cells)
  qed
  have la': "length a' = length a" by (simp add: a'_def)
  have "mset (take (Suc ?n) a') = add_mset (ys ! ?n) (mset (take ?n a'))"
    using mset_take_Suc_nth [of ?n a'] n la' a'n by simp
  moreover have "mset (take (Suc ?n) ys) = add_mset (ys ! ?n) (mset (take ?n ys))"
    using mset_take_Suc_nth [of ?n ys] ny by simp
  ultimately have take': "mset (take (Suc i) a') = mset (take (Suc i) ys)"
    using mtake Suc.prems(3) by simp
  from Suc.IH [of a'] Suc.prems(1) n take' drop' obtain rs' where
    rs': "rand_ok rs'" "fst (fy_loop i a' rs') = ys"
    by (auto simp: a'_def)
  define r where "r = real j / real (Suc ?n)"
  from random_index_pick [OF j] have pick: "random_index r ?n = j" "0 \<le> r" "r < 1"
    by (simp_all add: r_def)
  have "rand_ok (SCons r rs')" using rs'(1) pick by (simp add: rand_ok_def)
  moreover have "fst (fy_loop ?n a (SCons r rs')) = ys"
    using rs'(2) pick by (simp add: a'_def)
  ultimately show ?case by blast
qed

subsection \<open>Building a deck\<close>

lemma buildDeck_review:
  "fst (buildDeck Review p sl t rs) =
     (let d = filter (\<lambda>i. dueDay p i \<le> t) idsAll in if d \<noteq> [] then d else idsAll)"
proof -
  have "map radical_id (filter (\<lambda>r. dueDay p (radical_id r) \<le> t) RADICALS) =
        filter (\<lambda>i. dueDay p i \<le> t) idsAll"
    by (simp add: idsAll_def filter_map comp_def)
  then show ?thesis by (simp add: buildDeck_def Let_def)
qed

lemma deck_ok_idsAll [simp]: "deck_ok idsAll"
  by (simp add: deck_ok_def idsAll_eq)

lemma deck_ok_shuffle: "rand_ok rs \<Longrightarrow> deck_ok (fst (shuffle idsAll rs))"
proof -
  assume rs: "rand_ok rs"
  have "fst (shuffle idsAll rs) \<noteq> []"
    using shuffle_length [OF rs, of idsAll] by auto
  with rs show ?thesis by (simp add: deck_ok_def shuffle_set shuffle_distinct)
qed

lemma deck_ok_filter: "filter P idsAll \<noteq> [] \<Longrightarrow> deck_ok (filter P idsAll)"
  by (auto simp: deck_ok_def)

lemma deck_ok_buildDeck: "rand_ok rs \<Longrightarrow> deck_ok (fst (buildDeck m p sl t rs))"
proof (cases m)
  case Review
  then show ?thesis by (simp add: buildDeck_review Let_def deck_ok_filter)
qed (simp_all add: buildDeck_def deck_ok_shuffle)

lemma buildDeck_rest:
  "snd (buildDeck m p sl t rs) =
     (if m = Review \<or> (m = Learn \<and> \<not> sl) then rs else sdrop 59 rs)"
  by (cases m) (simp_all add: buildDeck_def shuffle_rest Let_def)

subsection \<open>Properties\<close>

text \<open>
  C31: the loop of \<open>shuffle\<close> stops for every value of its counter: it runs exactly
  \<open>max 0 i\<close> times, taking one draw each time, and keeps the length of the array.
\<close>

theorem shuffle_loop_terminates:
  "snd (shuffle_for i a rs) = sdrop (nat i) rs \<and> length (fst (shuffle_for i a rs)) = length a"
proof (induction i a rs rule: shuffle_for.induct)
  case (1 i a rs)
  show ?case
  proof (cases "0 < i")
    case True
    then have n: "nat i = Suc (nat (i - 1))" by simp
    have d: "sdrop (nat i) rs = sdrop (nat (i - 1)) (stl rs)" by (simp only: n sdrop.simps)
    from True "1.IH" d show ?thesis by (simp add: shuffle_for.simps [of i a rs] swap_def)
  next
    case False
    then show ?thesis by (simp add: shuffle_for_nonpos)
  qed
qed

text \<open>C30: every ordering of a list is the result of \<open>shuffle\<close> for some sequence of draws in \<open>[0, 1)\<close>.\<close>

theorem shuffle_complete:
  "mset ys = mset xs \<Longrightarrow> \<exists>rs. rand_ok rs \<and> fst (shuffle xs rs) = ys"
proof (cases xs)
  case Nil
  assume "mset ys = mset xs"
  with Nil have "ys = []" by simp
  moreover have "rand_ok (sconst 0)" by (simp add: rand_ok_sconst)
  ultimately show ?thesis using Nil by (auto simp: shuffle_fy_loop)
next
  case (Cons x xs')
  assume m: "mset ys = mset xs"
  then have l: "length xs = length ys" by (metis size_mset)
  let ?i = "length xs - 1"
  have "Suc ?i = length xs" using Cons by simp
  then have "\<exists>rs. rand_ok rs \<and> fst (fy_loop ?i xs rs) = ys"
    using l m by (intro fy_loop_complete) simp_all
  then show ?thesis by (simp add: shuffle_fy_loop)
qed

theorem shuffle_complete_witness:
  "mset [3, 1, 2 :: nat] = mset [1, 2, 3] \<and>
   (\<exists>rs. rand_ok rs \<and> fst (shuffle [1, 2, 3 :: nat] rs) = [3, 1, 2])"
proof -
  have h: "mset [3, 1, 2 :: nat] = mset [1, 2, 3]" by simp
  show ?thesis using h shuffle_complete [OF h] by blast
qed

text \<open>C29: with draws in \<open>[0, 1)\<close>, \<open>shuffle\<close> returns a permutation of its input.\<close>

theorem shuffle_perm: "rand_ok rs \<Longrightarrow> mset (fst (shuffle xs rs)) = mset xs"
  by (rule shuffle_mset)

theorem shuffle_perm_witness:
  "rand_ok (sconst (1/2)) \<and> mset (fst (shuffle [1, 2, 3 :: nat] (sconst (1/2)))) = mset [1, 2, 3]"
proof -
  have h: "rand_ok (sconst (1/2))" by (simp add: rand_ok_sconst)
  show ?thesis using h shuffle_perm [OF h, of "[1, 2, 3 :: nat]"] by simp
qed

text \<open>
  C7: every deck \<open>buildDeck\<close> returns is non-empty, repeats no id and holds only
  catalog ids (so at most sixty cards), in every mode.
\<close>

theorem buildDeck_ok: "rand_ok rs \<Longrightarrow> deck_ok (fst (buildDeck m p sl t rs))"
  by (rule deck_ok_buildDeck)

theorem buildDeck_ok_witness:
  "rand_ok (sconst (1/3)) \<and> deck_ok (fst (buildDeck Quiz (emptyProgress 0) False 0 (sconst (1/3))))"
proof -
  have h: "rand_ok (sconst (1/3))" by (simp add: rand_ok_sconst)
  show ?thesis using h buildDeck_ok [OF h, of Quiz "emptyProgress 0" False 0] by simp
qed

text \<open>Learn mode without shuffling gives the sixty ids in catalog order and draws nothing.\<close>

theorem buildDeck_learn_in_order: "buildDeck Learn p False t rs = ([1..<61], rs)"
  by (simp add: buildDeck_def idsAll_eq)

text \<open>Learn mode with shuffling and quiz mode give a permutation of the sixty ids, drawing 59 values.\<close>

theorem buildDeck_shuffled:
  "rand_ok rs \<Longrightarrow> m = Quiz \<or> (m = Learn \<and> sl) \<Longrightarrow>
     mset (fst (buildDeck m p sl t rs)) = mset [1..<61] \<and> snd (buildDeck m p sl t rs) = sdrop 59 rs"
  by (auto simp: buildDeck_def shuffle_mset shuffle_rest idsAll_eq)

theorem buildDeck_shuffled_witness:
  "rand_ok (sconst (1/2)) \<and> (Quiz = Quiz \<or> (Quiz = Learn \<and> False)) \<and>
   mset (fst (buildDeck Quiz (emptyProgress 0) False 0 (sconst (1/2)))) = mset [1..<61] \<and>
   snd (buildDeck Quiz (emptyProgress 0) False 0 (sconst (1/2))) = sdrop 59 (sconst (1/2))"
proof -
  have h: "rand_ok (sconst (1/2))" by (simp add: rand_ok_sconst)
  have m: "Quiz = Quiz \<or> (Quiz = Learn \<and> False)" by simp
  show ?thesis using h m buildDeck_shuffled [OF h m, of "emptyProgress 0" 0] by simp
qed

text \<open>In review mode, when exactly one catalog item is due, the deck is that item alone.\<close>

theorem buildDeck_review_single:
  assumes "i \<in> set idsAll" and "dueDay p i \<le> t"
    and "\<forall>j \<in> set idsAll. j \<noteq> i \<longrightarrow> t < dueDay p j"
  shows "fst (buildDeck Review p sl t rs) = [i]"
proof -
  from assms have "filter (\<lambda>j. dueDay p j \<le> t) idsAll = [i]"
    by (intro filter_singleton_distinct) auto
  then show ?thesis by (simp add: buildDeck_review)
qed

theorem buildDeck_review_single_witness:
  "(1::nat) \<in> set idsAll \<and>
   dueDay \<lparr>byId = (\<lambda>j. Some (fresh_item (if j = 1 then 0 else 10))), settings = default_settings\<rparr> 1 \<le> 0 \<and>
   fst (buildDeck Review \<lparr>byId = (\<lambda>j. Some (fresh_item (if j = 1 then 0 else 10))),
                           settings = default_settings\<rparr> False 0 (sconst 0)) = [1]"
proof -
  let ?p = "\<lparr>byId = (\<lambda>j. Some (fresh_item (if j = 1 then 0 else 10))), settings = default_settings\<rparr>"
  have h1: "(1::nat) \<in> set idsAll" by (simp add: set_idsAll)
  have h2: "dueDay ?p 1 \<le> 0" by (simp add: dueDay_def fresh_item_def)
  have h3: "\<forall>j \<in> set idsAll. j \<noteq> 1 \<longrightarrow> 0 < dueDay ?p j" by (simp add: dueDay_def fresh_item_def)
  show ?thesis using h1 h2 buildDeck_review_single [OF h1 h2 h3, of False "sconst 0"] by simp
qed

text \<open>In review mode, when no catalog item is due, the deck falls back to the whole catalog in order.\<close>

theorem buildDeck_review_fallback:
  assumes "\<forall>j \<in> set idsAll. t < dueDay p j"
  shows "fst (buildDeck Review p sl t rs) = [1..<61]"
proof -
  from assms have "filter (\<lambda>j. dueDay p j \<le> t) idsAll = []"
    by (auto simp: filter_empty_conv)
  then show ?thesis by (simp add: buildDeck_review idsAll_eq)
qed

theorem buildDeck_review_fallback_witness:
  "fst (buildDeck Review (emptyProgress 5) False 4 (sconst 0)) = [1..<61]"
proof -
  have h: "\<forall>j \<in> set idsAll. 4 < dueDay (emptyProgress 5) j"
    by (simp add: set_idsAll dueDay_def byId_emptyProgress fresh_item_def)
  show ?thesis using buildDeck_review_fallback [OF h, of False "sconst 0"] .
qed

end
