(* ===== verification/Session.thy ===== *)
theory Session
  imports Deck
begin

text \<open>
  The study session of \<open>src/app/page.tsx\<close> (\<open>StudySession\<close>). Its React state
  (\<open>deck\<close>, \<open>index\<close>, \<open>flipped\<close>, \<open>quizChoice\<close>, \<open>quizReveal\<close>, \<open>seconds\<close>)
  the memoised quiz (\<open>useMemo\<close> on \<open>[mode, card.id]\<close>) and the keyboard listener
  (the \<open>pr\<close> its \<open>onKey\<close> closure captured, and the effect's dependencies
  \<open>[settings.keyboardShortcuts, flipped, mode, card.id]\<close> at its registration) form the
  record \<open>session\<close>; the mode prop is fixed for a session's life. A \<open>world\<close> adds what the
  session reads and writes outside itself: the progress state of \<open>useProgress\<close>, the
  random source, and the clock (\<open>todayStart()\<close>, \<open>new Date()\<close>) at the time of the
  event. Each handler is a function on worlds; after every event the next render is
  modelled by \<open>render\<close>: the quiz memo is refreshed and, when the effect's
  dependencies changed, the listener is registered again with the current \<open>pr\<close>. An event returns the next world,
  the request to leave the session (\<open>onExit\<close>), or a JavaScript \<open>TypeError\<close>.
\<close>

type_synonym quiz = "string \<times> string list"

record session =
  sess_mode :: mode
  deck :: "item_id list"
  index :: nat
  flipped :: bool
  quizChoice :: "string option"
  quizReveal :: bool
  seconds :: nat
  quiz_memo :: "(item_id \<times> quiz) option"
  key_deps :: "bool \<times> bool \<times> item_id"
  key_pr :: progress_item

record world =
  progress :: progress_state
  sess :: session
  rng :: rand
  today :: day
  now :: instant

datatype outcome = Stay world | Leave world | Fail js_error

subsection \<open>The current card and its record\<close>

definition current_id :: "session \<Rightarrow> item_id option" where
  "current_id s =
     (if index s < length (deck s) then Some (deck s ! index s)
      else case deck s of [] \<Rightarrow> None | x # _ \<Rightarrow> Some x)"

definition card :: "session \<Rightarrow> radical" where
  "card s = card_of (current_id s)"

definition default_pr :: "day \<Rightarrow> progress_item" where
  "default_pr t = \<lparr>box = 1, learned = False, correct = 0, wrong = 0, lastReviewed = None, due = t\<rparr>"

definition pr :: "world \<Rightarrow> progress_item" where
  "pr w = (case byId (progress w) (radical_id (card (sess w))) of
             Some r \<Rightarrow> r | None \<Rightarrow> default_pr (today w))"

definition quiz_of :: "session \<Rightarrow> quiz option" where
  "quiz_of s = map_option snd (quiz_memo s)"

subsection \<open>Quiz options\<close>

definition gen_quiz :: "radical \<Rightarrow> rand \<Rightarrow> quiz \<times> rand" where
  "gen_quiz c rs =
     (let correct = meaning c;
          pool = filter (\<lambda>r. radical_id r \<noteq> radical_id c) RADICALS;
          (sh, rs1) = shuffle pool rs;
          opts = map meaning (take 3 sh);
          (options, rs2) = shuffle (correct # opts) rs1
      in ((correct, options), rs2))"

text \<open>The memo recomputes when its key, the current card's id, differs from the stored one.\<close>

definition refresh :: "world \<Rightarrow> world" where
  "refresh w =
     (let s = sess w; c = card s in
      if sess_mode s \<noteq> Quiz then w\<lparr>sess := s\<lparr>quiz_memo := None\<rparr>\<rparr>
      else if map_option fst (quiz_memo s) = Some (radical_id c) then w
      else (let (q, rs') = gen_quiz c (rng w)
            in w\<lparr>sess := s\<lparr>quiz_memo := Some (radical_id c, q)\<rparr>, rng := rs'\<rparr>))"

subsection \<open>Handlers\<close>

definition grade_patch :: "progress_item \<Rightarrow> int \<Rightarrow> day \<Rightarrow> instant \<Rightarrow> progress_item" where
  "grade_patch p g t tnow =
     (let currentBox = num_or (box p) 1;
          nextBox = applyGrade currentBox g;
          dueD = addDays t (intervalByBox nextBox)
      in \<lparr>box = nextBox,
          learned = (learned p \<or> 3 \<le> g),
          correct = correct p + (if 3 \<le> g then 1 else 0),
          wrong = wrong p + (if g \<le> 2 then 1 else 0),
          lastReviewed = Some tnow,
          due = dueD\<rparr>)"

definition advance :: "session \<Rightarrow> session" where
  "advance s =
     s\<lparr>flipped := False, quizChoice := None, quizReveal := False,
       index := (if index s + 1 < length (deck s) then index s + 1 else 0)\<rparr>"

text \<open>\<open>grade\<close> as a closure: \<open>p\<close> is the \<open>pr\<close> of the render that created it.\<close>

definition grade_with :: "progress_item \<Rightarrow> int \<Rightarrow> world \<Rightarrow> world" where
  "grade_with p g w =
     w\<lparr>progress := patchId (radical_id (card (sess w))) (grade_patch p g (today w) (now w))
                     (progress w),
       sess := advance (sess w)\<rparr>"

text \<open>The grade buttons call the \<open>grade\<close> of the current render.\<close>

definition grade :: "int \<Rightarrow> world \<Rightarrow> world" where
  "grade g w = grade_with (pr w) g w"

definition handleFlip :: "world \<Rightarrow> world" where
  "handleFlip w =
     (if sess_mode (sess w) = Quiz then w
      else w\<lparr>sess := (sess w)\<lparr>flipped := \<not> flipped (sess w)\<rparr>\<rparr>)"

definition showAnswer :: "world \<Rightarrow> world" where
  "showAnswer w = w\<lparr>sess := (sess w)\<lparr>flipped := True\<rparr>\<rparr>"

definition chooseOption :: "string \<Rightarrow> world \<Rightarrow> world" where
  "chooseOption opt w =
     (if quizReveal (sess w) then w else w\<lparr>sess := (sess w)\<lparr>quizChoice := Some opt\<rparr>\<rparr>)"

definition submitQuiz :: "world \<Rightarrow> world" where
  "submitQuiz w =
     (if quiz_of (sess w) = None \<or> quizChoice (sess w) = None then w
      else w\<lparr>sess := (sess w)\<lparr>quizReveal := True\<rparr>\<rparr>)"

text \<open>\<open>quizChoice === quiz.correct\<close>: reading \<open>.correct\<close> of a null quiz throws.\<close>

definition nextQuiz :: "world \<Rightarrow> js_error + world" where
  "nextQuiz w =
     (case quiz_of (sess w) of
        None \<Rightarrow> Inl TypeError
      | Some q \<Rightarrow> Inr (grade (if quizChoice (sess w) = Some (fst q) then 3 else 1) w))"

definition tick :: "world \<Rightarrow> world" where
  "tick w = w\<lparr>sess := (sess w)\<lparr>seconds := Suc (seconds (sess w))\<rparr>\<rparr>"

datatype key = KeyEscape | KeySpace | KeyDigit nat | KeyOther string

text \<open>
  \<open>onKey\<close>, registered only while \<open>keyboardShortcuts\<close> is on. After \<open>onExit()\<close>
  the handler runs on, but no other branch matches the Escape key. Its \<open>grade\<close> is
  the closure of the render that registered it, with that render's \<open>pr\<close>.
\<close>

definition onKey :: "key \<Rightarrow> world \<Rightarrow> outcome" where
  "onKey k w =
     (let s = sess w in
      if \<not> keyboardShortcuts (settings (progress w)) then Stay w
      else case k of
        KeyEscape \<Rightarrow> Leave w
      | KeySpace \<Rightarrow> Stay (if sess_mode s \<noteq> Quiz then showAnswer w else w)
      | KeyDigit n \<Rightarrow>
          Stay (if sess_mode s \<noteq> Quiz \<and> flipped s \<and> n \<in> {1, 2, 3, 4}
                then grade_with (key_pr s) (int n) w else w)
      | KeyOther _ \<Rightarrow> Stay w)"

subsection \<open>Rendering and effects\<close>

definition key_deps_of :: "world \<Rightarrow> bool \<times> bool \<times> item_id" where
  "key_deps_of w =
     (keyboardShortcuts (settings (progress w)), flipped (sess w), radical_id (card (sess w)))"

definition register_now :: "world \<Rightarrow> world" where
  "register_now w = w\<lparr>sess := (sess w)\<lparr>key_deps := key_deps_of w, key_pr := pr w\<rparr>\<rparr>"

definition render :: "world \<Rightarrow> world" where
  "render w =
     (let w1 = refresh w in if key_deps (sess w1) = key_deps_of w1 then w1 else register_now w1)"

text \<open>The effect on \<open>[mode, settings.shuffleLearn]\<close>: a new deck, back to its first card.\<close>

definition reset_deck :: "world \<Rightarrow> world" where
  "reset_deck w =
     (let (d, rs') = buildDeck (sess_mode (sess w)) (progress w)
                       (shuffleLearn (settings (progress w))) (today w) (rng w)
      in w\<lparr>sess := (sess w)\<lparr>deck := d, index := 0, flipped := False, quizChoice := None,
                              quizReveal := False\<rparr>,
           rng := rs'\<rparr>)"

text \<open>
  Mounting: \<open>useState\<close> builds a first deck; the first render computes the quiz memo;
  then the effects run in order: the deck effect builds a second deck (it runs on mount
  too), the timer starts, and the keyboard listener is registered with the first
  render's closure; the deck change renders again.
\<close>

definition mount :: "mode \<Rightarrow> progress_state \<Rightarrow> rand \<Rightarrow> day \<Rightarrow> instant \<Rightarrow> world" where
  "mount m p rs t tn =
     (let (d, rs1) = buildDeck m p (shuffleLearn (settings p)) t rs;
          w0 = \<lparr>progress = p,
                sess = \<lparr>sess_mode = m, deck = d, index = 0, flipped = False, quizChoice = None,
                        quizReveal = False, seconds = 0, quiz_memo = None,
                        key_deps = (False, False, 0), key_pr = default_pr t\<rparr>,
                rng = rs1, today = t, now = tn\<rparr>
      in render (reset_deck (register_now (refresh w0))))"

text \<open>
  A new progress state from the settings dialog (a switch, or reset): the session
  renders with it, and the deck effect fires when \<open>shuffleLearn\<close> changed.
\<close>

definition set_progress :: "progress_state \<Rightarrow> world \<Rightarrow> world" where
  "set_progress p' w =
     (let w1 = render (w\<lparr>progress := p'\<rparr>)
      in if shuffleLearn (settings p') \<noteq> shuffleLearn (settings (progress w))
         then render (reset_deck w1) else w1)"

subsection \<open>Events\<close>

datatype sevent =
    ClickCard | ClickShowAnswer | ClickGrade int | ClickOption string | ClickSubmit
  | ClickNext | KeyDown key | Tick | Switch setting_key bool | ClickReset | ClickBack
  | Clock day instant

fun session_step :: "sevent \<Rightarrow> world \<Rightarrow> outcome" where
  "session_step ClickCard w = Stay (render (handleFlip w))"
| "session_step ClickShowAnswer w = Stay (render (showAnswer w))"
| "session_step (ClickGrade g) w = Stay (render (grade g w))"
| "session_step (ClickOption opt) w = Stay (render (chooseOption opt w))"
| "session_step ClickSubmit w = Stay (render (submitQuiz w))"
| "session_step ClickNext w =
     (case nextQuiz w of Inl e \<Rightarrow> Fail e | Inr w' \<Rightarrow> Stay (render w'))"
| "session_step (KeyDown k) w =
     (case onKey k w of Stay w' \<Rightarrow> Stay (render w') | r \<Rightarrow> r)"
| "session_step Tick w = Stay (render (tick w))"
| "session_step (Switch k v) w =
     Stay (set_progress (patchSettings (switch_patch k v) (progress w)) w)"
| "session_step ClickReset w = Stay (set_progress (resetAll (today w) (progress w)) w)"
| "session_step ClickBack w = Leave w"
| "session_step (Clock t tn) w = Stay (w\<lparr>today := t, now := tn\<rparr>)"

text \<open>
  Which controls are on screen, from the JSX of \<open>StudySession\<close>: the card button and
  the answer button outside quiz mode, the grade buttons once the card is revealed, the
  options and the submit button (disabled without a choice) before the answer is shown
  in quiz mode, the next button after it. Keys, ticks, the settings dialog, the back
  button and the clock are always available.
\<close>

fun enabled :: "sevent \<Rightarrow> world \<Rightarrow> bool" where
  "enabled ClickCard w = (sess_mode (sess w) \<noteq> Quiz)"
| "enabled ClickShowAnswer w = (sess_mode (sess w) \<noteq> Quiz \<and> \<not> flipped (sess w))"
| "enabled (ClickGrade g) w =
     (sess_mode (sess w) \<noteq> Quiz \<and> flipped (sess w) \<and> g \<in> {1, 2, 3, 4})"
| "enabled (ClickOption opt) w =
     (sess_mode (sess w) = Quiz \<and>
      (case quiz_of (sess w) of None \<Rightarrow> False | Some q \<Rightarrow> opt \<in> set (snd q)))"
| "enabled ClickSubmit w =
     (sess_mode (sess w) = Quiz \<and> \<not> quizReveal (sess w) \<and> quizChoice (sess w) \<noteq> None)"
| "enabled ClickNext w = (sess_mode (sess w) = Quiz \<and> quizReveal (sess w))"
| "enabled _ w = True"

inductive reachable :: "world \<Rightarrow> bool" where
  start: "rand_ok rs \<Longrightarrow> progress_ok p \<Longrightarrow> reachable (mount m p rs t tn)"
| step: "reachable w \<Longrightarrow> enabled e w \<Longrightarrow> session_step e w = Stay w' \<Longrightarrow> reachable w'"

fun run :: "sevent list \<Rightarrow> world \<Rightarrow> outcome" where
  "run [] w = Stay w"
| "run (e # es) w = (case session_step e w of Stay w' \<Rightarrow> run es w' | r \<Rightarrow> r)"

text \<open>A trace a user can produce: each event's control is on screen when it is dispatched.\<close>

fun run_ok :: "sevent list \<Rightarrow> world \<Rightarrow> bool" where
  "run_ok [] w = True"
| "run_ok (e # es) w =
     (enabled e w \<and> (case session_step e w of Stay w' \<Rightarrow> run_ok es w' | _ \<Rightarrow> False))"

text \<open>
  A well-formed quiz for card \<open>c\<close>: the answer is \<open>c\<close>'s meaning, four distinct
  options, the answer among them, every other option the meaning of another item.
\<close>

definition quiz_ok :: "radical \<Rightarrow> quiz \<Rightarrow> bool" where
  "quiz_ok c q \<longleftrightarrow>
     fst q = meaning c \<and> length (snd q) = 4 \<and> distinct (snd q) \<and> meaning c \<in> set (snd q) \<and>
     (\<forall>x \<in> set (snd q). x = meaning c \<or>
        x \<in> set (map meaning (filter (\<lambda>r. radical_id r \<noteq> radical_id c) RADICALS)))"

text \<open>
  The session invariant, in two parts. \<open>pre_inv\<close> holds after every handler: the deck
  is a valid deck and the index inside it, the draws are in \<open>[0, 1)\<close>, the progress
  and the record captured by the keyboard listener are well formed, an answer is shown
  only once one is chosen, the flip state and the quiz state belong to their modes, and
  a memoised quiz is well formed for the item its key names.
  \<open>memo_ok\<close> is what each render re-establishes: in quiz mode the memo holds a
  well-formed quiz for the current card.
\<close>

definition pre_inv :: "world \<Rightarrow> bool" where
  "pre_inv w \<longleftrightarrow>
     deck_ok (deck (sess w)) \<and> index (sess w) < length (deck (sess w)) \<and> rand_ok (rng w) \<and>
     progress_ok (progress w) \<and> box_ok (box (key_pr (sess w))) \<and>
     (quizReveal (sess w) \<longrightarrow> quizChoice (sess w) \<noteq> None) \<and>
     (sess_mode (sess w) = Quiz \<longrightarrow> \<not> flipped (sess w)) \<and>
     (sess_mode (sess w) \<noteq> Quiz \<longrightarrow> quizChoice (sess w) = None \<and> \<not> quizReveal (sess w)) \<and>
     pred_option (\<lambda>m. fst m \<in> {1..60} \<and> quiz_ok (card_of (Some (fst m))) (snd m))
       (quiz_memo (sess w))"

definition memo_ok :: "world \<Rightarrow> bool" where
  "memo_ok w \<longleftrightarrow>
     (if sess_mode (sess w) = Quiz
      then map_option fst (quiz_memo (sess w)) = Some (radical_id (card (sess w))) \<and>
           quiz_ok (card (sess w)) (snd (the (quiz_memo (sess w))))
      else quiz_memo (sess w) = None)"

definition sess_inv :: "world \<Rightarrow> bool" where
  "sess_inv w \<longleftrightarrow> pre_inv w \<and> memo_ok w"

subsection \<open>Quiz generation\<close>

lemma length_filter_neq_distinct:
  "distinct xs \<Longrightarrow> x \<in> set xs \<Longrightarrow> length (filter (\<lambda>i. i \<noteq> x) xs) = length xs - 1"
proof (induction xs)
  case Nil
  then show ?case by simp
next
  case (Cons a xs)
  show ?case
  proof (cases "a = x")
    case True
    with Cons.prems have "filter (\<lambda>i. i \<noteq> x) xs = xs" by (auto simp: filter_id_conv)
    with True show ?thesis by simp
  next
    case False
    with Cons.prems Cons.IH show ?thesis by (cases xs) auto
  qed
qed

lemma pool_length:
  assumes "c \<in> set RADICALS"
  shows "length (filter (\<lambda>r. radical_id r \<noteq> radical_id c) RADICALS) = 59"
proof -
  have "map radical_id (filter (\<lambda>r. radical_id r \<noteq> radical_id c) RADICALS) =
        filter (\<lambda>i. i \<noteq> radical_id c) idsAll"
    by (simp add: idsAll_def filter_map comp_def)
  then have "length (filter (\<lambda>r. radical_id r \<noteq> radical_id c) RADICALS) =
             length (filter (\<lambda>i. i \<noteq> radical_id c) idsAll)"
    by (metis length_map)
  also have "\<dots> = 59"
  proof -
    have "radical_id c \<in> set idsAll" using assms by (simp add: idsAll_def)
    with distinct_idsAll have "length (filter (\<lambda>i. i \<noteq> radical_id c) idsAll) = length idsAll - 1"
      by (rule length_filter_neq_distinct)
    then show ?thesis by simp
  qed
  finally show ?thesis .
qed

lemma inj_meaning: "inj_on meaning (set RADICALS)"
  using distinct_meanings by (simp add: distinct_map)

lemma pool_meanings:
  assumes "c \<in> set RADICALS"
  shows "distinct (map meaning (filter (\<lambda>r. radical_id r \<noteq> radical_id c) RADICALS)) \<and>
         meaning c \<notin> set (map meaning (filter (\<lambda>r. radical_id r \<noteq> radical_id c) RADICALS))"
proof
  show "distinct (map meaning (filter (\<lambda>r. radical_id r \<noteq> radical_id c) RADICALS))"
    using distinct_meanings by (simp add: distinct_map_filter)
  show "meaning c \<notin> set (map meaning (filter (\<lambda>r. radical_id r \<noteq> radical_id c) RADICALS))"
  proof
    assume "meaning c \<in> set (map meaning (filter (\<lambda>r. radical_id r \<noteq> radical_id c) RADICALS))"
    then obtain r where r: "r \<in> set RADICALS" "radical_id r \<noteq> radical_id c" "meaning r = meaning c"
      by auto
    with assms inj_meaning have "r = c" by (auto dest: inj_onD)
    with r(2) show False by simp
  qed
qed

lemma gen_quiz_ok:
  assumes c: "c \<in> set RADICALS" and rs: "rand_ok rs"
  shows "quiz_ok c (fst (gen_quiz c rs)) \<and> snd (gen_quiz c rs) = sdrop 61 rs"
proof -
  let ?pool = "filter (\<lambda>r. radical_id r \<noteq> radical_id c) RADICALS"
  let ?sh = "fst (shuffle ?pool rs)"
  let ?rs1 = "snd (shuffle ?pool rs)"
  let ?opts = "map meaning (take 3 ?sh)"
  let ?options = "fst (shuffle (meaning c # ?opts) ?rs1)"
  have rs1: "?rs1 = sdrop 58 rs" using pool_length [OF c] by (simp add: shuffle_rest)
  with rs have ok1: "rand_ok ?rs1" by (simp add: rand_ok_sdrop)
  have msh: "mset (map meaning ?sh) = mset (map meaning ?pool)"
    using shuffle_mset [OF rs, of ?pool] by (metis mset_map)
  then have dsh: "distinct (map meaning ?sh)" and ssh: "set (map meaning ?sh) = set (map meaning ?pool)"
    using pool_meanings [OF c] by (metis mset_eq_imp_distinct_iff, metis set_mset_mset)
  have lsh: "length ?sh = 59" using shuffle_length [OF rs, of ?pool] pool_length [OF c] by simp
  have opts: "?opts = take 3 (map meaning ?sh)" by (simp add: take_map)
  then have dopts: "distinct ?opts" and lopts: "length ?opts = 3"
    and sopts: "set ?opts \<subseteq> set (map meaning ?pool)"
    using dsh lsh ssh by (auto dest: in_set_takeD)
  with pool_meanings [OF c] have notin: "meaning c \<notin> set ?opts" by blast
  have mopt: "mset ?options = mset (meaning c # ?opts)" by (rule shuffle_mset [OF ok1])
  then have "distinct ?options" using dopts notin by (metis distinct.simps(2) mset_eq_imp_distinct_iff)
  moreover have "length ?options = length (meaning c # ?opts)" using mopt by (metis size_mset)
  then have "length ?options = 4" using lopts by simp
  moreover have "set ?options = insert (meaning c) (set ?opts)" using mopt by (metis set_mset_mset list.set(2))
  ultimately have "quiz_ok c (meaning c, ?options)"
    using sopts by (auto simp: quiz_ok_def)
  moreover have "snd (shuffle (meaning c # ?opts) ?rs1) = sdrop 3 ?rs1"
    using lopts by (simp add: shuffle_rest)
  ultimately show ?thesis using rs1
    by (simp add: gen_quiz_def Let_def case_prod_beta sdrop_add)
qed

subsection \<open>The current card\<close>

lemma card_in_catalog [simp]: "card s \<in> set RADICALS"
  by (simp add: card_def card_of_in_catalog)

lemma card_id_in: "radical_id (card s) \<in> {1..60}"
proof -
  have "radical_id (card s) \<in> set idsAll" by (simp add: idsAll_def)
  then show ?thesis by (simp add: set_idsAll)
qed

lemma current_id_Some: "index s < length (deck s) \<Longrightarrow> current_id s = Some (deck s ! index s)"
  by (simp add: current_id_def)

lemma card_deck:
  "index s < length (deck s) \<Longrightarrow> deck s ! index s \<in> {1..60} \<Longrightarrow>
     card s = RADICALS ! (deck s ! index s - 1)"
  by (simp add: card_def current_id_Some card_of_id)

lemma card_deck_id:
  "index s < length (deck s) \<Longrightarrow> deck s ! index s \<in> {1..60} \<Longrightarrow>
     radical_id (card s) = deck s ! index s"
  unfolding card_def by (simp only: current_id_Some radical_id_card_of)

lemma pr_current:
  assumes "progress_ok (progress w)"
  shows "byId (progress w) (radical_id (card (sess w))) = Some (pr w) \<and> box_ok (box (pr w))"
proof -
  obtain r where "byId (progress w) (radical_id (card (sess w))) = Some r" "box_ok (box r)"
    using progress_okD [OF assms card_id_in] by blast
  then show ?thesis by (simp add: pr_def)
qed

lemma pr_box_ok: "progress_ok (progress w) \<Longrightarrow> box_ok (box (pr w))"
  by (simp add: pr_current)

subsection \<open>Rendering\<close>

lemma refresh_cases:
  "refresh w = w\<lparr>sess := (sess w)\<lparr>quiz_memo := None\<rparr>\<rparr> \<or> refresh w = w \<or>
   refresh w = w\<lparr>sess := (sess w)\<lparr>quiz_memo := Some (radical_id (card (sess w)),
                                               fst (gen_quiz (card (sess w)) (rng w)))\<rparr>,
                 rng := snd (gen_quiz (card (sess w)) (rng w))\<rparr>"
  by (simp add: refresh_def Let_def case_prod_beta)

lemma card_updates [simp]:
  "card (quiz_memo_update f1 s) = card s" "card (key_deps_update f2 s) = card s"
  "card (key_pr_update f3 s) = card s" "card (flipped_update f4 s) = card s"
  "card (quizChoice_update f5 s) = card s" "card (quizReveal_update f6 s) = card s"
  "card (seconds_update f7 s) = card s"
  by (simp_all add: card_def current_id_def)

lemma render_frame:
  "progress (render w) = progress w \<and> today (render w) = today w \<and> now (render w) = now w \<and>
   sess_mode (sess (render w)) = sess_mode (sess w) \<and> deck (sess (render w)) = deck (sess w) \<and>
   index (sess (render w)) = index (sess w) \<and> flipped (sess (render w)) = flipped (sess w) \<and>
   quizChoice (sess (render w)) = quizChoice (sess w) \<and>
   quizReveal (sess (render w)) = quizReveal (sess w) \<and> seconds (sess (render w)) = seconds (sess w)"
  using refresh_cases [of w]
  by (auto simp: render_def register_now_def Let_def)

lemma card_render [simp]: "card (sess (render w)) = card (sess w)"
  using render_frame [of w] by (simp add: card_def current_id_def)

lemma card_of_radical_id: "c \<in> set RADICALS \<Longrightarrow> card_of (Some (radical_id c)) = c"
proof -
  assume "c \<in> set RADICALS"
  then obtain k where k: "k < 60" "c = RADICALS ! k" by (auto simp: in_set_conv_nth)
  then have "radical_id c = Suc k" by (simp add: radical_id_nth)
  with k show ?thesis by (simp add: card_of_id)
qed

lemma refresh_quiz:
  "sess_mode (sess w) = Quiz \<Longrightarrow>
   refresh w =
     (if map_option fst (quiz_memo (sess w)) = Some (radical_id (card (sess w))) then w
      else w\<lparr>sess := (sess w)\<lparr>quiz_memo := Some (radical_id (card (sess w)),
                                                fst (gen_quiz (card (sess w)) (rng w)))\<rparr>,
             rng := snd (gen_quiz (card (sess w)) (rng w))\<rparr>)"
  by (simp add: refresh_def Let_def case_prod_beta)

lemma refresh_other:
  "sess_mode (sess w) \<noteq> Quiz \<Longrightarrow> refresh w = w\<lparr>sess := (sess w)\<lparr>quiz_memo := None\<rparr>\<rparr>"
  by (simp add: refresh_def Let_def)

lemma pre_inv_refresh: "pre_inv w \<Longrightarrow> pre_inv (refresh w) \<and> memo_ok (refresh w)"
proof -
  assume pre: "pre_inv w"
  let ?c = "card (sess w)"
  show ?thesis
  proof (cases "sess_mode (sess w) = Quiz")
    case False
    with pre show ?thesis by (simp add: refresh_other pre_inv_def memo_ok_def)
  next
    case quiz: True
    show ?thesis
    proof (cases "map_option fst (quiz_memo (sess w)) = Some (radical_id ?c)")
      case True
      then obtain q where m: "quiz_memo (sess w) = Some (radical_id ?c, q)" by auto
      with pre have "quiz_ok (card_of (Some (radical_id ?c))) q" by (simp add: pre_inv_def)
      then have "quiz_ok ?c q" by (simp add: card_of_radical_id)
      with quiz True m pre show ?thesis by (simp add: refresh_quiz memo_ok_def)
    next
      case False
      have q: "quiz_ok ?c (fst (gen_quiz ?c (rng w))) \<and> snd (gen_quiz ?c (rng w)) = sdrop 61 (rng w)"
        using pre by (intro gen_quiz_ok) (simp_all add: pre_inv_def)
      with quiz False pre card_id_in [of "sess w"] show ?thesis
        by (simp add: refresh_quiz pre_inv_def memo_ok_def rand_ok_sdrop card_of_radical_id)
    qed
  qed
qed

lemma memo_ok_register: "memo_ok (register_now w) = memo_ok w"
  by (simp add: memo_ok_def register_now_def split: option.split)

lemma pre_inv_register: "pre_inv w \<Longrightarrow> pre_inv (register_now w)"
  by (simp add: pre_inv_def register_now_def pr_box_ok)

lemma render_inv: "pre_inv w \<Longrightarrow> sess_inv (render w)"
proof -
  assume pre: "pre_inv w"
  then have r: "pre_inv (refresh w)" and m: "memo_ok (refresh w)" by (simp_all add: pre_inv_refresh)
  then show ?thesis
    by (simp add: render_def sess_inv_def Let_def pre_inv_register memo_ok_register)
qed

subsection \<open>Each handler keeps the invariant\<close>

lemma deck_ok_nonempty: "deck_ok d \<Longrightarrow> 0 < length d"
  by (simp add: deck_ok_def)

lemma deck_ok_ne: "deck_ok d \<Longrightarrow> d \<noteq> []"
  by (simp add: deck_ok_def)

lemma box_ok_grade_patch: "box_ok (box p) \<Longrightarrow> box_ok (box (grade_patch p g t tn))"
proof -
  assume b: "box_ok (box p)"
  then have "box p \<noteq> 0" by (simp add: box_ok_def)
  then have "num_or (box p) 1 = box p" by (rule num_or_nonzero)
  with b show ?thesis by (simp add: grade_patch_def Let_def box_ok_applyGrade)
qed

lemma advance_index: "0 < length (deck s) \<Longrightarrow> index (advance s) < length (deck s)"
  by (simp add: advance_def)

lemma pre_inv_grade_with:
  "sess_inv w \<Longrightarrow> box_ok (box p) \<Longrightarrow> pre_inv (grade_with p g w)"
  by (simp add: sess_inv_def pre_inv_def grade_with_def advance_def deck_ok_ne
      progress_ok_patchId box_ok_grade_patch split: option.split)

lemma pre_inv_grade: "sess_inv w \<Longrightarrow> pre_inv (grade g w)"
proof -
  assume w: "sess_inv w"
  then have "box_ok (box (pr w))" by (simp add: sess_inv_def pre_inv_def pr_box_ok)
  with w show ?thesis by (simp add: grade_def pre_inv_grade_with)
qed

lemma pre_inv_of_sess_inv: "sess_inv w \<Longrightarrow> pre_inv w"
  by (simp add: sess_inv_def)

lemma pre_inv_handleFlip: "sess_inv w \<Longrightarrow> pre_inv (handleFlip w)"
  by (simp add: handleFlip_def sess_inv_def pre_inv_def split: option.split)

lemma pre_inv_showAnswer: "sess_inv w \<Longrightarrow> sess_mode (sess w) \<noteq> Quiz \<Longrightarrow> pre_inv (showAnswer w)"
  by (simp add: showAnswer_def sess_inv_def pre_inv_def split: option.split)

lemma pre_inv_chooseOption: "sess_inv w \<Longrightarrow> sess_mode (sess w) = Quiz \<Longrightarrow> pre_inv (chooseOption opt w)"
  by (simp add: chooseOption_def sess_inv_def pre_inv_def split: option.split)

lemma pre_inv_submitQuiz: "sess_inv w \<Longrightarrow> pre_inv (submitQuiz w)"
  by (auto simp: submitQuiz_def sess_inv_def pre_inv_def split: option.split)

lemma pre_inv_tick: "sess_inv w \<Longrightarrow> pre_inv (tick w)"
  by (simp add: tick_def sess_inv_def pre_inv_def split: option.split)

lemma quiz_of_Some: "sess_inv w \<Longrightarrow> sess_mode (sess w) = Quiz \<Longrightarrow> quiz_of (sess w) \<noteq> None"
  by (auto simp: sess_inv_def memo_ok_def quiz_of_def split: option.splits)

lemma nextQuiz_ok:
  "sess_inv w \<Longrightarrow> sess_mode (sess w) = Quiz \<Longrightarrow> \<exists>w'. nextQuiz w = Inr w' \<and> pre_inv w'"
  using quiz_of_Some [of w] by (auto simp: nextQuiz_def pre_inv_grade)

lemma onKey_cases:
  "onKey k w = Leave w \<or> onKey k w = Stay w \<or>
   (sess_mode (sess w) \<noteq> Quiz \<and> onKey k w = Stay (showAnswer w)) \<or>
   (\<exists>n. sess_mode (sess w) \<noteq> Quiz \<and> onKey k w = Stay (grade_with (key_pr (sess w)) (int n) w))"
  by (cases k) (auto simp: onKey_def Let_def)

lemma pre_inv_reset_deck: "pre_inv w \<Longrightarrow> pre_inv (reset_deck w)"
proof -
  assume pre: "pre_inv w"
  let ?b = "buildDeck (sess_mode (sess w)) (progress w) (shuffleLearn (settings (progress w))) (today w) (rng w)"
  from pre have ok: "deck_ok (fst ?b)" by (simp add: pre_inv_def deck_ok_buildDeck)
  from pre have rs: "rand_ok (snd ?b)" by (simp add: pre_inv_def buildDeck_rest rand_ok_sdrop)
  show ?thesis using pre ok rs deck_ok_nonempty [OF ok]
    by (simp add: reset_deck_def pre_inv_def case_prod_beta split: option.split)
qed

lemma pre_inv_set_progress_raw:
  "sess_inv w \<Longrightarrow> progress_ok p' \<Longrightarrow> pre_inv (w\<lparr>progress := p'\<rparr>)"
  by (simp add: sess_inv_def pre_inv_def split: option.split)

lemma sess_inv_pre: "sess_inv w \<Longrightarrow> pre_inv w"
  by (simp add: sess_inv_def)

lemma set_progress_inv: "sess_inv w \<Longrightarrow> progress_ok p' \<Longrightarrow> sess_inv (set_progress p' w)"
proof -
  assume w: "sess_inv w" and p: "progress_ok p'"
  then have s1: "sess_inv (render (w\<lparr>progress := p'\<rparr>))"
    by (intro render_inv pre_inv_set_progress_raw)
  have "sess_inv (render (reset_deck (render (w\<lparr>progress := p'\<rparr>))))"
    using pre_inv_reset_deck [OF sess_inv_pre [OF s1]] by (rule render_inv)
  with s1 show ?thesis by (simp add: set_progress_def Let_def)
qed

lemma progress_ok_patchSettings: "progress_ok p \<Longrightarrow> progress_ok (patchSettings q p)"
  by (simp add: progress_ok_def)

lemma progress_ok_resetAll: "progress_ok (resetAll t p)"
  by (simp add: resetAll_def progress_ok_fresh)

lemma sess_inv_clock: "sess_inv w \<Longrightarrow> sess_inv (w\<lparr>today := t, now := tn\<rparr>)"
  by (simp add: sess_inv_def pre_inv_def memo_ok_def split: option.split)

lemma session_step_inv:
  assumes w: "sess_inv w" and en: "enabled e w" and st: "session_step e w = Stay w'"
  shows "sess_inv w'"
proof (cases e)
  case ClickCard
  with st w show ?thesis by (auto intro: render_inv pre_inv_handleFlip)
next
  case ClickShowAnswer
  with st w en show ?thesis by (auto intro: render_inv pre_inv_showAnswer)
next
  case (ClickGrade g)
  with st w show ?thesis by (auto intro: render_inv pre_inv_grade)
next
  case (ClickOption opt)
  with st w en show ?thesis by (auto intro: render_inv pre_inv_chooseOption)
next
  case ClickSubmit
  with st w show ?thesis by (auto intro: render_inv pre_inv_submitQuiz)
next
  case ClickNext
  with en have "sess_mode (sess w) = Quiz" by simp
  with w obtain w1 where "nextQuiz w = Inr w1" "pre_inv w1" by (blast dest: nextQuiz_ok)
  with st ClickNext show ?thesis by (auto intro: render_inv)
next
  case (KeyDown k)
  have pre: "pre_inv w" using w by (rule sess_inv_pre)
  from onKey_cases [of k w] show ?thesis
  proof (elim disjE exE conjE)
    assume "onKey k w = Leave w"
    with st KeyDown show ?thesis by simp
  next
    assume "onKey k w = Stay w"
    with st KeyDown pre show ?thesis by (auto intro: render_inv)
  next
    assume "sess_mode (sess w) \<noteq> Quiz" "onKey k w = Stay (showAnswer w)"
    with st KeyDown w show ?thesis by (auto intro: render_inv pre_inv_showAnswer)
  next
    fix n
    assume "onKey k w = Stay (grade_with (key_pr (sess w)) (int n) w)"
    moreover have "box_ok (box (key_pr (sess w)))" using pre by (simp add: pre_inv_def)
    ultimately show ?thesis using st KeyDown w by (auto intro: render_inv pre_inv_grade_with)
  qed
next
  case Tick
  with st w show ?thesis by (auto intro: render_inv pre_inv_tick)
next
  case (Switch k v)
  have "progress_ok (patchSettings (switch_patch k v) (progress w))"
    using w by (simp add: sess_inv_def pre_inv_def progress_ok_patchSettings)
  with st Switch w show ?thesis by (auto intro: set_progress_inv)
next
  case ClickReset
  with st w show ?thesis by (auto intro: set_progress_inv progress_ok_resetAll)
next
  case ClickBack
  with st show ?thesis by simp
next
  case (Clock t tn)
  with st w show ?thesis by (auto intro: sess_inv_clock)
qed

lemma mount_inv:
  assumes rs: "rand_ok rs" and p: "progress_ok p"
  shows "sess_inv (mount m p rs t tn)"
proof -
  let ?b = "buildDeck m p (shuffleLearn (settings p)) t rs"
  define w0 where "w0 =
    \<lparr>progress = p,
     sess = \<lparr>sess_mode = m, deck = fst ?b, index = 0, flipped = False, quizChoice = None,
             quizReveal = False, seconds = 0, quiz_memo = None,
             key_deps = (False, False, 0), key_pr = default_pr t\<rparr>,
     rng = snd ?b, today = t, now = tn\<rparr>"
  have ok: "deck_ok (fst ?b)" using rs by (rule deck_ok_buildDeck)
  have "pre_inv w0"
    using ok deck_ok_nonempty [OF ok] rs p
    by (simp add: w0_def pre_inv_def default_pr_def box_ok_def buildDeck_rest rand_ok_sdrop)
  then have "pre_inv (reset_deck (register_now (refresh w0)))"
    by (intro pre_inv_reset_deck pre_inv_register) (simp add: pre_inv_refresh)
  then have "sess_inv (render (reset_deck (register_now (refresh w0))))" by (rule render_inv)
  then show ?thesis by (simp add: mount_def w0_def case_prod_beta Let_def)
qed

lemma reachable_sess_inv: "reachable w \<Longrightarrow> sess_inv w"
proof (induction rule: reachable.induct)
  case (start rs p m t tn)
  then show ?case by (rule mount_inv)
next
  case (step w e w')
  then show ?case by (blast intro: session_step_inv)
qed

subsection \<open>Frame lemmas\<close>

lemma refresh_frame [simp]:
  "today (refresh w) = today w" "now (refresh w) = now w" "progress (refresh w) = progress w"
  "sess_mode (sess (refresh w)) = sess_mode (sess w)" "deck (sess (refresh w)) = deck (sess w)"
  "index (sess (refresh w)) = index (sess w)"
  by (simp_all add: refresh_def Let_def case_prod_beta)

lemma reset_deck_frame [simp]:
  "progress (reset_deck w) = progress w" "sess_mode (sess (reset_deck w)) = sess_mode (sess w)"
  "today (reset_deck w) = today w" "now (reset_deck w) = now w"
  by (simp_all add: reset_deck_def case_prod_beta)

lemma sess_mode_register [simp]: "sess_mode (sess (register_now w)) = sess_mode (sess w)"
  by (simp add: register_now_def)

lemma sess_mode_mount: "sess_mode (sess (mount m p rs t tn)) = m"
  using render_frame by (simp add: mount_def case_prod_beta Let_def)

lemma progress_set_progress: "progress (set_progress p' w) = p'"
  using render_frame by (simp add: set_progress_def Let_def)

lemma reachable_mount: "rand_ok rs \<Longrightarrow> progress_ok p \<Longrightarrow> reachable (mount m p rs t tn)"
  by (rule reachable.start)

lemma grade_sess: "sess (grade_with p g w) = advance (sess w)"
  by (simp add: grade_with_def)

lemma grade_round_deck_index:
  "deck (sess (render (grade g w))) = deck (sess w) \<and>
   index (sess (render (grade g w))) =
     (if index (sess w) + 1 < length (deck (sess w)) then index (sess w) + 1 else 0)"
  using render_frame [of "grade g w"] by (simp add: grade_def grade_sess advance_def)

lemma mod_Suc_step:
  fixes x L :: nat
  assumes "x < L"
  shows "(if Suc x < L then Suc x else 0) = Suc x mod L"
proof (cases "Suc x < L")
  case True
  then show ?thesis by simp
next
  case False
  with assms have "Suc x = L" by linarith
  then show ?thesis by simp
qed

lemma grade_rounds_index:
  assumes "index (sess w) < length (deck (sess w))"
  shows "deck (sess (((\<lambda>w. render (grade g w)) ^^ n) w)) = deck (sess w) \<and>
         index (sess (((\<lambda>w. render (grade g w)) ^^ n) w)) =
           (index (sess w) + n) mod length (deck (sess w))"
proof (induction n)
  case 0
  with assms show ?case by auto
next
  case (Suc n)
  let ?L = "length (deck (sess w))"
  let ?f = "\<lambda>w. render (grade g w)"
  let ?x = "(index (sess w) + n) mod ?L"
  from assms have L: "0 < ?L" by auto
  then have lt: "?x < ?L" by (rule mod_less_divisor)
  from Suc.IH have d: "deck (sess ((?f ^^ n) w)) = deck (sess w)"
    and i: "index (sess ((?f ^^ n) w)) = ?x" by simp_all
  have "deck (sess (?f ((?f ^^ n) w))) = deck (sess w) \<and>
        index (sess (?f ((?f ^^ n) w))) = (if Suc ?x < ?L then Suc ?x else 0)"
    using grade_round_deck_index [of g "(?f ^^ n) w"] d i by simp
  also have "(if Suc ?x < ?L then Suc ?x else 0) = Suc ?x mod ?L"
    using lt by (rule mod_Suc_step)
  also have "Suc ?x mod ?L = (index (sess w) + Suc n) mod ?L"
    by (simp add: mod_Suc_eq)
  finally show ?case by simp
qed

lemma mod_reach:
  fixes i j L :: nat
  assumes "i < L" and "j < L"
  shows "\<exists>n < L. (i + n) mod L = j"
proof (cases "i \<le> j")
  case True
  with assms show ?thesis by (intro exI [of _ "j - i"]) auto
next
  case False
  with assms have "(i + (L - i + j)) mod L = j" by simp
  with False assms show ?thesis by (intro exI [of _ "L - i + j"]) auto
qed

lemma grade_patch_fields:
  "box p \<noteq> 0 \<Longrightarrow> grade_patch p g t tn =
     \<lparr>box = applyGrade (box p) g, learned = (learned p \<or> 3 \<le> g),
      correct = correct p + (if 3 \<le> g then 1 else 0), wrong = wrong p + (if g \<le> 2 then 1 else 0),
      lastReviewed = Some tn, due = t + intervalByBox (applyGrade (box p) g)\<rparr>"
  by (simp add: grade_patch_def Let_def num_or_nonzero addDays_def)

lemma session_step_no_fail:
  "reachable w \<Longrightarrow> enabled e w \<Longrightarrow> session_step e w \<noteq> Fail err"
proof -
  assume r: "reachable w" and en: "enabled e w"
  have w: "sess_inv w" using r by (rule reachable_sess_inv)
  show ?thesis
  proof (cases e)
    case ClickNext
    with en have "sess_mode (sess w) = Quiz" by simp
    with w obtain w1 where "nextQuiz w = Inr w1" by (blast dest: nextQuiz_ok)
    with ClickNext show ?thesis by simp
  next
    case (KeyDown k)
    then show ?thesis using onKey_cases [of k w] by auto
  qed simp_all
qed

lemma reachable_ok: "reachable w \<Longrightarrow> progress_ok (progress w) \<and> rand_ok (rng w)"
  by (drule reachable_sess_inv) (simp add: sess_inv_def pre_inv_def)

subsection \<open>Properties\<close>

text \<open>
  Every render leaves the keyboard effect registered for the current dependencies; every
  state a session reaches is a render's, up to the clock, which is not a dependency.
\<close>

lemma key_deps_of_register [simp]: "key_deps_of (register_now w) = key_deps_of w"
  by (simp add: key_deps_of_def register_now_def)

lemma render_key_deps: "key_deps (sess (render w)) = key_deps_of (render w)"
  by (simp add: render_def Let_def register_now_def key_deps_of_def)

lemma session_step_rendered:
  "session_step e w = Stay w' \<Longrightarrow>
     (\<exists>v. w' = render v) \<or> (\<exists>t tn. w' = w\<lparr>today := t, now := tn\<rparr>)"
proof (cases e)
  case (KeyDown k)
  assume "session_step e w = Stay w'"
  with KeyDown show ?thesis by (auto split: outcome.splits)
next
  case ClickNext
  assume "session_step e w = Stay w'"
  with ClickNext show ?thesis by (auto split: sum.splits)
qed (auto simp: set_progress_def Let_def)

lemma reachable_key_deps: "reachable w \<Longrightarrow> key_deps (sess w) = key_deps_of w"
proof (induction rule: reachable.induct)
  case (start rs p m t tn)
  show ?case by (simp add: mount_def Let_def case_prod_beta render_key_deps)
next
  case (step w e w')
  from session_step_rendered [OF step.hyps(3)] show ?case
  proof
    assume "\<exists>v. w' = render v"
    then show ?thesis using render_key_deps by blast
  next
    assume "\<exists>t tn. w' = w\<lparr>today := t, now := tn\<rparr>"
    with step.IH show ?thesis by (auto simp: key_deps_of_def pr_def)
  qed
qed

text \<open>
  C1: in every reachable state of a session started from well-formed progress, the
  deck is a valid deck, the index lies inside it, progress stays well formed (every box
  in \<open>1..5\<close>), and an answer is revealed only after an option was chosen.
\<close>

theorem session_invariant:
  "reachable w \<Longrightarrow>
     deck_ok (deck (sess w)) \<and> index (sess w) < length (deck (sess w)) \<and>
     progress_ok (progress w) \<and> (quizReveal (sess w) \<longrightarrow> quizChoice (sess w) \<noteq> None)"
  by (drule reachable_sess_inv) (simp add: sess_inv_def pre_inv_def)

theorem session_invariant_witness:
  "reachable (mount Learn (emptyProgress 0) (sconst 0) 0 0) \<and>
   deck_ok (deck (sess (mount Learn (emptyProgress 0) (sconst 0) 0 0))) \<and>
   index (sess (mount Learn (emptyProgress 0) (sconst 0) 0 0)) <
     length (deck (sess (mount Learn (emptyProgress 0) (sconst 0) 0 0))) \<and>
   progress_ok (progress (mount Learn (emptyProgress 0) (sconst 0) 0 0))"
proof -
  have h: "reachable (mount Learn (emptyProgress 0) (sconst 0) 0 0)"
    by (intro reachable_mount rand_ok_sconst progress_ok_fresh) simp_all
  show ?thesis using h session_invariant [OF h] by blast
qed

text \<open>C2: no control on screen in a reachable state throws: \<open>nextQuiz\<close> never reads a null quiz.\<close>

theorem session_no_crash:
  "reachable w \<Longrightarrow> enabled e w \<Longrightarrow> session_step e w \<noteq> Fail err"
  by (rule session_step_no_fail)

theorem session_no_crash_witness:
  "reachable (mount Quiz (emptyProgress 0) (sconst 0) 0 0) \<and> enabled Tick (mount Quiz (emptyProgress 0) (sconst 0) 0 0) \<and>
   session_step Tick (mount Quiz (emptyProgress 0) (sconst 0) 0 0) \<noteq> Fail TypeError"
proof -
  have h: "reachable (mount Quiz (emptyProgress 0) (sconst 0) 0 0)"
    by (intro reachable_mount rand_ok_sconst progress_ok_fresh) simp_all
  have e: "enabled Tick (mount Quiz (emptyProgress 0) (sconst 0) 0 0)" by simp
  show ?thesis using h e session_no_crash [OF h e] by blast
qed

text \<open>
  C6: in quiz mode every reachable state shows a well-formed quiz for the current card:
  four distinct options, the card's meaning among them, each other option the meaning
  of a different item.
\<close>

theorem quiz_options_ok:
  "reachable w \<Longrightarrow> sess_mode (sess w) = Quiz \<Longrightarrow>
     \<exists>q. quiz_of (sess w) = Some q \<and> quiz_ok (card (sess w)) q"
proof -
  assume r: "reachable w" and m: "sess_mode (sess w) = Quiz"
  from r have "sess_inv w" by (rule reachable_sess_inv)
  with m show ?thesis by (auto simp: sess_inv_def memo_ok_def quiz_of_def)
qed

theorem quiz_options_ok_witness:
  "reachable (mount Quiz (emptyProgress 0) (sconst 0) 0 0) \<and>
   sess_mode (sess (mount Quiz (emptyProgress 0) (sconst 0) 0 0)) = Quiz \<and>
   (\<exists>q. quiz_of (sess (mount Quiz (emptyProgress 0) (sconst 0) 0 0)) = Some q \<and>
        quiz_ok (card (sess (mount Quiz (emptyProgress 0) (sconst 0) 0 0))) q)"
proof -
  have h: "reachable (mount Quiz (emptyProgress 0) (sconst 0) 0 0)"
    by (intro reachable_mount rand_ok_sconst progress_ok_fresh) simp_all
  have m: "sess_mode (sess (mount Quiz (emptyProgress 0) (sconst 0) 0 0)) = Quiz"
    by (rule sess_mode_mount)
  show ?thesis using h m quiz_options_ok [OF h m] by blast
qed

text \<open>
  C3: grading the current card stores, for a record with a non-zero box, the new box
  \<open>applyGrade box g\<close>, \<open>learned\<close> kept or set by a grade of at least 3, one more
  correct (grade at least 3) or wrong (grade at most 2), the grading instant, and the due
  day \<open>today + intervalByBox\<close> of the new box; every other record is unchanged, and the
  session moves to the next card, wrapping to the first, with the card hidden and no
  quiz choice.
\<close>

theorem grade_record:
  assumes "radical_id (card (sess w)) = i" and "byId (progress w) i = Some r" and "box r \<noteq> 0"
  shows "byId (progress (grade g w)) i =
           Some \<lparr>box = applyGrade (box r) g, learned = (learned r \<or> 3 \<le> g),
                 correct = correct r + (if 3 \<le> g then 1 else 0),
                 wrong = wrong r + (if g \<le> 2 then 1 else 0),
                 lastReviewed = Some (now w), due = today w + intervalByBox (applyGrade (box r) g)\<rparr> \<and>
         (\<forall>j. j \<noteq> i \<longrightarrow> byId (progress (grade g w)) j = byId (progress w) j) \<and>
         deck (sess (grade g w)) = deck (sess w) \<and>
         index (sess (grade g w)) =
           (if index (sess w) + 1 < length (deck (sess w)) then index (sess w) + 1 else 0) \<and>
         \<not> flipped (sess (grade g w)) \<and> quizChoice (sess (grade g w)) = None \<and>
         \<not> quizReveal (sess (grade g w))"
proof -
  from assms(1,2) have "pr w = r" by (simp add: pr_def)
  with assms show ?thesis
    by (simp add: grade_def grade_with_def byId_patchId grade_patch_fields advance_def)
qed

theorem grade_record_witness:
  "radical_id (card (sess (\<lparr>progress = emptyProgress 0,
         sess = \<lparr>sess_mode = Review, deck = [1], index = 0, flipped = True, quizChoice = None,
                 quizReveal = False, seconds = 0, quiz_memo = None, key_deps = (True, True, 1),
                 key_pr = fresh_item 0\<rparr>,
         rng = sconst 0, today = 0, now = 0\<rparr>))) = 1 \<and> byId (progress (\<lparr>progress = emptyProgress 0,
         sess = \<lparr>sess_mode = Review, deck = [1], index = 0, flipped = True, quizChoice = None,
                 quizReveal = False, seconds = 0, quiz_memo = None, key_deps = (True, True, 1),
                 key_pr = fresh_item 0\<rparr>,
         rng = sconst 0, today = 0, now = 0\<rparr>)) 1 = Some (fresh_item 0) \<and>
   box (fresh_item 0) \<noteq> 0 \<and>
   byId (progress (grade 3 (\<lparr>progress = emptyProgress 0,
         sess = \<lparr>sess_mode = Review, deck = [1], index = 0, flipped = True, quizChoice = None,
                 quizReveal = False, seconds = 0, quiz_memo = None, key_deps = (True, True, 1),
                 key_pr = fresh_item 0\<rparr>,
         rng = sconst 0, today = 0, now = 0\<rparr>))) 1 =
     Some \<lparr>box = 2, learned = True, correct = 1, wrong = 0, lastReviewed = Some 0, due = 1\<rparr>"
proof -
  have h1: "radical_id (card (sess (\<lparr>progress = emptyProgress 0,
         sess = \<lparr>sess_mode = Review, deck = [1], index = 0, flipped = True, quizChoice = None,
                 quizReveal = False, seconds = 0, quiz_memo = None, key_deps = (True, True, 1),
                 key_pr = fresh_item 0\<rparr>,
         rng = sconst 0, today = 0, now = 0\<rparr>))) = 1"
    by (simp add: card_def current_id_def radical_id_card_of)
  have h2: "byId (progress (\<lparr>progress = emptyProgress 0,
         sess = \<lparr>sess_mode = Review, deck = [1], index = 0, flipped = True, quizChoice = None,
                 quizReveal = False, seconds = 0, quiz_memo = None, key_deps = (True, True, 1),
                 key_pr = fresh_item 0\<rparr>,
         rng = sconst 0, today = 0, now = 0\<rparr>)) 1 = Some (fresh_item 0)" by (simp add: byId_emptyProgress)
  have h3: "box (fresh_item 0) \<noteq> 0" by (simp add: fresh_item_def)
  show ?thesis using h1 h2 h3 grade_record [OF h1 h2 h3, of 3]
    by (simp add: fresh_item_def applyGrade_def intervalByBox_def)
qed

text \<open>
  C28: for a card with no stored record, grading starts from the default
  \<open>{box: 1, correct: 0, wrong: 0}\<close> and stores a complete record.
\<close>

theorem grade_missing_record:
  assumes "radical_id (card (sess w)) = i" and "byId (progress w) i = None"
  shows "byId (progress (grade g w)) i =
           Some \<lparr>box = applyGrade 1 g, learned = (3 \<le> g),
                 correct = (if 3 \<le> g then 1 else 0), wrong = (if g \<le> 2 then 1 else 0),
                 lastReviewed = Some (now w), due = today w + intervalByBox (applyGrade 1 g)\<rparr>"
proof -
  from assms have "pr w = default_pr (today w)" by (simp add: pr_def)
  with assms show ?thesis
    by (simp add: grade_def grade_with_def byId_patchId grade_patch_fields default_pr_def)
qed

theorem grade_missing_record_witness:
  "radical_id (card (sess (\<lparr>progress = \<lparr>byId = Map.empty, settings = default_settings\<rparr>,
         sess = \<lparr>sess_mode = Review, deck = [1], index = 0, flipped = True, quizChoice = None,
                 quizReveal = False, seconds = 0, quiz_memo = None, key_deps = (True, True, 1),
                 key_pr = fresh_item 0\<rparr>,
         rng = sconst 0, today = 0, now = 0\<rparr>))) = 1 \<and> byId (progress (\<lparr>progress = \<lparr>byId = Map.empty, settings = default_settings\<rparr>,
         sess = \<lparr>sess_mode = Review, deck = [1], index = 0, flipped = True, quizChoice = None,
                 quizReveal = False, seconds = 0, quiz_memo = None, key_deps = (True, True, 1),
                 key_pr = fresh_item 0\<rparr>,
         rng = sconst 0, today = 0, now = 0\<rparr>)) 1 = None \<and>
   byId (progress (grade 4 (\<lparr>progress = \<lparr>byId = Map.empty, settings = default_settings\<rparr>,
         sess = \<lparr>sess_mode = Review, deck = [1], index = 0, flipped = True, quizChoice = None,
                 quizReveal = False, seconds = 0, quiz_memo = None, key_deps = (True, True, 1),
                 key_pr = fresh_item 0\<rparr>,
         rng = sconst 0, today = 0, now = 0\<rparr>))) 1 =
     Some \<lparr>box = 3, learned = True, correct = 1, wrong = 0, lastReviewed = Some 0, due = 3\<rparr>"
proof -
  have h1: "radical_id (card (sess (\<lparr>progress = \<lparr>byId = Map.empty, settings = default_settings\<rparr>,
         sess = \<lparr>sess_mode = Review, deck = [1], index = 0, flipped = True, quizChoice = None,
                 quizReveal = False, seconds = 0, quiz_memo = None, key_deps = (True, True, 1),
                 key_pr = fresh_item 0\<rparr>,
         rng = sconst 0, today = 0, now = 0\<rparr>))) = 1"
    by (simp add: card_def current_id_def radical_id_card_of)
  have h2: "byId (progress (\<lparr>progress = \<lparr>byId = Map.empty, settings = default_settings\<rparr>,
         sess = \<lparr>sess_mode = Review, deck = [1], index = 0, flipped = True, quizChoice = None,
                 quizReveal = False, seconds = 0, quiz_memo = None, key_deps = (True, True, 1),
                 key_pr = fresh_item 0\<rparr>,
         rng = sconst 0, today = 0, now = 0\<rparr>)) 1 = None" by simp
  show ?thesis using h1 h2 grade_missing_record [OF h1 h2, of 4]
    by (simp add: applyGrade_def intervalByBox_def)
qed

text \<open>
  Every grading event increments exactly one of the two counters (\<open>correct\<close> for a
  grade of at least 3, \<open>wrong\<close> otherwise), and \<open>learned\<close> never goes back to false.
\<close>

theorem grade_patch_counters:
  "(if 3 \<le> g then correct (grade_patch p g t tn) = correct p + 1 \<and> wrong (grade_patch p g t tn) = wrong p
    else correct (grade_patch p g t tn) = correct p \<and> wrong (grade_patch p g t tn) = wrong p + 1) \<and>
   (learned p \<longrightarrow> learned (grade_patch p g t tn))"
  by (simp add: grade_patch_def Let_def)

theorem grade_patch_counters_witness:
  "(if 3 \<le> (2::int) then correct (grade_patch (fresh_item 0) 2 0 0) = correct (fresh_item 0) + 1 \<and>
      wrong (grade_patch (fresh_item 0) 2 0 0) = wrong (fresh_item 0)
    else correct (grade_patch (fresh_item 0) 2 0 0) = correct (fresh_item 0) \<and>
      wrong (grade_patch (fresh_item 0) 2 0 0) = wrong (fresh_item 0) + 1) \<and>
   learned (fresh_item 0\<lparr>learned := True\<rparr>) \<and>
   learned (grade_patch (fresh_item 0\<lparr>learned := True\<rparr>) 1 0 0)"
proof -
  have "learned (fresh_item 0\<lparr>learned := True\<rparr>)" by simp
  then show ?thesis
    using grade_patch_counters [of 2 "fresh_item 0" 0 0]
      grade_patch_counters [of 1 "fresh_item 0\<lparr>learned := True\<rparr>" 0 0] by simp
qed

text \<open>
  C27: grading never ends a session: the index moves by one and wraps to the first card
  after the last, so from any position every card of the deck comes up again within
  \<open>length deck\<close> grading events.
\<close>

theorem grading_visits_every_card:
  assumes "index (sess w) < length (deck (sess w))" and "j < length (deck (sess w))"
  shows "\<exists>n < length (deck (sess w)).
           deck (sess (((\<lambda>w. render (grade g w)) ^^ n) w)) = deck (sess w) \<and>
           index (sess (((\<lambda>w. render (grade g w)) ^^ n) w)) = j"
proof -
  obtain n where "n < length (deck (sess w))" "(index (sess w) + n) mod length (deck (sess w)) = j"
    using mod_reach [OF assms] by blast
  with grade_rounds_index [OF assms(1), where g = g and n = n] show ?thesis by auto
qed

theorem grading_visits_every_card_witness:
  "index (sess (\<lparr>progress = emptyProgress 0,
         sess = \<lparr>sess_mode = Review, deck = [1], index = 0, flipped = True, quizChoice = None,
                 quizReveal = False, seconds = 0, quiz_memo = None, key_deps = (True, True, 1),
                 key_pr = fresh_item 0\<rparr>,
         rng = sconst 0, today = 0, now = 0\<rparr>)) < length (deck (sess (\<lparr>progress = emptyProgress 0,
         sess = \<lparr>sess_mode = Review, deck = [1], index = 0, flipped = True, quizChoice = None,
                 quizReveal = False, seconds = 0, quiz_memo = None, key_deps = (True, True, 1),
                 key_pr = fresh_item 0\<rparr>,
         rng = sconst 0, today = 0, now = 0\<rparr>))) \<and> (0::nat) < length (deck (sess (\<lparr>progress = emptyProgress 0,
         sess = \<lparr>sess_mode = Review, deck = [1], index = 0, flipped = True, quizChoice = None,
                 quizReveal = False, seconds = 0, quiz_memo = None, key_deps = (True, True, 1),
                 key_pr = fresh_item 0\<rparr>,
         rng = sconst 0, today = 0, now = 0\<rparr>))) \<and>
   (\<exists>n < length (deck (sess (\<lparr>progress = emptyProgress 0,
         sess = \<lparr>sess_mode = Review, deck = [1], index = 0, flipped = True, quizChoice = None,
                 quizReveal = False, seconds = 0, quiz_memo = None, key_deps = (True, True, 1),
                 key_pr = fresh_item 0\<rparr>,
         rng = sconst 0, today = 0, now = 0\<rparr>))).
      deck (sess (((\<lambda>w. render (grade 3 w)) ^^ n) (\<lparr>progress = emptyProgress 0,
         sess = \<lparr>sess_mode = Review, deck = [1], index = 0, flipped = True, quizChoice = None,
                 quizReveal = False, seconds = 0, quiz_memo = None, key_deps = (True, True, 1),
                 key_pr = fresh_item 0\<rparr>,
         rng = sconst 0, today = 0, now = 0\<rparr>))) = deck (sess (\<lparr>progress = emptyProgress 0,
         sess = \<lparr>sess_mode = Review, deck = [1], index = 0, flipped = True, quizChoice = None,
                 quizReveal = False, seconds = 0, quiz_memo = None, key_deps = (True, True, 1),
                 key_pr = fresh_item 0\<rparr>,
         rng = sconst 0, today = 0, now = 0\<rparr>)) \<and>
      index (sess (((\<lambda>w. render (grade 3 w)) ^^ n) (\<lparr>progress = emptyProgress 0,
         sess = \<lparr>sess_mode = Review, deck = [1], index = 0, flipped = True, quizChoice = None,
                 quizReveal = False, seconds = 0, quiz_memo = None, key_deps = (True, True, 1),
                 key_pr = fresh_item 0\<rparr>,
         rng = sconst 0, today = 0, now = 0\<rparr>))) = 0)"
proof -
  have h1: "index (sess (\<lparr>progress = emptyProgress 0,
         sess = \<lparr>sess_mode = Review, deck = [1], index = 0, flipped = True, quizChoice = None,
                 quizReveal = False, seconds = 0, quiz_memo = None, key_deps = (True, True, 1),
                 key_pr = fresh_item 0\<rparr>,
         rng = sconst 0, today = 0, now = 0\<rparr>)) < length (deck (sess (\<lparr>progress = emptyProgress 0,
         sess = \<lparr>sess_mode = Review, deck = [1], index = 0, flipped = True, quizChoice = None,
                 quizReveal = False, seconds = 0, quiz_memo = None, key_deps = (True, True, 1),
                 key_pr = fresh_item 0\<rparr>,
         rng = sconst 0, today = 0, now = 0\<rparr>)))" by simp
  have h2: "(0::nat) < length (deck (sess (\<lparr>progress = emptyProgress 0,
         sess = \<lparr>sess_mode = Review, deck = [1], index = 0, flipped = True, quizChoice = None,
                 quizReveal = False, seconds = 0, quiz_memo = None, key_deps = (True, True, 1),
                 key_pr = fresh_item 0\<rparr>,
         rng = sconst 0, today = 0, now = 0\<rparr>)))" by simp
  show ?thesis using h1 h2 grading_visits_every_card [OF h1 h2, of 3] by blast
qed

text \<open>
  C25: quiz grading is binary: proceeding after the answer grades the card Good (3) when
  the chosen option is the card's meaning and Again (1) otherwise.
\<close>

theorem nextQuiz_binary:
  "reachable w \<Longrightarrow> sess_mode (sess w) = Quiz \<Longrightarrow>
     nextQuiz w = Inr (grade (if quizChoice (sess w) = Some (meaning (card (sess w))) then 3 else 1) w)"
proof -
  assume r: "reachable w" and m: "sess_mode (sess w) = Quiz"
  from r have "sess_inv w" by (rule reachable_sess_inv)
  with m obtain q where "quiz_of (sess w) = Some q" "fst q = meaning (card (sess w))"
    by (auto simp: sess_inv_def memo_ok_def quiz_of_def quiz_ok_def)
  then show ?thesis by (simp add: nextQuiz_def)
qed

theorem nextQuiz_binary_witness:
  "reachable (mount Quiz (emptyProgress 0) (sconst 0) 0 0) \<and>
   sess_mode (sess (mount Quiz (emptyProgress 0) (sconst 0) 0 0)) = Quiz \<and>
   nextQuiz (mount Quiz (emptyProgress 0) (sconst 0) 0 0) =
     Inr (grade (if quizChoice (sess (mount Quiz (emptyProgress 0) (sconst 0) 0 0)) =
                    Some (meaning (card (sess (mount Quiz (emptyProgress 0) (sconst 0) 0 0))))
                 then 3 else 1) (mount Quiz (emptyProgress 0) (sconst 0) 0 0))"
proof -
  have h: "reachable (mount Quiz (emptyProgress 0) (sconst 0) 0 0)"
    by (intro reachable_mount rand_ok_sconst progress_ok_fresh) simp_all
  have m: "sess_mode (sess (mount Quiz (emptyProgress 0) (sconst 0) 0 0)) = Quiz"
    by (rule sess_mode_mount)
  show ?thesis using h m nextQuiz_binary [OF h m] by blast
qed

lemma onKey_nondigit_progress:
  "(\<forall>n. k \<noteq> KeyDigit n) \<Longrightarrow> onKey k w = Stay w' \<Longrightarrow> progress w' = progress w"
  by (cases k) (auto simp: onKey_def Let_def showAnswer_def split: if_splits)

text \<open>
  C26: the progress records change only by grading (a grade button, the quiz's next
  button, a digit key) or by resetting; flipping, revealing, choosing and submitting a
  quiz answer, the timer, the settings switches and the clock leave them as they were.
\<close>

theorem progress_only_by_grading:
  assumes "session_step e w = Stay w'" and "byId (progress w') \<noteq> byId (progress w)"
  shows "(\<exists>g. e = ClickGrade g) \<or> e = ClickNext \<or> (\<exists>n. e = KeyDown (KeyDigit n)) \<or> e = ClickReset"
proof (cases e)
  case (KeyDown k)
  show ?thesis
  proof (cases k)
    case (KeyDigit n)
    with KeyDown show ?thesis by simp
  qed (use assms KeyDown render_frame onKey_nondigit_progress in \<open>fastforce split: outcome.splits\<close>)+
next
  case (Switch k v)
  with assms show ?thesis by (auto simp: progress_set_progress)
qed (use assms render_frame in \<open>auto simp: handleFlip_def showAnswer_def chooseOption_def
       submitQuiz_def tick_def\<close>)

theorem progress_only_by_grading_witness:
  "session_step (ClickGrade 3) (\<lparr>progress = emptyProgress 0,
         sess = \<lparr>sess_mode = Review, deck = [1], index = 0, flipped = True, quizChoice = None,
                 quizReveal = False, seconds = 0, quiz_memo = None, key_deps = (True, True, 1),
                 key_pr = fresh_item 0\<rparr>,
         rng = sconst 0, today = 0, now = 0\<rparr>) = Stay (render (grade 3 (\<lparr>progress = emptyProgress 0,
         sess = \<lparr>sess_mode = Review, deck = [1], index = 0, flipped = True, quizChoice = None,
                 quizReveal = False, seconds = 0, quiz_memo = None, key_deps = (True, True, 1),
                 key_pr = fresh_item 0\<rparr>,
         rng = sconst 0, today = 0, now = 0\<rparr>))) \<and>
   byId (progress (render (grade 3 (\<lparr>progress = emptyProgress 0,
         sess = \<lparr>sess_mode = Review, deck = [1], index = 0, flipped = True, quizChoice = None,
                 quizReveal = False, seconds = 0, quiz_memo = None, key_deps = (True, True, 1),
                 key_pr = fresh_item 0\<rparr>,
         rng = sconst 0, today = 0, now = 0\<rparr>)))) \<noteq> byId (progress (\<lparr>progress = emptyProgress 0,
         sess = \<lparr>sess_mode = Review, deck = [1], index = 0, flipped = True, quizChoice = None,
                 quizReveal = False, seconds = 0, quiz_memo = None, key_deps = (True, True, 1),
                 key_pr = fresh_item 0\<rparr>,
         rng = sconst 0, today = 0, now = 0\<rparr>)) \<and>
   ((\<exists>g. ClickGrade 3 = ClickGrade g) \<or> ClickGrade 3 = ClickNext \<or>
    (\<exists>n. ClickGrade 3 = KeyDown (KeyDigit n)) \<or> ClickGrade 3 = ClickReset)"
proof -
  have h1: "session_step (ClickGrade 3) (\<lparr>progress = emptyProgress 0,
         sess = \<lparr>sess_mode = Review, deck = [1], index = 0, flipped = True, quizChoice = None,
                 quizReveal = False, seconds = 0, quiz_memo = None, key_deps = (True, True, 1),
                 key_pr = fresh_item 0\<rparr>,
         rng = sconst 0, today = 0, now = 0\<rparr>) = Stay (render (grade 3 (\<lparr>progress = emptyProgress 0,
         sess = \<lparr>sess_mode = Review, deck = [1], index = 0, flipped = True, quizChoice = None,
                 quizReveal = False, seconds = 0, quiz_memo = None, key_deps = (True, True, 1),
                 key_pr = fresh_item 0\<rparr>,
         rng = sconst 0, today = 0, now = 0\<rparr>)))" by simp
  have "byId (progress (render (grade 3 (\<lparr>progress = emptyProgress 0,
         sess = \<lparr>sess_mode = Review, deck = [1], index = 0, flipped = True, quizChoice = None,
                 quizReveal = False, seconds = 0, quiz_memo = None, key_deps = (True, True, 1),
                 key_pr = fresh_item 0\<rparr>,
         rng = sconst 0, today = 0, now = 0\<rparr>)))) 1 \<noteq> byId (progress (\<lparr>progress = emptyProgress 0,
         sess = \<lparr>sess_mode = Review, deck = [1], index = 0, flipped = True, quizChoice = None,
                 quizReveal = False, seconds = 0, quiz_memo = None, key_deps = (True, True, 1),
                 key_pr = fresh_item 0\<rparr>,
         rng = sconst 0, today = 0, now = 0\<rparr>)) 1"
    using render_frame [of "grade 3 (\<lparr>progress = emptyProgress 0,
         sess = \<lparr>sess_mode = Review, deck = [1], index = 0, flipped = True, quizChoice = None,
                 quizReveal = False, seconds = 0, quiz_memo = None, key_deps = (True, True, 1),
                 key_pr = fresh_item 0\<rparr>,
         rng = sconst 0, today = 0, now = 0\<rparr>)"]
    by (simp add: grade_def grade_with_def byId_patchId byId_emptyProgress pr_def card_def
        current_id_def radical_id_card_of grade_patch_def fresh_item_def num_or_def applyGrade_def)
  then have h2: "byId (progress (render (grade 3 (\<lparr>progress = emptyProgress 0,
         sess = \<lparr>sess_mode = Review, deck = [1], index = 0, flipped = True, quizChoice = None,
                 quizReveal = False, seconds = 0, quiz_memo = None, key_deps = (True, True, 1),
                 key_pr = fresh_item 0\<rparr>,
         rng = sconst 0, today = 0, now = 0\<rparr>)))) \<noteq> byId (progress (\<lparr>progress = emptyProgress 0,
         sess = \<lparr>sess_mode = Review, deck = [1], index = 0, flipped = True, quizChoice = None,
                 quizReveal = False, seconds = 0, quiz_memo = None, key_deps = (True, True, 1),
                 key_pr = fresh_item 0\<rparr>,
         rng = sconst 0, today = 0, now = 0\<rparr>))" by metis
  show ?thesis using h1 h2 progress_only_by_grading [OF h1 h2] by blast
qed

text \<open>
  A digit key grades nothing while the card is hidden, in quiz mode, or with the
  keyboard shortcuts switched off.
\<close>

theorem keyboard_digit_gated:
  "\<not> keyboardShortcuts (settings (progress w)) \<or> sess_mode (sess w) = Quiz \<or> \<not> flipped (sess w) \<Longrightarrow>
     onKey (KeyDigit n) w = Stay w"
  by (auto simp: onKey_def Let_def)

theorem keyboard_digit_gated_witness:
  "onKey (KeyDigit 3) (\<lparr>progress = emptyProgress 0,
         sess = \<lparr>sess_mode = Review, deck = [1], index = 0, flipped = False, quizChoice = None,
                 quizReveal = False, seconds = 0, quiz_memo = None, key_deps = (True, True, 1),
                 key_pr = fresh_item 0\<rparr>,
         rng = sconst 0, today = 0, now = 0\<rparr>) =
   Stay (\<lparr>progress = emptyProgress 0,
         sess = \<lparr>sess_mode = Review, deck = [1], index = 0, flipped = False, quizChoice = None,
                 quizReveal = False, seconds = 0, quiz_memo = None, key_deps = (True, True, 1),
                 key_pr = fresh_item 0\<rparr>,
         rng = sconst 0, today = 0, now = 0\<rparr>)"
proof -
  have h: "\<not> keyboardShortcuts (settings (progress (\<lparr>progress = emptyProgress 0,
         sess = \<lparr>sess_mode = Review, deck = [1], index = 0, flipped = False, quizChoice = None,
                 quizReveal = False, seconds = 0, quiz_memo = None, key_deps = (True, True, 1),
                 key_pr = fresh_item 0\<rparr>,
         rng = sconst 0, today = 0, now = 0\<rparr>))) \<or> sess_mode (sess (\<lparr>progress = emptyProgress 0,
         sess = \<lparr>sess_mode = Review, deck = [1], index = 0, flipped = False, quizChoice = None,
                 quizReveal = False, seconds = 0, quiz_memo = None, key_deps = (True, True, 1),
                 key_pr = fresh_item 0\<rparr>,
         rng = sconst 0, today = 0, now = 0\<rparr>)) = Quiz \<or>
           \<not> flipped (sess (\<lparr>progress = emptyProgress 0,
         sess = \<lparr>sess_mode = Review, deck = [1], index = 0, flipped = False, quizChoice = None,
                 quizReveal = False, seconds = 0, quiz_memo = None, key_deps = (True, True, 1),
                 key_pr = fresh_item 0\<rparr>,
         rng = sconst 0, today = 0, now = 0\<rparr>))" by simp
  show ?thesis using keyboard_digit_gated [OF h, of 3] .
qed

subsection \<open>Traces and evaluation\<close>

lemma run_ok_reachable:
  "reachable w \<Longrightarrow> run_ok es w \<Longrightarrow> run es w = Stay w' \<Longrightarrow> reachable w'"
proof (induction es arbitrary: w)
  case Nil
  then show ?case by simp
next
  case (Cons e es)
  then obtain w1 where s: "session_step e w = Stay w1" and en: "enabled e w"
    by (auto split: outcome.splits)
  from Cons.prems(1) en s have "reachable w1" by (rule reachable.step)
  with Cons s show ?case by simp
qed

lemma idsAll_ne [simp]: "idsAll \<noteq> []"
  by (simp add: idsAll_eq)

lemma idsAll_0: "idsAll ! 0 = 1"
  by (simp add: idsAll_eq)

lemma card_of_Suc0: "radical_id (card_of (Some (Suc 0))) = Suc 0"
  by (simp add: radical_id_card_of)

text \<open>A learn session without shuffling starts on item 1 with the listener holding its record.\<close>

lemma mount_learn:
  "\<not> shuffleLearn (settings p) \<Longrightarrow> mount Learn p rs t tn =
     \<lparr>progress = p,
      sess = \<lparr>sess_mode = Learn, deck = idsAll, index = 0, flipped = False, quizChoice = None,
              quizReveal = False, seconds = 0, quiz_memo = None,
              key_deps = (keyboardShortcuts (settings p), False, 1),
              key_pr = (case byId p 1 of Some r \<Rightarrow> r | None \<Rightarrow> default_pr t)\<rparr>,
      rng = rs, today = t, now = tn\<rparr>"
  by (simp add: mount_def buildDeck_def render_def refresh_other register_now_def reset_deck_def
      key_deps_of_def pr_def card_def current_id_def idsAll_0 card_of_Suc0 Let_def
      split: option.split)

text \<open>A review session whose deck starts with item \<open>i\<close> starts on it, with nothing drawn.\<close>

lemma mount_review:
  assumes "fst (buildDeck Review p (shuffleLearn (settings p)) t rs) = i # D" and "i \<in> {1..60}"
  shows "mount Review p rs t tn =
     \<lparr>progress = p,
      sess = \<lparr>sess_mode = Review, deck = i # D, index = 0, flipped = False, quizChoice = None,
              quizReveal = False, seconds = 0, quiz_memo = None,
              key_deps = (keyboardShortcuts (settings p), False, i),
              key_pr = (case byId p i of Some r \<Rightarrow> r | None \<Rightarrow> default_pr t)\<rparr>,
      rng = rs, today = t, now = tn\<rparr>"
proof -
  have "buildDeck Review p (shuffleLearn (settings p)) t rs = (i # D, rs)"
    using assms(1) by (simp add: buildDeck_def Let_def prod_eq_iff)
  with assms(2) show ?thesis
    by (simp add: mount_def render_def refresh_other register_now_def reset_deck_def
      key_deps_of_def pr_def card_def current_id_def radical_id_card_of Let_def split: option.split)
qed

lemmas eval_simps = render_def refresh_other register_now_def key_deps_of_def pr_def card_def
  current_id_def idsAll_0 card_of_Suc0 radical_id_card_of Let_def showAnswer_def set_progress_def
  resetAll_def onKey_def grade_def grade_with_def grade_patch_def advance_def byId_patchId
  byId_emptyProgress applyGrade_def intervalByBox_def addDays_def num_or_def default_settings_def

end
