(* ===== verification/Theme.thy ===== *)
theory Theme
  imports Deck
begin

text \<open>
  The colour theme of each mode (\<open>MODE_META\<close> in \<open>src/app/page.tsx\<close>): a label and
  the Tailwind classes of its chip, solid button, soft background, ring, icon and dot.
  The root looks it up as \<open>MODE_META[mode] || MODE_META.learn\<close>; \<open>mode\<close> only ever
  holds one of the three keys, so the fallback is never taken and the lookup is
  \<open>MODE_META\<close> itself. The select page shows one button per mode, the chosen one
  with the soft background of its theme.
\<close>

record mode_meta =
  meta_label :: string
  meta_chip :: string
  meta_solid :: string
  meta_soft :: string
  meta_ring :: string
  meta_icon :: string
  meta_dot :: string

definition MODE_META :: "mode \<Rightarrow> mode_meta" where
  "MODE_META m =
     (case m of
        Learn \<Rightarrow>
         \<lparr>meta_label = (''H'' @ [CHR 0xE1, CHR 0xBB, CHR 0x8D] @ ''c''),
          meta_chip = ''border-sky-200 bg-sky-50 text-sky-700'',
          meta_solid = ''bg-sky-600 text-white hover:bg-sky-700'',
          meta_soft = ''bg-sky-50/70'',
          meta_ring = ''ring-sky-200'',
          meta_icon = ''text-sky-700'',
          meta_dot = ''bg-sky-500''\<rparr>
      | Review \<Rightarrow>
         \<lparr>meta_label = ([CHR 0xC3, CHR 0x94] @ ''n''),
          meta_chip = ''border-amber-200 bg-amber-50 text-amber-800'',
          meta_solid = ''bg-amber-600 text-white hover:bg-amber-700'',
          meta_soft = ''bg-amber-50/70'',
          meta_ring = ''ring-amber-200'',
          meta_icon = ''text-amber-700'',
          meta_dot = ''bg-amber-500''\<rparr>
      | Quiz \<Rightarrow>
         \<lparr>meta_label = (''Ki'' @ [CHR 0xE1, CHR 0xBB, CHR 0x83] @ ''m tra''),
          meta_chip = ''border-violet-200 bg-violet-50 text-violet-700'',
          meta_solid = ''bg-violet-600 text-white hover:bg-violet-700'',
          meta_soft = ''bg-violet-50/70'',
          meta_ring = ''ring-violet-200'',
          meta_icon = ''text-violet-700'',
          meta_dot = ''bg-violet-500''\<rparr>)"

text \<open>A mode button of the select page: its mode, whether it is the chosen one, its classes,
  the theme's label and its description.\<close>

record mode_button =
  btn_mode :: mode
  btn_selected :: bool
  btn_class :: string
  btn_label :: string
  btn_desc :: string

definition mode_descs :: "(mode \<times> string) list" where
  "mode_descs =
     [(Learn, (''Flashcard l'' @ [CHR 0xE1, CHR 0xBA, CHR 0xAD] @ ''t & ch'' @ [CHR 0xE1, CHR 0xBA, CHR 0xA5] @ ''m'')),
      (Review, ([CHR 0xC6, CHR 0xAF] @ ''u ti'' @ [CHR 0xC3, CHR 0xAA] @ ''n th'' @ [CHR 0xE1, CHR 0xBA, CHR 0xBB] @ '' '' @ [CHR 0xC4, CHR 0x91] @ [CHR 0xE1, CHR 0xBA, CHR 0xBF] @ ''n h'' @ [CHR 0xE1, CHR 0xBA, CHR 0xA1] @ ''n'')),
      (Quiz, (''B'' @ [CHR 0xE1, CHR 0xBB, CHR 0x99] @ '' th'' @ [CHR 0xE1, CHR 0xBB, CHR 0xA7] @ '' '' @ [CHR 0xE2, CHR 0x86, CHR 0x92] @ '' '' @ [CHR 0xC3, CHR 0xBD] @ '' ngh'' @ [CHR 0xC4, CHR 0xA9] @ ''a''))]"

definition select_buttons :: "mode \<Rightarrow> mode_button list" where
  "select_buttons cur =
     map (\<lambda>(m, d). \<lparr>btn_mode = m, btn_selected = (cur = m),
                    btn_class = ''rounded-2xl border p-4 text-left transition '' @
                      (if cur = m then ''border-slate-300 '' @ meta_soft (MODE_META m)
                       else ''border-slate-200 bg-white hover:bg-slate-50''),
                    btn_label = meta_label (MODE_META m), btn_desc = d\<rparr>)
       mode_descs"

subsection \<open>Lemmas\<close>

lemma MODE_META_labels_distinct: "distinct (map (meta_label \<circ> MODE_META) [Learn, Review, Quiz])"
  by (simp add: MODE_META_def)

lemma select_buttons_modes: "map btn_mode (select_buttons cur) = [Learn, Review, Quiz]"
  by (simp add: select_buttons_def mode_descs_def)

lemma select_buttons_one_selected:
  "filter btn_selected (select_buttons cur) =
     [\<lparr>btn_mode = cur, btn_selected = True,
       btn_class = ''rounded-2xl border p-4 text-left transition border-slate-300 '' @
                   meta_soft (MODE_META cur),
       btn_label = meta_label (MODE_META cur), btn_desc = the (map_of mode_descs cur)\<rparr>]"
  by (cases cur) (simp_all add: select_buttons_def mode_descs_def)

end
