(* ===== verification/Normalize.thy ===== *)
theory Normalize
  imports Prelude "HOL-Library.Sublist"
begin

text \<open>
  \<open>normalize\<close> of \<open>src/app/page.tsx\<close>, the folding the search and \<open>formatPinyin\<close>
  apply: \<open>(s || "").toLowerCase().normalize("NFD").replace(/[\\u0300-\\u036f]/g, "").trim()\<close>.
  Strings are UTF-8 byte lists, as in \<open>Catalog\<close>. Lower-casing and NFD decomposition are
  the Unicode tables of the JavaScript engine; they are the parameters \<open>low\<close> and
  \<open>nfd\<close>. The removal of the combining marks U+0300..U+036F (\<open>strip_marks\<close>, on the
  two-byte sequences \<open>CC 80..CC BF\<close> and \<open>CD 80..CD AF\<close>) and \<open>String.prototype.trim\<close>
  (\<open>js_trim\<close>, over the table \<open>js_ws\<close> of the characters ECMAScript counts as white
  space or line terminators) are modelled byte for byte. \<open>(s || "")\<close> is the identity
  on the strings the code passes. The lemmas show that \<open>strip_marks\<close> is the regular
  expression's replacement read on code points (\<open>utf8\<close> is the encoding, an abstraction
  function, not code), and that \<open>js_trim\<close> removes exactly the white space at both ends.
\<close>

text \<open>The code points \<open>String.prototype.trim\<close> removes, as UTF-8 byte sequences.\<close>

definition js_ws :: "string list" where
  "js_ws = [[CHR 0x09], [CHR 0x0A], [CHR 0x0B], [CHR 0x0C], [CHR 0x0D], [CHR 0x20],
     [CHR 0xC2, CHR 0xA0], [CHR 0xE1, CHR 0x9A, CHR 0x80],
     [CHR 0xE2, CHR 0x80, CHR 0x80], [CHR 0xE2, CHR 0x80, CHR 0x81], [CHR 0xE2, CHR 0x80, CHR 0x82],
     [CHR 0xE2, CHR 0x80, CHR 0x83], [CHR 0xE2, CHR 0x80, CHR 0x84], [CHR 0xE2, CHR 0x80, CHR 0x85],
     [CHR 0xE2, CHR 0x80, CHR 0x86], [CHR 0xE2, CHR 0x80, CHR 0x87], [CHR 0xE2, CHR 0x80, CHR 0x88],
     [CHR 0xE2, CHR 0x80, CHR 0x89], [CHR 0xE2, CHR 0x80, CHR 0x8A],
     [CHR 0xE2, CHR 0x80, CHR 0xA8], [CHR 0xE2, CHR 0x80, CHR 0xA9], [CHR 0xE2, CHR 0x80, CHR 0xAF],
     [CHR 0xE2, CHR 0x81, CHR 0x9F], [CHR 0xE3, CHR 0x80, CHR 0x80], [CHR 0xEF, CHR 0xBB, CHR 0xBF]]"

text \<open>
  \<open>trim\<close> removes the leading, then the trailing, white space. On well-formed UTF-8 a
  table entry that is a prefix or a suffix of the text is a whole character there, as
  every entry begins with a lead byte.
\<close>

function trimStart :: "string \<Rightarrow> string" where
  "trimStart s = (case find (\<lambda>w. prefix w s) js_ws of
                    None \<Rightarrow> s
                  | Some w \<Rightarrow> trimStart (drop (length w) s))"
  by pat_completeness auto

termination trimStart
proof (relation "measure length")
  fix s w assume f: "find (\<lambda>w. prefix w s) js_ws = Some w"
  have "w \<in> set js_ws" "prefix w s" using f by (auto simp: find_Some_iff)
  moreover from this(1) have "w \<noteq> []" by (auto simp: js_ws_def)
  ultimately show "(drop (length w) s, s) \<in> measure length"
    by (auto dest: prefix_length_le simp: prefix_def)
qed simp

declare trimStart.simps [simp del]

function trimEnd :: "string \<Rightarrow> string" where
  "trimEnd s = (case find (\<lambda>w. suffix w s) js_ws of
                  None \<Rightarrow> s
                | Some w \<Rightarrow> trimEnd (take (length s - length w) s))"
  by pat_completeness auto
termination trimEnd
proof (relation "measure length")
  fix s w assume f: "find (\<lambda>w. suffix w s) js_ws = Some w"
  have "w \<in> set js_ws" "suffix w s" using f by (auto simp: find_Some_iff)
  moreover from this(1) have "w \<noteq> []" by (auto simp: js_ws_def)
  ultimately have "0 < length w" "length w \<le> length s" by (simp_all add: suffix_length_le)
  then show "(take (length s - length w) s, s) \<in> measure length" by (simp del: length_greater_0_conv)
qed simp

declare trimEnd.simps [simp del]

definition js_trim :: "string \<Rightarrow> string" where
  "js_trim s = trimEnd (trimStart s)"

text \<open>\<open>/[\\u0300-\\u036f]/g\<close> matches the two bytes \<open>a b\<close>.\<close>

definition is_mark :: "char \<Rightarrow> char \<Rightarrow> bool" where
  "is_mark a b \<longleftrightarrow>
     (a = CHR 0xCC \<and> 0x80 \<le> (of_char b :: nat) \<and> of_char b \<le> (0xBF :: nat)) \<or>
     (a = CHR 0xCD \<and> 0x80 \<le> (of_char b :: nat) \<and> of_char b \<le> (0xAF :: nat))"

fun strip_marks :: "string \<Rightarrow> string" where
  "strip_marks (a # b # s) = (if is_mark a b then strip_marks s else a # strip_marks (b # s))"
| "strip_marks s = s"

definition normalize :: "(string \<Rightarrow> string) \<Rightarrow> (string \<Rightarrow> string) \<Rightarrow> string \<Rightarrow> string" where
  "normalize low nfd s = js_trim (strip_marks (nfd (low s)))"

text \<open>A run of white space: a concatenation of entries of \<open>js_ws\<close>.\<close>

inductive ws_run :: "string \<Rightarrow> bool" where
  ws_nil: "ws_run []"
| ws_cons: "w \<in> set js_ws \<Longrightarrow> ws_run r \<Longrightarrow> ws_run (w @ r)"

text \<open>The UTF-8 encoding of a code point, and the code points the regular expression matches.\<close>

definition utf8 :: "nat \<Rightarrow> string" where
  "utf8 c =
     (if c < 0x80 then [char_of c]
      else if c < 0x800 then [char_of (0xC0 + c div 64), char_of (0x80 + c mod 64)]
      else if c < 0x10000 then
        [char_of (0xE0 + c div 4096), char_of (0x80 + c div 64 mod 64), char_of (0x80 + c mod 64)]
      else [char_of (0xF0 + c div 262144), char_of (0x80 + c div 4096 mod 64),
            char_of (0x80 + c div 64 mod 64), char_of (0x80 + c mod 64)])"

definition mark_cp :: "nat \<Rightarrow> bool" where
  "mark_cp c \<longleftrightarrow> 0x300 \<le> c \<and> c \<le> 0x36F"

subsection \<open>Lemmas\<close>

lemma char_of_eq_iff: "char_of (n :: nat) = c \<longleftrightarrow> n mod 256 = of_char c"
proof
  assume "char_of n = c"
  then show "n mod 256 = of_char c" by (auto simp: of_char_of)
next
  assume "n mod 256 = of_char c"
  then have "of_char (char_of n :: char) = (of_char c :: nat)" by (simp add: of_char_of)
  then show "char_of n = c" by (rule of_char_eqI)
qed

lemma strip_marks_plain_Cons:
  "a \<noteq> CHR 0xCC \<Longrightarrow> a \<noteq> CHR 0xCD \<Longrightarrow> strip_marks (a # s) = a # strip_marks s"
  by (cases s) (simp_all add: is_mark_def)

lemma strip_marks_plain:
  "CHR 0xCC \<notin> set x \<Longrightarrow> CHR 0xCD \<notin> set x \<Longrightarrow> strip_marks (x @ s) = x @ strip_marks s"
  by (induction x) (auto simp: strip_marks_plain_Cons)

lemma utf8_two_mark:
  assumes "0x80 \<le> c" "c < 0x800"
  shows "is_mark (char_of (0xC0 + c div 64)) (char_of (0x80 + c mod 64)) \<longleftrightarrow> mark_cp c"
proof -
  obtain q r where c: "c = 64 * q + r" and r: "r < 64"
    using div_mult_mod_eq [of c 64] mod_less_divisor [of 64 c] by (metis mult.commute zero_less_numeral)
  then have qr: "c div 64 = q" "c mod 64 = r" by simp_all
  have q: "q < 32" using assms c by simp
  have m: "(0x80 + r) mod 256 = 0x80 + r" using r by simp
  have d: "(0xC0 + q) mod 256 = 0xC0 + q" using q by simp
  have key: "(q = 12 \<or> q = 13 \<and> r \<le> 47) \<longleftrightarrow> 768 \<le> 64 * q + r \<and> 64 * q + r \<le> 879"
  proof (cases "q \<le> 11")
    case False
    then show ?thesis using r by (cases "14 \<le> q") auto
  qed (use r in simp)
  show ?thesis
    unfolding is_mark_def mark_cp_def char_of_eq_iff of_char_of qr m d
    using key r by (auto simp: c)
qed

lemma CHR_eq_char_of: "c = char_of (n :: nat) \<longleftrightarrow> n mod 256 = of_char c"
  using char_of_eq_iff by metis

lemma utf8_plain:
  assumes "c < 0x110000" "\<not> (0x80 \<le> c \<and> c < 0x800)"
  shows "CHR 0xCC \<notin> set (utf8 c) \<and> CHR 0xCD \<notin> set (utf8 c)"
proof -
  have "c div 4096 < 16" if "c < 0x10000" using that by simp
  moreover have "c div 262144 < 5" using assms(1) by simp
  ultimately show ?thesis using assms
    by (auto simp: utf8_def CHR_eq_char_of)
qed

lemma mark_cp_utf8_plain: "\<not> (0x80 \<le> c \<and> c < 0x800) \<Longrightarrow> \<not> mark_cp c"
  by (auto simp: mark_cp_def)

lemma strip_marks_utf8:
  assumes "c < 0x110000"
  shows "strip_marks (utf8 c @ s) = (if mark_cp c then strip_marks s else utf8 c @ strip_marks s)"
proof (cases "0x80 \<le> c \<and> c < 0x800")
  case True
  then have u: "utf8 c = [char_of (0xC0 + c div 64), char_of (0x80 + c mod 64)]"
    by (simp add: utf8_def)
  have "char_of (0x80 + c mod 64) \<noteq> CHR 0xCC \<and> char_of (0x80 + c mod 64) \<noteq> CHR 0xCD"
    using mod_less_divisor [of 64 c] by (auto simp: char_of_eq_iff)
  with True show ?thesis by (simp add: u utf8_two_mark strip_marks_plain_Cons)
next
  case False
  with assms show ?thesis
    using strip_marks_plain [of "utf8 c" s] utf8_plain mark_cp_utf8_plain by simp
qed

lemma ws_run_append: "ws_run a \<Longrightarrow> ws_run b \<Longrightarrow> ws_run (a @ b)"
  by (induction a rule: ws_run.induct) (auto intro: ws_run.intros)

lemma ws_run_single: "w \<in> set js_ws \<Longrightarrow> ws_run w"
  using ws_cons [of w "[]"] ws_nil by simp

lemma find_in: "find P xs = Some w \<Longrightarrow> w \<in> set xs \<and> P w"
  by (auto simp: find_Some_iff)

lemma trimStart_None: "find (\<lambda>w. prefix w s) js_ws = None \<Longrightarrow> trimStart s = s"
  by (subst trimStart.simps) simp

lemma trimStart_Some:
  assumes f: "find (\<lambda>w. prefix w s) js_ws = Some w"
  shows "w \<in> set js_ws \<and> prefix w s \<and> trimStart s = trimStart (drop (length w) s)"
proof -
  have "trimStart s = (case find (\<lambda>w. prefix w s) js_ws of
                          None \<Rightarrow> s | Some w \<Rightarrow> trimStart (drop (length w) s))"
    by (rule trimStart.simps)
  with f find_in [OF f] show ?thesis by simp
qed

lemma trimEnd_None: "find (\<lambda>w. suffix w s) js_ws = None \<Longrightarrow> trimEnd s = s"
  by (subst trimEnd.simps) simp

lemma trimEnd_Some:
  assumes f: "find (\<lambda>w. suffix w s) js_ws = Some w"
  shows "w \<in> set js_ws \<and> suffix w s \<and> trimEnd s = trimEnd (take (length s - length w) s)"
proof -
  have "trimEnd s = (case find (\<lambda>w. suffix w s) js_ws of
                        None \<Rightarrow> s | Some w \<Rightarrow> trimEnd (take (length s - length w) s))"
    by (rule trimEnd.simps)
  with f find_in [OF f] show ?thesis by simp
qed

lemma trimStart_split: "\<exists>a. ws_run a \<and> s = a @ trimStart s"
proof (induction s rule: trimStart.induct)
  case (1 s)
  show ?case
  proof (cases "find (\<lambda>w. prefix w s) js_ws")
    case None
    then show ?thesis by (simp add: trimStart_None ws_nil)
  next
    case (Some w)
    note w = trimStart_Some [OF Some]
    obtain a where "ws_run a" "drop (length w) s = a @ trimStart (drop (length w) s)"
      using "1.IH" [OF Some] by blast
    moreover have "s = w @ drop (length w) s" using w by (auto simp: prefix_def)
    ultimately have "ws_run (w @ a) \<and> s = (w @ a) @ trimStart s"
      using w by (simp add: ws_run.ws_cons)
    then show ?thesis by blast
  qed
qed

lemma trimStart_no_ws: "w \<in> set js_ws \<Longrightarrow> \<not> prefix w (trimStart s)"
proof (induction s rule: trimStart.induct)
  case (1 s)
  show ?case
  proof (cases "find (\<lambda>w. prefix w s) js_ws")
    case None
    with "1.prems" show ?thesis by (simp add: trimStart_None [OF None]) (simp add: find_None_iff)
  next
    case (Some w')
    with "1.IH" [OF Some "1.prems"] show ?thesis by (simp add: trimStart_Some)
  qed
qed

lemma trimEnd_split: "\<exists>b. ws_run b \<and> s = trimEnd s @ b"
proof (induction s rule: trimEnd.induct)
  case (1 s)
  show ?case
  proof (cases "find (\<lambda>w. suffix w s) js_ws")
    case None
    then show ?thesis by (simp add: trimEnd_None ws_nil)
  next
    case (Some w)
    note w = trimEnd_Some [OF Some]
    obtain b where "ws_run b"
      "take (length s - length w) s = trimEnd (take (length s - length w) s) @ b"
      using "1.IH" [OF Some] by blast
    moreover have "s = take (length s - length w) s @ w" using w by (simp add: suffix_take)
    ultimately have "ws_run (b @ w) \<and> s = trimEnd s @ (b @ w)"
      using w by (metis append.assoc ws_run_append ws_run_single)
    then show ?thesis by blast
  qed
qed

lemma trimEnd_no_ws: "w \<in> set js_ws \<Longrightarrow> \<not> suffix w (trimEnd s)"
proof (induction s rule: trimEnd.induct)
  case (1 s)
  show ?case
  proof (cases "find (\<lambda>w. suffix w s) js_ws")
    case None
    with "1.prems" show ?thesis by (simp add: trimEnd_None [OF None]) (simp add: find_None_iff)
  next
    case (Some w')
    with "1.IH" [OF Some "1.prems"] show ?thesis by (simp add: trimEnd_Some)
  qed
qed

lemma js_ws_prefix_free_table:
  "\<forall>w \<in> set js_ws. \<forall>w' \<in> set js_ws. prefix w w' \<longrightarrow> w = w'"
  by (simp add: js_ws_def)

lemma js_ws_prefix_free:
  assumes "w \<in> set js_ws" "w' \<in> set js_ws" "prefix w (w' @ r)"
  shows "w = w'"
proof -
  from assms(3) have "prefix w w' \<or> prefix w' w" by (auto simp: prefix_append)
  with assms(1,2) js_ws_prefix_free_table show ?thesis by blast
qed

lemma trimStart_ws_run: "ws_run q \<Longrightarrow> trimStart (q @ s) = trimStart s"
proof (induction q rule: ws_run.induct)
  case (ws_cons w r)
  obtain w' where f: "find (\<lambda>x. prefix x (w @ r @ s)) js_ws = Some w'"
    using ws_cons.hyps(1) by (cases "find (\<lambda>x. prefix x (w @ r @ s)) js_ws") (auto simp: find_None_iff)
  note w' = trimStart_Some [OF f]
  then have "w' = w" using js_ws_prefix_free ws_cons.hyps(1) by blast
  with w' ws_cons.IH show ?case by simp
qed simp

lemma js_trim_empty: "js_trim [] = []"
  by (simp add: js_trim_def trimStart_None trimEnd_None find_None_iff js_ws_def)

lemma ws_run_set: "ws_run q \<Longrightarrow> set q \<subseteq> \<Union> (set ` set js_ws)"
  by (induction q rule: ws_run.induct) auto

lemma strip_marks_ws_run: "ws_run q \<Longrightarrow> strip_marks q = q"
proof -
  assume "ws_run q"
  moreover have "CHR 0xCC \<notin> \<Union> (set ` set js_ws) \<and> CHR 0xCD \<notin> \<Union> (set ` set js_ws)"
    by (simp add: js_ws_def)
  ultimately show ?thesis using ws_run_set strip_marks_plain [of q "[]"] by auto
qed

lemma normalize_blank: "ws_run (nfd (low q)) \<Longrightarrow> normalize low nfd q = []"
  using trimStart_ws_run [of _ "[]"] js_trim_empty by (simp add: normalize_def strip_marks_ws_run js_trim_def)

text \<open>\<open>trim\<close> removes exactly the white space at both ends: the text is a run of
  white space, the result, and a run of white space, and the result neither begins nor
  ends with a white-space character.\<close>

lemma js_trim_spec:
  "(\<exists>a b. ws_run a \<and> ws_run b \<and> s = a @ js_trim s @ b) \<and>
   (\<forall>w \<in> set js_ws. \<not> prefix w (js_trim s) \<and> \<not> suffix w (js_trim s))"
proof
  obtain a where a: "ws_run a" "s = a @ trimStart s" using trimStart_split by blast
  obtain b where b: "ws_run b" "trimStart s = trimEnd (trimStart s) @ b" using trimEnd_split by blast
  from a b show "\<exists>a b. ws_run a \<and> ws_run b \<and> s = a @ js_trim s @ b"
    unfolding js_trim_def by (metis append.assoc)
  show "\<forall>w \<in> set js_ws. \<not> prefix w (js_trim s) \<and> \<not> suffix w (js_trim s)"
  proof (intro ballI conjI)
    fix w assume w: "w \<in> set js_ws"
    show "\<not> prefix w (js_trim s)"
      using trimStart_no_ws [OF w, of s] b(2) unfolding js_trim_def by (metis prefix_prefix)
    show "\<not> suffix w (js_trim s)" using trimEnd_no_ws [OF w] by (simp add: js_trim_def)
  qed
qed

subsection \<open>Properties\<close>

text \<open>C35: Removing the combining marks byte by byte refines the regular expression on
  code points: on the UTF-8 encoding of any sequence of code points, \<open>strip_marks\<close>
  yields the encoding of the sequence without the code points U+0300..U+036F.\<close>

theorem strip_marks_refines:
  "\<forall>c \<in> set cs. c < 0x110000 \<Longrightarrow>
   strip_marks (concat (map utf8 cs)) = concat (map utf8 (filter (\<lambda>c. \<not> mark_cp c) cs))"
  by (induction cs) (simp_all add: strip_marks_utf8)

theorem strip_marks_refines_witness:
  "strip_marks (concat (map utf8 [0x73, 0x68, 0x75, 0x69, 0x30C])) = ''shui''"
  using strip_marks_refines [of "[0x73, 0x68, 0x75, 0x69, 0x30C]"] by (simp add: mark_cp_def utf8_def is_mark_def char_of_eq_iff of_char_of)

text \<open>C36: \<open>normalize\<close> ends with \<open>trim\<close>: its result is the lower-cased, decomposed
  text without its combining marks, less a run of white space at each end, and it neither
  begins nor ends with a white-space character.\<close>

theorem normalize_trim:
  "(\<exists>a b. ws_run a \<and> ws_run b \<and> strip_marks (nfd (low s)) = a @ normalize low nfd s @ b) \<and>
   (\<forall>w \<in> set js_ws. \<not> prefix w (normalize low nfd s) \<and> \<not> suffix w (normalize low nfd s))"
  unfolding normalize_def by (rule js_trim_spec)

theorem normalize_trim_witness:
  "normalize id id '' a b '' = ''a b'' \<and> \<not> suffix '' '' (normalize id id '' a b '')"
proof -
  have e: "normalize id id '' a b '' = ''a b''" by code_simp
  have "[CHR 0x20] \<in> set js_ws" by (simp add: js_ws_def)
  with normalize_trim [of id id "'' a b ''"] e show ?thesis by auto
qed

end
