(* ===== verification/Search.thy ===== *)
theory Search
  imports Progress Normalize
begin

text \<open>
  The search of \<open>ManageList\<close> (\<open>src/app/page.tsx\<close>): the query \<open>q\<close> is normalised, and
  a radical is listed when the query is empty after normalising, or when its normalised
  haystack (the Vietnamese name, the radical, the pinyin, the meaning and the examples,
  joined by spaces) contains the query.  \<open>normalize\<close> lowercases, decomposes to Unicode NFD
  and strips the combining marks; the catalog's strings are UTF-8 byte lists here and the
  Unicode tables are not modelled, so the search takes the normalising function as a
  parameter \<open>nrm\<close> and every lemma holds for any such function; the page passes
  \<open>normalize low nfd\<close> of \<open>Normalize\<close>. Each listed radical is shown as a row with its
  box and learned badge read from the store.
\<close>

text \<open>\<open>Array.prototype.join(sep)\<close> on strings.\<close>

fun join :: "string \<Rightarrow> string list \<Rightarrow> string" where
  "join sep [] = []"
| "join sep [x] = x"
| "join sep (x # y # xs) = x @ sep @ join sep (y # xs)"

text \<open>\<open>String.prototype.includes\<close>: some suffix of the haystack starts with the needle.\<close>

fun str_includes :: "string \<Rightarrow> string \<Rightarrow> bool" where
  "str_includes [] q \<longleftrightarrow> q = []"
| "str_includes (c # h) q \<longleftrightarrow> prefix q (c # h) \<or> str_includes h q"

definition hay :: "radical \<Rightarrow> string" where
  "hay r = join '' '' [vn r, radical r, pinyin r, meaning r, join '' '' (examples r)]"

definition search_list :: "(string \<Rightarrow> string) \<Rightarrow> string \<Rightarrow> radical list" where
  "search_list nrm q =
     (let qq = nrm q in filter (\<lambda>r. if qq = [] then True else str_includes (nrm (hay r)) qq) RADICALS)"

text \<open>
  A row of the list: the id, the name, the radical, the pinyin and meaning, the first
  five examples, and from the store \<open>progress.byId[r.id] || { box: 1, learned: false }\<close>
  the box shown as \<open>pr.box || 1\<close> and the learned badge.
\<close>

record list_row =
  row_id :: item_id
  row_vn :: string
  row_radical :: string
  row_pinyin :: string
  row_meaning :: string
  row_examples :: "string list"
  row_box :: int
  row_learned :: bool

definition row_of :: "progress_state \<Rightarrow> radical \<Rightarrow> list_row" where
  "row_of p r =
     (let (b, l) = (case byId p (radical_id r) of Some x \<Rightarrow> (box x, learned x) | None \<Rightarrow> (1, False))
      in \<lparr>row_id = radical_id r, row_vn = vn r, row_radical = radical r, row_pinyin = pinyin r,
          row_meaning = meaning r, row_examples = take 5 (examples r), row_box = num_or b 1,
          row_learned = l\<rparr>)"

definition manage_list :: "(string \<Rightarrow> string) \<Rightarrow> string \<Rightarrow> progress_state \<Rightarrow> list_row list" where
  "manage_list nrm q p = map (row_of p) (search_list nrm q)"

subsection \<open>Lemmas\<close>

lemma includes_sublist: "str_includes h q \<longleftrightarrow> sublist q h"
  by (induction h) (simp_all add: sublist_Cons_right)

lemma filter_subseq_mono:
  "(\<And>x. P x \<Longrightarrow> Q x) \<Longrightarrow> subseq (filter P xs) (filter Q xs)"
proof -
  assume "\<And>x. P x \<Longrightarrow> Q x"
  then have "filter P xs = filter P (filter Q xs)" by (simp add: filter_filter) metis
  then show ?thesis by (metis subseq_filter_left)
qed

lemma row_of_patchId:
  "row_box (row_of (patchId i x p) r) =
     (if radical_id r = i then num_or (box x) 1 else row_box (row_of p r)) \<and>
   row_learned (row_of (patchId i x p) r) =
     (if radical_id r = i then learned x else row_learned (row_of p r))"
  by (simp add: row_of_def byId_patchId split: option.split)

lemma row_of_fresh:
  "r \<in> set RADICALS \<Longrightarrow> row_box (row_of (emptyProgress t) r) = 1 \<and> \<not> row_learned (row_of (emptyProgress t) r)"
proof -
  assume "r \<in> set RADICALS"
  then have "radical_id r \<in> set idsAll" by (simp add: idsAll_def)
  then show ?thesis by (simp add: row_of_def byId_emptyProgress fresh_item_def num_or_def set_idsAll)
qed

lemma manage_list_count: "length (manage_list nrm q p) \<le> 60"
proof -
  have "length (search_list nrm q) \<le> length RADICALS"
    using length_filter_le [of _ RADICALS] by (simp add: search_list_def Let_def)
  then show ?thesis by (simp add: manage_list_def)
qed

lemma join_Cons: "join sep (x # xs) = x @ concat (map (\<lambda>y. sep @ y) xs)"
  by (induction xs arbitrary: x) simp_all

lemma hay_join:
  "hay r = vn r @ '' '' @ radical r @ '' '' @ pinyin r @ '' '' @ meaning r @ '' '' @
           (case examples r of [] \<Rightarrow> [] | e # es \<Rightarrow> e @ concat (map (\<lambda>x. '' '' @ x) es))"
proof -
  have sp: "(\<lambda>x. '' '' @ x) = (\<lambda>x. CHR '' '' # x)" by (simp add: fun_eq_iff)
  show ?thesis by (simp add: hay_def join_Cons sp split: list.split)
qed

subsection \<open>Properties\<close>

text \<open>C34: The list shows exactly the radicals, in catalog order, for which the
  normalised query is empty or a contiguous substring of the normalised text made of the
  Vietnamese name, the radical, the pinyin, the meaning and the examples, each separated
  by one space.\<close>

theorem search_list_spec:
  "search_list nrm q =
     filter (\<lambda>r. nrm q = [] \<or>
                 sublist (nrm q) (nrm (vn r @ '' '' @ radical r @ '' '' @ pinyin r @ '' '' @ meaning r @
                                       '' '' @ (case examples r of [] \<Rightarrow> []
                                                | e # es \<Rightarrow> e @ concat (map (\<lambda>x. '' '' @ x) es)))))
       RADICALS"
  unfolding search_list_def Let_def includes_sublist hay_join by (rule filter_cong) simp_all

text \<open>Typing more narrows the list: when the old normalised query is a substring of the
  new one, the new list is a subsequence of the old.\<close>

theorem search_narrowing:
  "sublist (nrm q) (nrm q') \<Longrightarrow> subseq (search_list nrm q') (search_list nrm q)"
proof -
  assume s: "sublist (nrm q) (nrm q')"
  have h: "\<And>r. (if nrm q' = [] then True else sublist (nrm q') (nrm (hay r))) \<Longrightarrow>
            (if nrm q = [] then True else sublist (nrm q) (nrm (hay r)))"
    using s by (auto intro: sublist_order.order_trans split: if_splits)
  show ?thesis
    unfolding search_list_def Let_def includes_sublist by (rule filter_subseq_mono) (rule h)
qed

theorem search_narrowing_witness:
  "subseq (search_list id ''shu'') (search_list id ''sh'')"
  using search_narrowing [of id "''sh''" "''shu''"] by simp

text \<open>An empty query, or one that normalises to the empty string, lists all 60
  radicals.\<close>

theorem search_empty_query:
  "nrm q = [] \<Longrightarrow> search_list nrm q = RADICALS \<and> length (search_list nrm q) = 60"
  by (simp add: search_list_def)

theorem search_empty_query_witness:
  "search_list id [] = RADICALS \<and> length (search_list id []) = 60"
  using search_empty_query [of id "[]"] by simp

text \<open>With the program's \<open>normalize\<close>, a query of white space only (after lower-casing
  and decomposition) lists all 60 radicals: \<open>trim\<close> empties it.\<close>

theorem search_blank_query:
  "ws_run (nfd (low q)) \<Longrightarrow> search_list (normalize low nfd) q = RADICALS"
  by (simp add: search_list_def normalize_blank)

theorem search_blank_query_witness: "search_list (normalize id id) ''  '' = RADICALS"
proof -
  have "ws_run ([CHR 0x20] @ [CHR 0x20])"
    by (intro ws_run_append ws_run_single) (simp_all add: js_ws_def)
  then show ?thesis using search_blank_query [of id id "''  ''"] by simp
qed

end
