(* ===== verification/Site.thy ===== *)
theory Site
  imports Session Theme Search
begin

text \<open>
  The root component \<open>Radicals60StudySite\<close> of \<open>src/app/page.tsx\<close>: the page
  (\<open>home\<close>, \<open>select\<close>, \<open>session\<close>, \<open>list\<close>) and the mode chosen for the next
  session, the progress state of \<open>useProgress\<close> it shares with the session, and the
  two memoised counts of the home page (\<open>useMemo\<close> on \<open>[progress.byId]\<close>, each
  stored with the dependency value it was computed for). While the page is
  \<open>session\<close>, a mounted \<open>StudySession\<close> is the \<open>world\<close> of the \<open>Session\<close>
  theory; its progress and random source are the site's, and each of its events is a
  \<open>session_step\<close>. The settings dialog in the header acts on the session when one
  is mounted (the session then re-renders with the new progress), and on the site's
  state otherwise. The clock only moves forward.
\<close>

datatype page = Home | Select | SessionPage | ListPage

record site =
  page :: page
  site_mode :: mode
  sprog :: progress_state
  srng :: rand
  stoday :: day
  snow :: instant
  session :: "world option"
  due_memo :: "(item_id \<rightharpoonup> progress_item) \<times> nat"
  learned_memo :: "(item_id \<rightharpoonup> progress_item) \<times> nat"
  query :: string

text \<open>\<open>RADICALS.filter((r) => new Date(progress.byId[r.id]?.due || 0) <= t).length\<close>.\<close>

definition dueCount :: "progress_state \<Rightarrow> day \<Rightarrow> nat" where
  "dueCount p t = length (filter (\<lambda>r. dueDay p (radical_id r) \<le> t) RADICALS)"

text \<open>\<open>RADICALS.filter((r) => progress.byId[r.id]?.learned).length\<close>.\<close>

definition learnedCount :: "(item_id \<rightharpoonup> progress_item) \<Rightarrow> nat" where
  "learnedCount b =
     length (filter (\<lambda>r. case b (radical_id r) of None \<Rightarrow> False | Some x \<Rightarrow> learned x) RADICALS)"

text \<open>
  A render of the root: each memo recomputes when \<open>progress.byId\<close> differs from the
  value it was computed for, with the day \<open>todayStart()\<close> returns at that render.
\<close>

definition site_render :: "site \<Rightarrow> site" where
  "site_render s =
     (let b = byId (sprog s);
          s1 = (if fst (due_memo s) = b then s else s\<lparr>due_memo := (b, dueCount (sprog s) (stoday s))\<rparr>)
      in if fst (learned_memo s1) = b then s1 else s1\<lparr>learned_memo := (b, learnedCount b)\<rparr>)"

definition site_init :: "progress_state \<Rightarrow> rand \<Rightarrow> day \<Rightarrow> instant \<Rightarrow> site" where
  "site_init p rs t tn =
     \<lparr>page = Home, site_mode = Learn, sprog = p, srng = rs, stoday = t, snow = tn, session = None,
      due_memo = (byId p, dueCount p t), learned_memo = (byId p, learnedCount (byId p)), query = []\<rparr>"

text \<open>
  The progress card of the home page: \<open>{learnedCount} / 60\<close>, \<open>{dueCount}\<close>, and
  the suggestion \<open>dueCount ? "review first" : "learn or quiz"\<close>, all read from the
  memos. The select page shows the mode buttons of \<open>Theme\<close> for the chosen mode.
\<close>

datatype suggestion = SuggestReview | SuggestLearnOrQuiz

definition home_view :: "site \<Rightarrow> nat \<times> nat \<times> suggestion" where
  "home_view s =
     (snd (learned_memo s), snd (due_memo s),
      if snd (due_memo s) \<noteq> 0 then SuggestReview else SuggestLearnOrQuiz)"

definition select_view :: "site \<Rightarrow> mode_button list" where
  "select_view s = select_buttons (site_mode s)"

text \<open>
  The list page: \<open>ManageList\<close> keeps the query in its own state, which starts empty
  each time the page mounts and changes with every keystroke in the input (the root does
  not re-render); the rows are those of \<open>Search\<close> for the query and the site's store.
\<close>

definition list_view :: "(string \<Rightarrow> string) \<Rightarrow> site \<Rightarrow> list_row list" where
  "list_view nrm s = manage_list nrm (query s) (sprog s)"

text \<open>
  The controls of the root: the three mode cards of the home page (\<open>setMode\<close>, then
  \<open>setPage("select")\<close>), its study and list buttons, the mode buttons and the start,
  back and list buttons of the select page, the back button of the list, every event
  inside the mounted \<open>StudySession\<close> (its exit calls \<open>onExit\<close>, which sets the
  page to \<open>select\<close> and unmounts it), the settings dialog, and the clock.
\<close>

datatype site_event =
    ChooseMode mode | GoSelect | GoList | PickMode mode | StartSession | GoHome
  | InSession sevent | HeaderSwitch setting_key bool | HeaderReset | SiteClock day instant
  | TypeQuery string

definition in_session :: "sevent \<Rightarrow> site \<Rightarrow> js_error + site" where
  "in_session e s =
     (case session s of
        None \<Rightarrow> Inr s
      | Some w \<Rightarrow>
          (case session_step e w of
             Stay w' \<Rightarrow> Inr (site_render (s\<lparr>session := Some w', sprog := progress w', srng := rng w'\<rparr>))
           | Leave w' \<Rightarrow>
               Inr (site_render (s\<lparr>page := Select, session := None, sprog := progress w', srng := rng w'\<rparr>))
           | Fail err \<Rightarrow> Inl err))"

definition start_session :: "site \<Rightarrow> site" where
  "start_session s =
     (let w = mount (site_mode s) (sprog s) (srng s) (stoday s) (snow s)
      in site_render (s\<lparr>page := SessionPage, session := Some w, srng := rng w\<rparr>))"

fun site_step :: "site_event \<Rightarrow> site \<Rightarrow> js_error + site" where
  "site_step (ChooseMode m) s = Inr (site_render (s\<lparr>site_mode := m, page := Select\<rparr>))"
| "site_step GoSelect s = Inr (site_render (s\<lparr>page := Select\<rparr>))"
| "site_step GoList s = Inr (site_render (s\<lparr>page := ListPage, query := []\<rparr>))"
| "site_step (PickMode m) s = Inr (site_render (s\<lparr>site_mode := m\<rparr>))"
| "site_step StartSession s = Inr (start_session s)"
| "site_step GoHome s = Inr (site_render (s\<lparr>page := Home\<rparr>))"
| "site_step (InSession e) s = in_session e s"
| "site_step (HeaderSwitch k v) s =
     (if session s = None
      then Inr (site_render (s\<lparr>sprog := patchSettings (switch_patch k v) (sprog s)\<rparr>))
      else in_session (Switch k v) s)"
| "site_step HeaderReset s =
     (if session s = None then Inr (site_render (s\<lparr>sprog := resetAll (stoday s) (sprog s)\<rparr>))
      else in_session ClickReset s)"
| "site_step (SiteClock t tn) s =
     Inr (s\<lparr>stoday := t, snow := tn, session := map_option (\<lambda>w. w\<lparr>today := t, now := tn\<rparr>) (session s)\<rparr>)"
| "site_step (TypeQuery q) s = Inr (s\<lparr>query := q\<rparr>)"

text \<open>
  The events of the session that belong to the session's own controls: the settings
  dialog and the clock are the root's events.
\<close>

fun local_event :: "sevent \<Rightarrow> bool" where
  "local_event (Switch k v) = False"
| "local_event ClickReset = False"
| "local_event (Clock t tn) = False"
| "local_event e = True"

fun site_enabled :: "site_event \<Rightarrow> site \<Rightarrow> bool" where
  "site_enabled (ChooseMode m) s = (page s = Home)"
| "site_enabled GoSelect s = (page s = Home)"
| "site_enabled GoList s = (page s = Home \<or> page s = Select)"
| "site_enabled (PickMode m) s = (page s = Select)"
| "site_enabled StartSession s = (page s = Select)"
| "site_enabled GoHome s = (page s = Select \<or> page s = ListPage)"
| "site_enabled (InSession e) s =
     (local_event e \<and> session s \<noteq> None \<and> pred_option (enabled e) (session s))"
| "site_enabled (HeaderSwitch k v) s = True"
| "site_enabled HeaderReset s = True"
| "site_enabled (SiteClock t tn) s = (stoday s \<le> t \<and> snow s \<le> tn)"
| "site_enabled (TypeQuery q) s = (page s = ListPage)"

inductive site_reachable :: "site \<Rightarrow> bool" where
  start: "rand_ok rs \<Longrightarrow> progress_ok p \<Longrightarrow> site_reachable (site_init p rs t tn)"
| step: "site_reachable s \<Longrightarrow> site_enabled e s \<Longrightarrow> site_step e s = Inr s' \<Longrightarrow> site_reachable s'"

fun site_run :: "site_event list \<Rightarrow> site \<Rightarrow> js_error + site" where
  "site_run [] s = Inr s"
| "site_run (e # es) s = (case site_step e s of Inl err \<Rightarrow> Inl err | Inr s' \<Rightarrow> site_run es s')"

text \<open>A trace a user can produce: each event's control is on screen when it is dispatched.\<close>

fun site_run_ok :: "site_event list \<Rightarrow> site \<Rightarrow> bool" where
  "site_run_ok [] s = True"
| "site_run_ok (e # es) s =
     (site_enabled e s \<and> (case site_step e s of Inl err \<Rightarrow> False | Inr s' \<Rightarrow> site_run_ok es s'))"

text \<open>
  The invariant of the root: the session is mounted exactly on the session page, it is
  a reachable session of the \<open>Session\<close> theory whose progress, random source, mode and
  clock are the site's, the site's progress is well formed, and the memos were computed
  for the current \<open>byId\<close> (the learned count, which does not depend on the day, is
  then exact).
\<close>

definition site_inv :: "site \<Rightarrow> bool" where
  "site_inv s \<longleftrightarrow>
     progress_ok (sprog s) \<and> rand_ok (srng s) \<and> (session s = None \<longleftrightarrow> page s \<noteq> SessionPage) \<and>
     pred_option (\<lambda>w. reachable w \<and> progress w = sprog s \<and> rng w = srng s \<and>
                      sess_mode (sess w) = site_mode s \<and> today w = stoday s \<and> now w = snow s)
       (session s) \<and>
     fst (due_memo s) = byId (sprog s) \<and> learned_memo s = (byId (sprog s), learnedCount (byId (sprog s)))"

subsection \<open>Lemmas\<close>

lemma site_render_frame [simp]:
  "page (site_render s) = page s" "site_mode (site_render s) = site_mode s"
  "sprog (site_render s) = sprog s" "srng (site_render s) = srng s"
  "stoday (site_render s) = stoday s" "snow (site_render s) = snow s"
  "session (site_render s) = session s" "query (site_render s) = query s"
  by (simp_all add: site_render_def Let_def)

lemma site_render_memos:
  "fst (due_memo (site_render s)) = byId (sprog s)"
  "snd (learned_memo s) = learnedCount (fst (learned_memo s)) \<Longrightarrow>
     learned_memo (site_render s) = (byId (sprog s), learnedCount (byId (sprog s)))"
  by (auto simp: site_render_def Let_def prod_eq_iff)

text \<open>What a render needs to re-establish the invariant: the parts the render does not touch.\<close>

definition site_pre :: "site \<Rightarrow> bool" where
  "site_pre s \<longleftrightarrow>
     progress_ok (sprog s) \<and> rand_ok (srng s) \<and> (session s = None \<longleftrightarrow> page s \<noteq> SessionPage) \<and>
     pred_option (\<lambda>w. reachable w \<and> progress w = sprog s \<and> rng w = srng s \<and>
                      sess_mode (sess w) = site_mode s \<and> today w = stoday s \<and> now w = snow s)
       (session s) \<and>
     snd (learned_memo s) = learnedCount (fst (learned_memo s))"

lemma site_inv_render: "site_pre s \<Longrightarrow> site_inv (site_render s)"
  by (simp add: site_inv_def site_pre_def site_render_memos)

lemma site_pre_inv: "site_inv s \<Longrightarrow> site_pre s"
  by (simp add: site_inv_def site_pre_def)

lemma world_mount [simp]:
  "progress (mount m p rs t tn) = p" "today (mount m p rs t tn) = t" "now (mount m p rs t tn) = tn"
  "sess_mode (sess (mount m p rs t tn)) = m"
  using render_frame sess_mode_mount
  by (simp_all add: mount_def Let_def register_now_def case_prod_beta)

lemma handler_frame [simp]:
  "sess_mode (sess (handleFlip w)) = sess_mode (sess w)" "today (handleFlip w) = today w"
  "now (handleFlip w) = now w"
  "sess_mode (sess (showAnswer w)) = sess_mode (sess w)" "today (showAnswer w) = today w"
  "now (showAnswer w) = now w"
  "sess_mode (sess (chooseOption o' w)) = sess_mode (sess w)" "today (chooseOption o' w) = today w"
  "now (chooseOption o' w) = now w"
  "sess_mode (sess (submitQuiz w)) = sess_mode (sess w)" "today (submitQuiz w) = today w"
  "now (submitQuiz w) = now w"
  "sess_mode (sess (tick w)) = sess_mode (sess w)" "today (tick w) = today w" "now (tick w) = now w"
  "sess_mode (sess (grade_with p g w)) = sess_mode (sess w)" "today (grade_with p g w) = today w"
  "now (grade_with p g w) = now w"
  by (simp_all add: handleFlip_def showAnswer_def chooseOption_def submitQuiz_def tick_def
      grade_with_def advance_def)

lemma session_step_world:
  assumes "session_step e w = Stay w'"
  shows "sess_mode (sess w') = sess_mode (sess w) \<and>
         (case e of Clock t tn \<Rightarrow> today w' = t \<and> now w' = tn
                  | _ \<Rightarrow> today w' = today w \<and> now w' = now w)"
proof (cases e)
  case ClickNext
  with assms show ?thesis
    by (auto simp: nextQuiz_def grade_def render_frame split: option.splits sum.splits)
next
  case (KeyDown k)
  with assms onKey_cases [of k w] show ?thesis by (auto simp: render_frame split: outcome.splits)
next
  case (Switch k v)
  with assms show ?thesis
    using render_frame by (auto simp: set_progress_def Let_def)
next
  case ClickReset
  with assms show ?thesis
    using render_frame by (auto simp: set_progress_def Let_def)
qed (use assms in \<open>auto simp: render_frame grade_def\<close>)

lemma session_step_leave: "session_step e w = Leave w' \<Longrightarrow> w' = w"
  by (cases e) (auto simp: onKey_def Let_def split: sum.splits outcome.splits key.splits if_splits)

lemma site_inv_init: "rand_ok rs \<Longrightarrow> progress_ok p \<Longrightarrow> site_inv (site_init p rs t tn)"
  by (simp add: site_inv_def site_init_def)

lemma site_inv_in_session:
  assumes s: "site_inv s" and w: "session s = Some w" and ew: "enabled e w"
    and nc: "\<And>t tn. e \<noteq> Clock t tn" and st: "in_session e s = Inr s'"
  shows "site_inv s'"
proof -
  from s w have r: "reachable w" by (simp add: site_inv_def)
  show ?thesis
  proof (cases "session_step e w")
    case (Stay w')
    with r ew have r': "reachable w'" by (rule reachable.step)
    from session_step_world [OF Stay] nc
    have f: "sess_mode (sess w') = sess_mode (sess w) \<and> today w' = today w \<and> now w' = now w"
      by (cases e) auto
    from Stay st w have e: "s' = site_render (s\<lparr>session := Some w', sprog := progress w', srng := rng w'\<rparr>)"
      by (simp add: in_session_def)
    from s w r' f reachable_ok [OF r']
    have "site_pre (s\<lparr>session := Some w', sprog := progress w', srng := rng w'\<rparr>)"
      by (auto simp: site_pre_def site_inv_def)
    with e show ?thesis by (simp add: site_inv_render)
  next
    case (Leave w')
    then have "w' = w" by (rule session_step_leave)
    with Leave st w have e: "s' = site_render (s\<lparr>page := Select, session := None, sprog := progress w,
                                            srng := rng w\<rparr>)"
      by (simp add: in_session_def)
    from s w reachable_ok [OF r]
    have "site_pre (s\<lparr>page := Select, session := None, sprog := progress w, srng := rng w\<rparr>)"
      by (auto simp: site_pre_def site_inv_def)
    with e show ?thesis by (simp add: site_inv_render)
  next
    case (Fail err)
    with st w show ?thesis by (simp add: in_session_def)
  qed
qed

lemma site_inv_nav:
  "site_inv s \<Longrightarrow> session s = None \<Longrightarrow> session s' = None \<Longrightarrow> page s' \<noteq> SessionPage \<Longrightarrow>
   sprog s' = sprog s \<Longrightarrow> srng s' = srng s \<Longrightarrow> learned_memo s' = learned_memo s \<Longrightarrow>
     site_inv (site_render s')"
  by (rule site_inv_render) (simp add: site_inv_def site_pre_def)

lemma in_session_None: "session s = None \<Longrightarrow> in_session e s = Inr s"
  by (simp add: in_session_def)

lemma site_inv_no_session: "site_inv s \<Longrightarrow> page s \<noteq> SessionPage \<Longrightarrow> session s = None"
  by (simp add: site_inv_def)

lemma site_inv_start:
  assumes s: "site_inv s" and pg: "page s = Select"
  shows "site_inv (start_session s)"
proof -
  let ?w = "mount (site_mode s) (sprog s) (srng s) (stoday s) (snow s)"
  from s have r: "reachable ?w" by (intro reachable_mount) (simp_all add: site_inv_def)
  from s pg r reachable_ok [OF r]
  have "site_pre (s\<lparr>page := SessionPage, session := Some ?w, srng := rng ?w\<rparr>)"
    by (auto simp: site_inv_def site_pre_def)
  then show ?thesis by (simp add: start_session_def Let_def site_inv_render)
qed

lemma site_inv_store:
  "site_inv s \<Longrightarrow> session s = None \<Longrightarrow> progress_ok p' \<Longrightarrow> site_inv (site_render (s\<lparr>sprog := p'\<rparr>))"
  by (rule site_inv_render) (simp add: site_inv_def site_pre_def)

lemma site_inv_clock:
  assumes s: "site_inv s"
  shows "site_inv (s\<lparr>stoday := t, snow := tn, session := map_option (\<lambda>w. w\<lparr>today := t, now := tn\<rparr>) (session s)\<rparr>)"
proof (cases "session s")
  case None
  with s show ?thesis by (simp add: site_inv_def)
next
  case (Some w)
  with s have "reachable w" by (simp add: site_inv_def)
  then have "reachable (w\<lparr>today := t, now := tn\<rparr>)"
    by (rule reachable.step [where e = "Clock t tn"]) simp_all
  with s Some show ?thesis by (simp add: site_inv_def)
qed

lemma site_step_inv:
  assumes s: "site_inv s" and en: "site_enabled e s" and st: "site_step e s = Inr s'"
  shows "site_inv s'"
proof (cases e)
  case (ChooseMode m)
  with s en st show ?thesis using site_inv_nav [of s "s\<lparr>site_mode := m, page := Select\<rparr>"] site_inv_no_session [of s] by auto
next
  case GoSelect
  with s en st show ?thesis using site_inv_nav [of s "s\<lparr>page := Select\<rparr>"] site_inv_no_session [of s] by auto
next
  case GoList
  with s en st show ?thesis
    using site_inv_nav [of s "s\<lparr>page := ListPage, query := []\<rparr>"] site_inv_no_session [of s] by auto
next
  case (PickMode m)
  with s en st show ?thesis using site_inv_nav [of s "s\<lparr>site_mode := m\<rparr>"] site_inv_no_session [of s] by auto
next
  case StartSession
  with s en st show ?thesis using site_inv_start [of s] by auto
next
  case GoHome
  with s en st show ?thesis using site_inv_nav [of s] site_inv_no_session [of s] by auto
next
  case (InSession e')
  with en obtain w where w: "session s = Some w" and le: "local_event e'" and ew: "enabled e' w"
    by (cases "session s") auto
  from le have "\<And>t tn. e' \<noteq> Clock t tn" by auto
  with s w ew st InSession show ?thesis by (auto intro: site_inv_in_session)
next
  case (HeaderSwitch k v)
  show ?thesis
  proof (cases "session s")
    case None
    from s have "progress_ok (patchSettings (switch_patch k v) (sprog s))"
      by (simp add: site_inv_def progress_ok_patchSettings)
    with s None st HeaderSwitch show ?thesis by (auto intro: site_inv_store)
  next
    case (Some w)
    with st HeaderSwitch have st': "in_session (Switch k v) s = Inr s'" by simp
    show ?thesis by (rule site_inv_in_session [OF s Some _ _ st']) simp_all
  qed
next
  case HeaderReset
  show ?thesis
  proof (cases "session s")
    case None
    with s st HeaderReset show ?thesis by (auto intro: site_inv_store progress_ok_resetAll)
  next
    case (Some w)
    with st HeaderReset have st': "in_session ClickReset s = Inr s'" by simp
    show ?thesis by (rule site_inv_in_session [OF s Some _ _ st']) simp_all
  qed
next
  case (SiteClock t tn)
  with s st show ?thesis using site_inv_clock [OF s] by auto
next
  case (TypeQuery q)
  with s st show ?thesis by (auto simp: site_inv_def)
qed

lemma site_reachable_inv: "site_reachable s \<Longrightarrow> site_inv s"
proof (induction rule: site_reachable.induct)
  case (start rs p t tn)
  then show ?case by (rule site_inv_init)
next
  case (step s e s')
  then show ?case by (blast intro: site_step_inv)
qed

lemma site_step_no_fail:
  assumes r: "site_reachable s" and en: "site_enabled e s"
  shows "site_step e s \<noteq> Inl err"
proof -
  have s: "site_inv s" using r by (rule site_reachable_inv)
  have ses: "in_session e' s \<noteq> Inl err" if w: "session s = Some w" and ew: "enabled e' w" for w e'
  proof -
    from s w have "reachable w" by (simp add: site_inv_def)
    then have "session_step e' w \<noteq> Fail err" using ew by (rule session_step_no_fail)
    with w show ?thesis by (auto simp: in_session_def split: outcome.split)
  qed
  show ?thesis
  proof (cases e)
    case (InSession e')
    with en obtain w where "session s = Some w" "enabled e' w" by (cases "session s") auto
    with InSession ses [of w e'] show ?thesis by simp
  next
    case (HeaderSwitch k v)
    show ?thesis
    proof (cases "session s")
      case (Some w)
      with HeaderSwitch ses [of w "Switch k v"] show ?thesis by simp
    qed (simp add: HeaderSwitch)
  next
    case HeaderReset
    show ?thesis
    proof (cases "session s")
      case (Some w)
      with HeaderReset ses [of w ClickReset] show ?thesis by simp
    qed (simp add: HeaderReset)
  qed simp_all
qed

lemma site_run_ok_reachable:
  "site_reachable s \<Longrightarrow> site_run_ok es s \<Longrightarrow> site_run es s = Inr s' \<Longrightarrow> site_reachable s'"
proof (induction es arbitrary: s)
  case Nil
  then show ?case by simp
next
  case (Cons e es)
  then obtain s1 where st: "site_step e s = Inr s1" and en: "site_enabled e s"
    by (auto split: sum.splits)
  from Cons.prems(1) en st have "site_reachable s1" by (rule site_reachable.step)
  with Cons st show ?case by simp
qed

lemma list_view_opens_full:
  assumes "site_step GoList s = Inr s'" and "nrm [] = []"
  shows "list_view nrm s' = map (row_of (sprog s)) RADICALS"
  using assms by (auto simp: list_view_def manage_list_def search_list_def Let_def)

lemma dueCount_idsAll: "dueCount p t = length (filter (\<lambda>i. dueDay p i \<le> t) idsAll)"
  by (simp add: dueCount_def idsAll_def filter_map comp_def)

lemma learnedCount_idsAll:
  "learnedCount b = length (filter (\<lambda>i. case b i of None \<Rightarrow> False | Some x \<Rightarrow> learned x) idsAll)"
  by (simp add: learnedCount_def idsAll_def filter_map comp_def)

subsection \<open>Properties\<close>

text \<open>
  The memos of the home page. A step either renders a state that still holds the memos
  of the state before (they are then kept or recomputed by \<open>site_render\<close>), or keeps
  the memos and the store as they are and only moves the clock (\<open>SiteClock\<close>) or the
  query.
\<close>

lemma dueCount_byId: "byId p = byId q \<Longrightarrow> dueCount p t = dueCount q t"
  by (simp add: dueCount_def dueDay_def)

lemma site_render_memo_snd:
  "snd (due_memo (site_render s)) =
     (if fst (due_memo s) = byId (sprog s) then snd (due_memo s) else dueCount (sprog s) (stoday s))"
  "fst (learned_memo s) = byId (sprog s) \<Longrightarrow> learned_memo (site_render s) = learned_memo s"
  by (simp_all add: site_render_def Let_def)

lemma site_step_memo_cases:
  assumes "site_step e s = Inr s'"
  shows "(\<exists>x. s' = site_render x \<and> due_memo x = due_memo s \<and> learned_memo x = learned_memo s \<and>
              stoday x = stoday s) \<or>
         (due_memo s' = due_memo s \<and> learned_memo s' = learned_memo s \<and> sprog s' = sprog s \<and>
          (stoday s' = stoday s \<or> (\<exists>t tn. e = SiteClock t tn \<and> stoday s' = t)))"
proof (cases e)
  case (InSession e')
  with assms show ?thesis
    by (auto simp: in_session_def split: option.splits outcome.splits)
next
  case (HeaderSwitch k v)
  with assms show ?thesis
    by (auto simp: in_session_def split: if_splits option.splits outcome.splits)
next
  case HeaderReset
  with assms show ?thesis
    by (auto simp: in_session_def split: if_splits option.splits outcome.splits)
next
  case StartSession
  with assms show ?thesis by (auto simp: start_session_def Let_def)
qed (use assms in auto)

lemma home_view_keeps:
  assumes i: "site_inv s" and st: "site_step e s = Inr s'" and b: "byId (sprog s') = byId (sprog s)"
  shows "home_view s' = home_view s"
proof -
  have m: "fst (due_memo s) = byId (sprog s)" "fst (learned_memo s) = byId (sprog s)"
    using i by (simp_all add: site_inv_def)
  from site_step_memo_cases [OF st] show ?thesis
  proof
    assume "\<exists>x. s' = site_render x \<and> due_memo x = due_memo s \<and> learned_memo x = learned_memo s \<and>
                stoday x = stoday s"
    then obtain x where x: "s' = site_render x" "due_memo x = due_memo s" "learned_memo x = learned_memo s"
      by blast
    have "byId (sprog x) = byId (sprog s)" using b m x(1) by simp
    then show ?thesis using x m by (simp add: home_view_def site_render_memo_snd)
  qed (simp add: home_view_def)
qed

lemma due_memo_day: "site_reachable s \<Longrightarrow> \<exists>d \<le> stoday s. snd (due_memo s) = dueCount (sprog s) d"
proof (induction rule: site_reachable.induct)
  case (start rs p t tn)
  then show ?case by (auto simp: site_init_def)
next
  case (step s e s')
  then obtain d where d: "d \<le> stoday s" "snd (due_memo s) = dueCount (sprog s) d" by blast
  have m: "fst (due_memo s) = byId (sprog s)" using site_reachable_inv [OF step.hyps(1)]
    by (simp add: site_inv_def)
  from site_step_memo_cases [OF step.hyps(3)] show ?case
  proof
    assume "\<exists>x. s' = site_render x \<and> due_memo x = due_memo s \<and> learned_memo x = learned_memo s \<and>
                stoday x = stoday s"
    then obtain x where x: "s' = site_render x" "due_memo x = due_memo s" "stoday x = stoday s"
      by blast
    show ?thesis
    proof (cases "fst (due_memo x) = byId (sprog x)")
      case True
      have "byId (sprog x) = byId (sprog s)" using True x(2) m by simp
      then have "dueCount (sprog x) d = dueCount (sprog s) d" by (rule dueCount_byId)
      then show ?thesis using True x d by (auto simp: site_render_memo_snd)
    next
      case False
      with x show ?thesis by (auto simp: site_render_memo_snd)
    qed
  next
    assume c: "due_memo s' = due_memo s \<and> learned_memo s' = learned_memo s \<and> sprog s' = sprog s \<and>
               (stoday s' = stoday s \<or> (\<exists>t tn. e = SiteClock t tn \<and> stoday s' = t))"
    then have "stoday s \<le> stoday s'" using step.hyps(2) by auto
    with c d have "d \<le> stoday s' \<and> snd (due_memo s') = dueCount (sprog s') d" by simp
    then show ?thesis by blast
  qed
qed

lemma deck_start_review:
  "site_mode s = Review \<Longrightarrow>
   deck (sess (the (session (start_session s)))) =
     (let d = filter (\<lambda>i. dueDay (sprog s) i \<le> stoday s) idsAll in if d \<noteq> [] then d else idsAll)"
  using render_frame
  by (simp add: start_session_def Let_def mount_def reset_deck_def case_prod_beta buildDeck_review
      register_now_def)

text \<open>
  C9: in every state the root reaches from well-formed progress, a session is mounted
  exactly on the session page, and it is a reachable session of the \<open>Session\<close>
  theory (so every property proved there holds of it) sharing the root's progress and
  mode; the root's progress stays well formed, and the learned count on the home page
  is exact.
\<close>

theorem site_invariant:
  "site_reachable s \<Longrightarrow>
     progress_ok (sprog s) \<and> (session s \<noteq> None \<longleftrightarrow> page s = SessionPage) \<and>
     pred_option (\<lambda>w. reachable w \<and> progress w = sprog s \<and> sess_mode (sess w) = site_mode s)
       (session s) \<and>
     snd (learned_memo s) = learnedCount (byId (sprog s))"
  by (drule site_reachable_inv) (auto simp: site_inv_def pred_option_def)

theorem site_invariant_witness:
  "site_reachable (site_init (emptyProgress 0) (sconst 0) 0 0) \<and>
   progress_ok (sprog (site_init (emptyProgress 0) (sconst 0) 0 0)) \<and>
   (session (site_init (emptyProgress 0) (sconst 0) 0 0) \<noteq> None \<longleftrightarrow>
      page (site_init (emptyProgress 0) (sconst 0) 0 0) = SessionPage)"
proof -
  have h: "site_reachable (site_init (emptyProgress 0) (sconst 0) 0 0)"
    by (intro site_reachable.start rand_ok_sconst progress_ok_fresh) simp_all
  show ?thesis using h site_invariant [OF h] by blast
qed

text \<open>
  C10: no control of any page raises in a reachable state of the root, the controls of
  a mounted session included.
\<close>

theorem site_no_crash: "site_reachable s \<Longrightarrow> site_enabled e s \<Longrightarrow> site_step e s \<noteq> Inl err"
  by (rule site_step_no_fail)

theorem site_no_crash_witness:
  "site_reachable (site_init (emptyProgress 0) (sconst 0) 0 0) \<and>
   site_enabled (ChooseMode Quiz) (site_init (emptyProgress 0) (sconst 0) 0 0) \<and>
   site_step (ChooseMode Quiz) (site_init (emptyProgress 0) (sconst 0) 0 0) \<noteq> Inl TypeError"
proof -
  have h: "site_reachable (site_init (emptyProgress 0) (sconst 0) 0 0)"
    by (intro site_reachable.start rand_ok_sconst progress_ok_fresh) simp_all
  have e: "site_enabled (ChooseMode Quiz) (site_init (emptyProgress 0) (sconst 0) 0 0)"
    by (simp add: site_init_def)
  show ?thesis using h e site_no_crash [OF h e, of TypeError] by simp
qed

text \<open>C11: From every reachable state of the page the home page is at most two clicks
  away (the session's back button, then the back button of the select or list page), on
  controls that are on screen, and going there keeps the progress.\<close>

theorem site_home_reachable:
  "site_reachable s \<Longrightarrow>
     \<exists>es s'. length es \<le> 2 \<and> site_run_ok es s \<and> site_run es s = Inr s' \<and>
             page s' = Home \<and> sprog s' = sprog s"
proof -
  assume "site_reachable s"
  then have inv: "site_inv s" by (rule site_reachable_inv)
  have home: "site_run_ok [GoHome] t \<and> site_run [GoHome] t = Inr (site_render (t\<lparr>page := Home\<rparr>))"
    if "page t = Select \<or> page t = ListPage" for t
    using that by auto
  show ?thesis
  proof (cases "page s")
    case Home
    then show ?thesis by (intro exI [of _ "[]"]) simp
  next
    case Select
    with home [of s] show ?thesis by (intro exI [of _ "[GoHome]"]) auto
  next
    case ListPage
    with home [of s] show ?thesis by (intro exI [of _ "[GoHome]"]) auto
  next
    case SessionPage
    with inv obtain w where w: "session s = Some w" "progress w = sprog s"
      by (auto simp: site_inv_def)
    define s1 where "s1 = site_render (s\<lparr>page := Select, session := None, sprog := progress w, srng := rng w\<rparr>)"
    have st: "site_step (InSession ClickBack) s = Inr s1" by (simp add: in_session_def w s1_def)
    have en: "site_enabled (InSession ClickBack) s" by (simp add: w)
    have "page s1 = Select" "sprog s1 = sprog s" by (simp_all add: s1_def w)
    with home [of s1] st en show ?thesis
      by (intro exI [of _ "[InSession ClickBack, GoHome]"]) auto
  qed
qed

theorem site_home_reachable_witness:
  "site_reachable (start_session (site_render ((site_init (emptyProgress 0) (sconst 0) 0 0)\<lparr>page := Select\<rparr>))) \<and>
   (\<exists>es s'. length es \<le> 2 \<and> site_run_ok es (start_session (site_render ((site_init (emptyProgress 0) (sconst 0) 0 0)\<lparr>page := Select\<rparr>))) \<and> site_run es (start_session (site_render ((site_init (emptyProgress 0) (sconst 0) 0 0)\<lparr>page := Select\<rparr>))) = Inr s' \<and>
      page s' = Home \<and> sprog s' = emptyProgress 0)"
proof -
  have h0: "site_reachable (site_init (emptyProgress 0) (sconst 0) 0 0)"
    by (intro site_reachable.start rand_ok_sconst progress_ok_fresh) simp_all
  have h1: "site_reachable (site_render ((site_init (emptyProgress 0) (sconst 0) 0 0)\<lparr>page := Select\<rparr>))"
    by (rule site_reachable.step [OF h0, of GoSelect]) (simp_all add: site_init_def)
  have h: "site_reachable (start_session (site_render ((site_init (emptyProgress 0) (sconst 0) 0 0)\<lparr>page := Select\<rparr>)))"
    by (rule site_reachable.step [OF h1, of StartSession]) (simp_all add: site_init_def)
  have p: "sprog (start_session (site_render ((site_init (emptyProgress 0) (sconst 0) 0 0)\<lparr>page := Select\<rparr>))) = emptyProgress 0" by (simp add: start_session_def Let_def site_init_def)
  from site_home_reachable [OF h] h p show ?thesis by simp
qed

end
