(* ===== verification/Persistence.thy ===== *)
theory Persistence
  imports Session "HOL-Library.Monad_Syntax"
begin

text \<open>
  Persistence of the progress state (\<open>loadProgress\<close>, \<open>saveProgress\<close> and the
  initialiser of \<open>useProgress\<close> in \<open>src/app/page.tsx\<close>), and the dynamic reads the
  page makes on whatever \<open>JSON.parse\<close> returned. The stored blob and the in-memory
  state are JSON values: \<open>json\<close> has the constructors of JSON, and a time stamp written
  by \<open>toISOString()\<close> is the leaf \<open>JTime\<close> holding the model's value for it (a day for
  \<open>due\<close>, an instant for \<open>lastReviewed\<close>), as elsewhere in the development.
  \<open>localStorage\<close> under the key \<open>LS_KEY\<close> holds nothing, the text of a JSON value,
  or text \<open>JSON.parse\<close> rejects. A property read yields \<^const>\<open>None\<close> for
  \<open>undefined\<close>.

  \<open>encode\<close> is what \<open>JSON.stringify\<close> writes for a typed state (the record keys in
  the order \<open>emptyProgress\<close> creates them, the item keys in ascending order, as
  JavaScript orders integer keys); \<open>decode\<close> reads a structurally valid state back
  into the typed model and is the abstraction under which the round trip is stated.
\<close>

datatype json =
    JNull | JBool bool | JNum int | JStr string | JTime int
  | JArr "json list" | JObj "(string \<times> json) list"

subsection \<open>JavaScript on JSON values\<close>

text \<open>
  \<open>x?.k\<close>: the property of an object (a duplicate key read by \<open>JSON.parse\<close> keeps
  its last value), \<open>undefined\<close> for anything else.
\<close>

fun get_opt :: "json option \<Rightarrow> string \<Rightarrow> json option" where
  "get_opt (Some (JObj kvs)) k = map_of (rev kvs) k"
| "get_opt _ k = None"

text \<open>\<open>x.k\<close>: as \<open>x?.k\<close>, but a \<open>TypeError\<close> on \<open>null\<close> and \<open>undefined\<close>.\<close>

fun get :: "json option \<Rightarrow> string \<Rightarrow> js_error + json option" where
  "get None k = Inl TypeError"
| "get (Some JNull) k = Inl TypeError"
| "get x k = Inr (get_opt x k)"

fun truthy :: "json option \<Rightarrow> bool" where
  "truthy None = False"
| "truthy (Some JNull) = False"
| "truthy (Some (JBool b)) = b"
| "truthy (Some (JNum n)) = (n \<noteq> 0)"
| "truthy (Some (JStr s)) = (s \<noteq> [])"
| "truthy (Some _) = True"

subsection \<open>Storage\<close>

datatype blob = Stringified json | Unparsable

type_synonym storage = "blob option"

text \<open>
  \<open>loadProgress\<close>: no item, or text that does not parse (the \<open>catch\<close>), or a value
  without a truthy \<open>byId\<close>, give \<open>null\<close>; otherwise the parsed value as it is.
\<close>

definition loadProgress :: "storage \<Rightarrow> json option" where
  "loadProgress st =
     (case st of
        None \<Rightarrow> None
      | Some Unparsable \<Rightarrow> None
      | Some (Stringified j) \<Rightarrow> if truthy (get_opt (Some j) ''byId'') then Some j else None)"

text \<open>\<open>saveProgress\<close>: \<open>setItem\<close> succeeds (\<open>ok\<close>) or throws, and the throw is ignored.\<close>

definition saveProgress :: "bool \<Rightarrow> json \<Rightarrow> storage \<Rightarrow> storage" where
  "saveProgress ok j st = (if ok then Some (Stringified j) else st)"

subsection \<open>Typed states as JSON\<close>

definition enc_item :: "progress_item \<Rightarrow> json" where
  "enc_item r =
     JObj [(''box'', JNum (box r)), (''learned'', JBool (learned r)),
           (''correct'', JNum (int (correct r))), (''wrong'', JNum (int (wrong r))),
           (''lastReviewed'', case lastReviewed r of None \<Rightarrow> JNull | Some i \<Rightarrow> JTime i),
           (''due'', JTime (due r))]"

definition enc_settings :: "settings \<Rightarrow> json" where
  "enc_settings s =
     JObj [(''showExamples'', JBool (showExamples s)), (''showMnemonic'', JBool (showMnemonic s)),
           (''toneMarks'', JBool (toneMarks s)), (''shuffleLearn'', JBool (shuffleLearn s)),
           (''keyboardShortcuts'', JBool (keyboardShortcuts s))]"

definition encode :: "progress_state \<Rightarrow> json" where
  "encode p =
     JObj [(''byId'', JObj (List.map_filter
                             (\<lambda>i. map_option (\<lambda>r. (nat_str i, enc_item r)) (byId p i)) idsAll)),
           (''settings'', enc_settings (settings p))]"

text \<open>The initialiser \<open>useState(() => loadProgress() || emptyProgress())\<close>.\<close>

definition init_progress :: "storage \<Rightarrow> day \<Rightarrow> json" where
  "init_progress st t = (case loadProgress st of Some j \<Rightarrow> j | None \<Rightarrow> encode (emptyProgress t))"

text \<open>
  What \<open>SettingsDialog\<close> reads when it renders (it is in the page header, so on every
  page): \<open>s = progress.settings\<close>, then \<open>s.showExamples\<close>, ... in the order of the
  switches; the JSX attributes are evaluated when the element is created.
\<close>

fun get_all :: "json option \<Rightarrow> string list \<Rightarrow> js_error + json option list" where
  "get_all x [] = Inr []"
| "get_all x (k # ks) =
     (case get x k of
        Inl e \<Rightarrow> Inl e
      | Inr v \<Rightarrow> (case get_all x ks of Inl e \<Rightarrow> Inl e | Inr vs \<Rightarrow> Inr (v # vs)))"

definition settingsDialog_view :: "json \<Rightarrow> js_error + json option list" where
  "settingsDialog_view pj =
     (case get (Some pj) ''settings'' of
        Inl e \<Rightarrow> Inl e
      | Inr s \<Rightarrow> get_all s [''showExamples'', ''showMnemonic'', ''toneMarks'', ''shuffleLearn'',
                           ''keyboardShortcuts''])"

subsection \<open>Reading a typed state back\<close>

fun as_bool :: "json option \<Rightarrow> bool option" where
  "as_bool (Some (JBool b)) = Some b"
| "as_bool _ = None"

fun as_int :: "json option \<Rightarrow> int option" where
  "as_int (Some (JNum n)) = Some n"
| "as_int _ = None"

fun as_nat :: "json option \<Rightarrow> nat option" where
  "as_nat (Some (JNum n)) = (if 0 \<le> n then Some (nat n) else None)"
| "as_nat _ = None"

fun as_time :: "json option \<Rightarrow> int option" where
  "as_time (Some (JTime t)) = Some t"
| "as_time _ = None"

fun as_stamp :: "json option \<Rightarrow> int option option" where
  "as_stamp (Some JNull) = Some None"
| "as_stamp (Some (JTime t)) = Some (Some t)"
| "as_stamp _ = None"

definition dec_item :: "json \<Rightarrow> progress_item option" where
  "dec_item v =
     do { b \<leftarrow> as_int (get_opt (Some v) ''box'');
          l \<leftarrow> as_bool (get_opt (Some v) ''learned'');
          c \<leftarrow> as_nat (get_opt (Some v) ''correct'');
          w \<leftarrow> as_nat (get_opt (Some v) ''wrong'');
          lr \<leftarrow> as_stamp (get_opt (Some v) ''lastReviewed'');
          d \<leftarrow> as_time (get_opt (Some v) ''due'');
          Some \<lparr>box = b, learned = l, correct = c, wrong = w, lastReviewed = lr, due = d\<rparr> }"

definition dec_settings :: "json \<Rightarrow> settings option" where
  "dec_settings v =
     do { a \<leftarrow> as_bool (get_opt (Some v) ''showExamples'');
          b \<leftarrow> as_bool (get_opt (Some v) ''showMnemonic'');
          c \<leftarrow> as_bool (get_opt (Some v) ''toneMarks'');
          d \<leftarrow> as_bool (get_opt (Some v) ''shuffleLearn'');
          e \<leftarrow> as_bool (get_opt (Some v) ''keyboardShortcuts'');
          Some \<lparr>showExamples = a, showMnemonic = b, toneMarks = c, shuffleLearn = d,
                keyboardShortcuts = e\<rparr> }"

text \<open>An item entry of \<open>byId\<close> as the typed model reads it: a numeral key and a complete record.\<close>

definition entry_ok :: "string \<times> json \<Rightarrow> bool" where
  "entry_ok kv \<longleftrightarrow> nat_str (str_nat (fst kv)) = fst kv \<and> dec_item (snd kv) \<noteq> None"

definition decode :: "json \<Rightarrow> progress_state option" where
  "decode j =
     (case get_opt (Some j) ''byId'' of
        Some (JObj kvs) \<Rightarrow>
          if list_all entry_ok kvs
          then map_option (\<lambda>s. \<lparr>byId = \<lambda>i. map_of (rev kvs) (nat_str i) \<bind> dec_item, settings = s\<rparr>)
                 (get_opt (Some j) ''settings'' \<bind> dec_settings)
          else None
      | _ \<Rightarrow> None)"

subsection \<open>The store operations on JSON values\<close>

text \<open>
  Object spread \<open>{...a, ...b}\<close>: the properties of \<open>a\<close>, then each property of
  \<open>b\<close> in turn, overwriting a key already present in its place and appending a new one.
  Spreading anything but an object (here \<open>undefined\<close>) adds nothing.
\<close>

fun obj_of :: "json option \<Rightarrow> (string \<times> json) list" where
  "obj_of (Some (JObj kvs)) = kvs"
| "obj_of _ = []"

definition set_key :: "string \<Rightarrow> json \<Rightarrow> (string \<times> json) list \<Rightarrow> (string \<times> json) list" where
  "set_key k v acc =
     (if k \<in> set (map fst acc) then map (\<lambda>kv. if fst kv = k then (k, v) else kv) acc
      else acc @ [(k, v)])"

definition spread :: "(string \<times> json) list \<Rightarrow> (string \<times> json) list \<Rightarrow> (string \<times> json) list" where
  "spread xs ys = fold (\<lambda>kv acc. set_key (fst kv) (snd kv) acc) ys xs"

text \<open>
  \<open>patchId(id, patch)\<close> of \<open>useProgress\<close>:
  \<open>{...p, byId: {...p.byId, [id]: {...p.byId[id], ...patch}}}\<close>. \<open>p.byId\<close> is truthy
  in every state the page holds (\<open>loadProgress\<close> checks it), so \<open>p.byId[id]\<close> does
  not throw.
\<close>

definition patchId_json :: "item_id \<Rightarrow> (string \<times> json) list \<Rightarrow> json \<Rightarrow> json" where
  "patchId_json i patch p =
     JObj (spread (obj_of (Some p))
       [(''byId'', JObj (spread (obj_of (get_opt (Some p) ''byId''))
          [(nat_str i, JObj (spread (obj_of (get_opt (get_opt (Some p) ''byId'') (nat_str i))) patch))]))])"

text \<open>\<open>patchSettings(patch)\<close>: \<open>{...p, settings: {...p.settings, ...patch}}\<close>.\<close>

definition patchSettings_json :: "(string \<times> json) list \<Rightarrow> json \<Rightarrow> json" where
  "patchSettings_json patch p =
     JObj (spread (obj_of (Some p))
       [(''settings'', JObj (spread (obj_of (get_opt (Some p) ''settings'')) patch))])"

definition resetAll_json :: "day \<Rightarrow> json \<Rightarrow> json" where
  "resetAll_json t p = encode (emptyProgress t)"

text \<open>The object \<open>grade\<close> passes to \<open>patchId\<close>, with its keys in the order of the literal.\<close>

definition grade_patch_json :: "progress_item \<Rightarrow> (string \<times> json) list" where
  "grade_patch_json r =
     [(''box'', JNum (box r)), (''learned'', JBool (learned r)),
      (''lastReviewed'', case lastReviewed r of None \<Rightarrow> JNull | Some i \<Rightarrow> JTime i),
      (''due'', JTime (due r)), (''correct'', JNum (int (correct r))), (''wrong'', JNum (int (wrong r)))]"

text \<open>The one-field object each switch of \<open>SettingsDialog\<close> passes to \<open>patchSettings\<close>.\<close>

fun switch_patch_json :: "setting_key \<Rightarrow> bool \<Rightarrow> (string \<times> json) list" where
  "switch_patch_json KShowExamples v = [(''showExamples'', JBool v)]"
| "switch_patch_json KShowMnemonic v = [(''showMnemonic'', JBool v)]"
| "switch_patch_json KToneMarks v = [(''toneMarks'', JBool v)]"
| "switch_patch_json KShuffleLearn v = [(''shuffleLearn'', JBool v)]"
| "switch_patch_json KKeyboardShortcuts v = [(''keyboardShortcuts'', JBool v)]"

text \<open>
  The states \<open>encode\<close> describes exactly: every item key is a catalog id. A fresh
  state has this shape and the session keeps it.
\<close>

definition keys_ok :: "progress_state \<Rightarrow> bool" where
  "keys_ok p \<longleftrightarrow> dom (byId p) \<subseteq> set idsAll"

subsection \<open>Lemmas\<close>

lemma dec_item_enc_item [simp]: "dec_item (enc_item r) = Some r"
  by (cases r; cases "lastReviewed r") (simp_all add: dec_item_def enc_item_def)

lemma dec_settings_enc_settings [simp]: "dec_settings (enc_settings s) = Some s"
  by (cases s) (simp add: dec_settings_def enc_settings_def)

lemma map_of_rev_None: "k \<notin> fst ` set xs \<Longrightarrow> map_of (rev xs) k = None"
  by (simp add: map_of_eq_None_iff)

lemma map_of_rev_replace:
  "map_of (rev (map (\<lambda>kv. if fst kv = k then (k, v) else kv) acc)) =
     (if k \<in> fst ` set acc then (map_of (rev acc))(k \<mapsto> v) else map_of (rev acc))"
proof (induction acc)
  case Nil
  then show ?case by simp
next
  case (Cons x xs)
  then show ?case
    by (cases x) (auto simp: map_of_append map_add_def fun_eq_iff map_of_rev_None split: option.split)
qed

lemma map_of_rev_set_key: "map_of (rev (set_key k v acc)) = (map_of (rev acc))(k \<mapsto> v)"
  by (auto simp: set_key_def map_of_rev_replace map_of_append map_add_def fun_eq_iff
      map_of_rev_None split: option.split)

lemma map_of_rev_spread: "map_of (rev (spread xs ys)) = map_of (rev xs) ++ map_of (rev ys)"
proof (induction ys arbitrary: xs)
  case Nil
  then show ?case by (simp add: spread_def)
next
  case (Cons y ys)
  have "spread xs (y # ys) = spread (set_key (fst y) (snd y) xs) ys" by (simp add: spread_def)
  with Cons show ?case
    by (cases y) (auto simp: map_of_rev_set_key map_of_append map_add_def fun_eq_iff
        split: option.split)
qed

lemma get_opt_spread: "get_opt (Some (JObj (spread xs ys))) k = (map_of (rev xs) ++ map_of (rev ys)) k"
  by (simp add: map_of_rev_spread)

lemma set_set_key: "set (set_key k v acc) \<subseteq> set acc \<union> {(k, v)}"
  by (auto simp: set_key_def)

lemma set_spread: "set (spread xs ys) \<subseteq> set xs \<union> set ys"
proof (induction ys arbitrary: xs)
  case Nil
  then show ?case by (simp add: spread_def)
next
  case (Cons y ys)
  have "spread xs (y # ys) = spread (set_key (fst y) (snd y) xs) ys" by (simp add: spread_def)
  with Cons.IH [of "set_key (fst y) (snd y) xs"] set_set_key [of "fst y" "snd y" xs] show ?case
    by (cases y) auto
qed

lemma dec_item_grade_patch: "dec_item (JObj (spread old (grade_patch_json r))) = Some r"
  by (cases r; cases "lastReviewed r")
     (simp_all add: dec_item_def grade_patch_json_def map_of_rev_spread map_add_def)

lemma entry_ok_enc [simp]: "entry_ok (nat_str i, enc_item r)"
  by (simp add: entry_ok_def)

lemma list_all_entries:
  "list_all entry_ok (List.map_filter (\<lambda>i. map_option (\<lambda>r. (nat_str i, enc_item r)) (m i)) xs)"
  by (induction xs) (auto simp: List.map_filter_simps split: option.split)

lemma map_of_rev_entries:
  "distinct xs \<Longrightarrow>
     map_of (rev (List.map_filter (\<lambda>i. map_option (\<lambda>r. (nat_str i, enc_item r)) (m i)) xs)) (nat_str j) =
       (if j \<in> set xs then map_option enc_item (m j) else None)"
proof (induction xs)
  case Nil
  then show ?case by (simp add: List.map_filter_simps)
next
  case (Cons x xs)
  then show ?case
    by (cases "m x") (auto simp: List.map_filter_simps map_of_append map_add_def nat_str_inj
        split: option.split)
qed

lemma decode_encode:
  assumes "keys_ok p"
  shows "decode (encode p) = Some p"
proof -
  have "(\<lambda>i. map_of (rev (List.map_filter (\<lambda>i. map_option (\<lambda>r. (nat_str i, enc_item r)) (byId p i))
                      idsAll)) (nat_str i) \<bind> dec_item) = byId p"
  proof
    fix i
    show "map_of (rev (List.map_filter (\<lambda>i. map_option (\<lambda>r. (nat_str i, enc_item r)) (byId p i))
            idsAll)) (nat_str i) \<bind> dec_item = byId p i"
      using assms by (cases "byId p i") (auto simp: keys_ok_def map_of_rev_entries distinct_idsAll)
  qed
  then show ?thesis
    by (simp add: decode_def encode_def list_all_entries)
qed

lemma decodeE:
  assumes "decode pj = Some p"
  obtains top kvs sj s where "pj = JObj top" "map_of (rev top) ''byId'' = Some (JObj kvs)"
    "list_all entry_ok kvs" "map_of (rev top) ''settings'' = Some sj" "dec_settings sj = Some s"
    "p = \<lparr>byId = \<lambda>i. map_of (rev kvs) (nat_str i) \<bind> dec_item, settings = s\<rparr>"
proof -
  from assms obtain kvs where b: "get_opt (Some pj) ''byId'' = Some (JObj kvs)"
    by (auto simp: decode_def split: option.splits json.splits)
  then obtain top where top: "pj = JObj top" by (cases pj) auto
  from assms b obtain sj s where "get_opt (Some pj) ''settings'' = Some sj" "dec_settings sj = Some s"
    "list_all entry_ok kvs" "p = \<lparr>byId = \<lambda>i. map_of (rev kvs) (nat_str i) \<bind> dec_item, settings = s\<rparr>"
    by (auto simp: decode_def bind_eq_Some_conv split: if_splits)
  with top b show ?thesis by (intro that) simp_all
qed

lemma list_all_spread:
  "list_all P xs \<Longrightarrow> list_all P ys \<Longrightarrow> list_all P (spread xs ys)"
  using set_spread [of xs ys] by (auto simp: list_all_iff)

lemma dec_settings_obj: "dec_settings sj = Some s \<Longrightarrow> \<exists>kvs. sj = JObj kvs"
  by (cases sj) (simp_all add: dec_settings_def)

lemma dec_settings_switch:
  "dec_settings (JObj olds) = Some s \<Longrightarrow>
     dec_settings (JObj (spread olds (switch_patch_json k v))) = Some (merge_settings s (switch_patch k v))"
  by (cases k)
     (auto simp: dec_settings_def map_of_rev_spread map_add_def bind_eq_Some_conv merge_settings_def
        no_patch_def)

lemma truthy_byId_encode: "truthy (get_opt (Some (encode p)) ''byId'')"
  by (simp add: encode_def)

lemma load_save_encode: "loadProgress (saveProgress True (encode p) st) = Some (encode p)"
  by (simp add: loadProgress_def saveProgress_def truthy_byId_encode)

lemma keys_ok_emptyProgress [simp]: "keys_ok (emptyProgress t)"
  by (auto simp: keys_ok_def byId_emptyProgress set_idsAll split: if_splits)

lemma keys_ok_grade_with: "keys_ok (progress w) \<Longrightarrow> keys_ok (progress (grade_with p g w))"
  using card_id_in [of "sess w"]
  by (auto simp: keys_ok_def grade_with_def byId_patchId set_idsAll)

lemma keys_ok_grade: "keys_ok (progress w) \<Longrightarrow> keys_ok (progress (grade g w))"
  by (simp add: grade_def keys_ok_grade_with)

lemma keys_ok_step:
  assumes "session_step e w = Stay w'" and "keys_ok (progress w)"
  shows "keys_ok (progress w')"
proof (cases e)
  case ClickNext
  with assms show ?thesis
    by (auto simp: nextQuiz_def render_frame keys_ok_grade split: option.splits sum.splits)
next
  case (KeyDown k)
  with assms onKey_cases [of k w] show ?thesis
    by (auto simp: render_frame keys_ok_grade_with showAnswer_def split: outcome.splits)
next
  case (Switch k v)
  with assms show ?thesis by (auto simp: progress_set_progress keys_ok_def)
next
  case ClickReset
  with assms show ?thesis by (auto simp: progress_set_progress resetAll_def)
qed (use assms in \<open>auto simp: render_frame keys_ok_grade handleFlip_def showAnswer_def
       chooseOption_def submitQuiz_def tick_def\<close>)

lemma keys_ok_run: "run es w = Stay w' \<Longrightarrow> keys_ok (progress w) \<Longrightarrow> keys_ok (progress w')"
proof (induction es arbitrary: w)
  case Nil
  then show ?case by simp
next
  case (Cons e es)
  then show ?case by (auto intro: keys_ok_step split: outcome.splits)
qed

lemma progress_mount [simp]: "progress (mount m p rs t tn) = p"
  using render_frame by (simp add: mount_def Let_def register_now_def case_prod_beta)

subsection \<open>Properties\<close>

text \<open>
  C18: persisting the state a session reaches from a fresh store and loading it back
  gives the same records and settings, after any sequence of events.
\<close>

theorem session_persist_roundtrip:
  "run es (mount m (emptyProgress t) rs t tn) = Stay w \<Longrightarrow>
     loadProgress (saveProgress True (encode (progress w)) st) \<bind> decode = Some (progress w)"
proof -
  assume "run es (mount m (emptyProgress t) rs t tn) = Stay w"
  then have "keys_ok (progress w)" by (rule keys_ok_run) simp
  then show ?thesis by (simp add: load_save_encode decode_encode)
qed

theorem session_persist_roundtrip_witness:
  "run [] (mount Learn (emptyProgress 0) (sconst 0) 0 0) = Stay (mount Learn (emptyProgress 0) (sconst 0) 0 0) \<and>
   loadProgress (saveProgress True (encode (progress (mount Learn (emptyProgress 0) (sconst 0) 0 0))) None)
     \<bind> decode = Some (progress (mount Learn (emptyProgress 0) (sconst 0) 0 0))"
proof -
  have h: "run [] (mount Learn (emptyProgress 0) (sconst 0) 0 0) = Stay (mount Learn (emptyProgress 0) (sconst 0) 0 0)"
    by simp
  show ?thesis using session_persist_roundtrip [OF h, where st = None] by simp
qed

text \<open>
  C22: spec scenario 4 and the fallbacks of \<open>loadProgress\<close>: with no stored item, with
  text that does not parse, or with a value that has no truthy \<open>byId\<close>, the page
  starts from the fresh state.
\<close>

theorem load_fallback_fresh:
  assumes "st = None \<or> st = Some Unparsable \<or>
           (\<exists>j. st = Some (Stringified j) \<and> \<not> truthy (get_opt (Some j) ''byId''))"
  shows "decode (init_progress st t) = Some (emptyProgress t)"
proof -
  from assms have "loadProgress st = None" by (auto simp: loadProgress_def)
  then show ?thesis by (simp add: init_progress_def decode_encode)
qed

theorem load_fallback_fresh_witness:
  "decode (init_progress (Some Unparsable) 0) = Some (emptyProgress 0)"
  using load_fallback_fresh [of "Some Unparsable" 0] by simp

text \<open>A well-formed state renders the settings dialog with the five stored switch values.\<close>

lemma settingsDialog_view_encode:
  "settingsDialog_view (encode p) =
     Inr (map (Some \<circ> JBool) [showExamples (settings p), showMnemonic (settings p),
                              toneMarks (settings p), shuffleLearn (settings p),
                              keyboardShortcuts (settings p)])"
  by (simp add: settingsDialog_view_def encode_def enc_settings_def)

text \<open>
  C21: a stored value with a truthy \<open>byId\<close> but no \<open>settings\<close>, or a
  \<open>null\<close> one, passes \<open>loadProgress\<close>, and the first render of the page then
  throws: \<open>SettingsDialog\<close> reads \<open>s.showExamples\<close> of \<open>undefined\<close> or
  \<open>null\<close>. The page does not recover until the stored item is removed by hand.
\<close>

theorem load_without_settings_crashes:
  assumes "truthy (get_opt (Some j) ''byId'')"
    and "get_opt (Some j) ''settings'' = None \<or> get_opt (Some j) ''settings'' = Some JNull"
  shows "loadProgress (Some (Stringified j)) = Some j \<and>
         settingsDialog_view (init_progress (Some (Stringified j)) t) = Inl TypeError"
proof -
  have l: "loadProgress (Some (Stringified j)) = Some j" using assms(1) by (simp add: loadProgress_def)
  obtain kvs where j: "j = JObj kvs" using assms(1) by (cases j) simp_all
  have "get (Some j) ''settings'' = Inr None \<or> get (Some j) ''settings'' = Inr (Some JNull)"
    using assms(2) j by auto
  then have "settingsDialog_view j = Inl TypeError" by (auto simp: settingsDialog_view_def)
  with l show ?thesis by (simp add: init_progress_def)
qed

theorem load_without_settings_crashes_witness:
  "loadProgress (Some (Stringified (JObj [(''byId'', JObj [])]))) = Some (JObj [(''byId'', JObj [])]) \<and>
   settingsDialog_view (init_progress (Some (Stringified (JObj [(''byId'', JObj [])]))) 0) = Inl TypeError"
  using load_without_settings_crashes [of "JObj [(''byId'', JObj [])]" 0] by simp

text \<open>
  C23: the typed \<open>patchId\<close> is what the source's spreads do: on any stored value the
  typed model reads, storing the object \<open>grade\<close> builds for a record \<open>r\<close> yields the
  typed state with \<open>r\<close> stored under the id, whatever the old entry held.
\<close>

theorem patchId_json_refines:
  assumes "decode pj = Some p"
  shows "decode (patchId_json i (grade_patch_json r) pj) = Some (patchId i r p)"
proof -
  from assms obtain top kvs sj s where top: "pj = JObj top"
    and b: "map_of (rev top) ''byId'' = Some (JObj kvs)" and ok: "list_all entry_ok kvs"
    and st: "map_of (rev top) ''settings'' = Some sj" "dec_settings sj = Some s"
    and p: "p = \<lparr>byId = \<lambda>i. map_of (rev kvs) (nat_str i) \<bind> dec_item, settings = s\<rparr>"
    by (rule decodeE)
  let ?new = "JObj (spread (obj_of (map_of (rev kvs) (nat_str i))) (grade_patch_json r))"
  let ?kvs = "spread kvs [(nat_str i, ?new)]"
  have j: "patchId_json i (grade_patch_json r) pj = JObj (spread top [(''byId'', JObj ?kvs)])"
    by (simp add: patchId_json_def top b)
  have ok': "list_all entry_ok ?kvs"
    using ok by (intro list_all_spread) (simp_all add: entry_ok_def dec_item_grade_patch)
  have ids: "(\<lambda>j. map_of (rev ?kvs) (nat_str j) \<bind> dec_item) =
             (\<lambda>j. map_of (rev kvs) (nat_str j) \<bind> dec_item)(i \<mapsto> r)"
    by (auto simp: fun_eq_iff map_of_rev_spread map_add_def nat_str_inj dec_item_grade_patch)
  have l1: "map_of (rev (spread top [(''byId'', JObj ?kvs)])) ''byId'' = Some (JObj ?kvs)"
    by (simp add: map_of_rev_spread map_add_def)
  have l2: "map_of (rev (spread top [(''byId'', JObj ?kvs)])) ''settings'' = Some sj"
    using st by (simp add: map_of_rev_spread map_add_def)
  show ?thesis
    using ok' st by (simp only: j decode_def get_opt.simps l1 l2 json.case if_True)
      (simp add: patchId_def p ids)
qed

theorem patchId_json_refines_witness:
  "decode (encode (emptyProgress 0)) = Some (emptyProgress 0) \<and>
   decode (patchId_json 1 (grade_patch_json (fresh_item 3)) (encode (emptyProgress 0))) =
     Some (patchId 1 (fresh_item 3) (emptyProgress 0))"
proof -
  have h: "decode (encode (emptyProgress 0)) = Some (emptyProgress 0)" by (simp add: decode_encode)
  show ?thesis using h patchId_json_refines [OF h] by simp
qed

text \<open>
  C24: the typed \<open>patchSettings\<close> is what the source's spreads do: on any stored value
  the typed model reads, a switch of the settings dialog changes that one setting and
  leaves every record as it was.
\<close>

theorem patchSettings_json_refines:
  assumes "decode pj = Some p"
  shows "decode (patchSettings_json (switch_patch_json k v) pj) = Some (patchSettings (switch_patch k v) p)"
proof -
  from assms obtain top kvs sj s where top: "pj = JObj top"
    and b: "map_of (rev top) ''byId'' = Some (JObj kvs)" and ok: "list_all entry_ok kvs"
    and st: "map_of (rev top) ''settings'' = Some sj" "dec_settings sj = Some s"
    and p: "p = \<lparr>byId = \<lambda>i. map_of (rev kvs) (nat_str i) \<bind> dec_item, settings = s\<rparr>"
    by (rule decodeE)
  from st(2) obtain olds where sj: "sj = JObj olds" by (blast dest: dec_settings_obj)
  let ?new = "JObj (spread olds (switch_patch_json k v))"
  have j: "patchSettings_json (switch_patch_json k v) pj = JObj (spread top [(''settings'', ?new)])"
    by (simp add: patchSettings_json_def top st(1) sj)
  have l1: "map_of (rev (spread top [(''settings'', ?new)])) ''byId'' = Some (JObj kvs)"
    using b by (simp add: map_of_rev_spread map_add_def)
  have l2: "map_of (rev (spread top [(''settings'', ?new)])) ''settings'' = Some ?new"
    by (simp add: map_of_rev_spread map_add_def)
  have d: "dec_settings ?new = Some (merge_settings s (switch_patch k v))"
    using st(2) sj by (simp add: dec_settings_switch)
  show ?thesis
    using ok by (simp only: j decode_def get_opt.simps l1 l2 json.case if_True)
      (simp add: d patchSettings_def p)
qed

theorem patchSettings_json_refines_witness:
  "decode (encode (emptyProgress 0)) = Some (emptyProgress 0) \<and>
   decode (patchSettings_json (switch_patch_json KShuffleLearn True) (encode (emptyProgress 0))) =
     Some (patchSettings (switch_patch KShuffleLearn True) (emptyProgress 0))"
proof -
  have h: "decode (encode (emptyProgress 0)) = Some (emptyProgress 0)" by (simp add: decode_encode)
  show ?thesis using h patchSettings_json_refines [OF h, of KShuffleLearn True] by (rule conjI)
qed

end
