(* ===== verification/App.thy ===== *)
theory App
  imports Site Persistence
begin

text \<open>
  The page together with \<open>localStorage\<close>: \<open>useProgress\<close> (\<open>src/app/page.tsx\<close>)
  initialises the progress with \<open>loadProgress() || emptyProgress()\<close> and runs the effect
  \<open>saveProgress(progress)\<close> after the first render and after every render in which
  \<open>progress\<close> changed. \<open>setItem\<close> may throw (the flag \<open>ok\<close> is false); the throw is
  swallowed and the store keeps its old value. The state of the page is the typed
  \<open>site\<close> of \<open>Site\<close>, read from the stored JSON value with \<open>decode\<close>; a stored value
  that does not decode lies outside the typed model (\<open>app_mount\<close> gives \<^const>\<open>None\<close>
  then: this is not an error of the page; the one such value that crashes the page is
  the subject of \<open>load_without_settings_crashes\<close>). The effect depends on the
  identity of \<open>progress\<close>, and every patch builds a new object; the model saves when
  the value changed, which writes the same text whenever the previous save succeeded.
\<close>

record app =
  app_site :: site
  store :: storage

definition app_mount :: "storage \<Rightarrow> bool \<Rightarrow> rand \<Rightarrow> day \<Rightarrow> instant \<Rightarrow> app option" where
  "app_mount st ok rs t tn =
     map_option (\<lambda>p. \<lparr>app_site = site_init p rs t tn, store = saveProgress ok (encode p) st\<rparr>)
       (decode (init_progress st t))"

definition app_step :: "bool \<Rightarrow> site_event \<Rightarrow> app \<Rightarrow> js_error + app" where
  "app_step ok e a =
     (case site_step e (app_site a) of
        Inl err \<Rightarrow> Inl err
      | Inr s' \<Rightarrow>
          Inr \<lparr>app_site = s',
               store = (if sprog s' = sprog (app_site a) then store a
                        else saveProgress ok (encode (sprog s')) (store a))\<rparr>)"

text \<open>
  The stores a previous run of the page leaves: nothing, text that does not parse, or
  what it saved for a well-formed state. Reachable apps start from such a store, and
  every save succeeds.
\<close>

definition page_store :: "storage \<Rightarrow> bool" where
  "page_store st \<longleftrightarrow>
     st = None \<or> st = Some Unparsable \<or>
     (\<exists>p. st = Some (Stringified (encode p)) \<and> keys_ok p \<and> progress_ok p)"

inductive app_reachable :: "app \<Rightarrow> bool" where
  start: "page_store st \<Longrightarrow> rand_ok rs \<Longrightarrow> app_mount st True rs t tn = Some a \<Longrightarrow> app_reachable a"
| step: "app_reachable a \<Longrightarrow> site_enabled e (app_site a) \<Longrightarrow> app_step True e a = Inr a' \<Longrightarrow>
         app_reachable a'"

subsection \<open>Lemmas\<close>

lemma keys_ok_in_session:
  assumes s: "site_inv s" and st: "in_session ev s = Inr s'" and k: "keys_ok (sprog s)"
  shows "keys_ok (sprog s')"
proof (cases "session s")
  case None
  with st show ?thesis using k by (simp add: in_session_def)
next
  case (Some w)
  with s have pw: "progress w = sprog s" by (simp add: site_inv_def)
  show ?thesis
  proof (cases "session_step ev w")
    case (Stay w')
    with st Some have "sprog s' = progress w'" by (auto simp: in_session_def)
    with keys_ok_step [OF Stay] k pw show ?thesis by simp
  next
    case (Leave w')
    then have "w' = w" by (rule session_step_leave)
    with st Some Leave pw k show ?thesis by (auto simp: in_session_def)
  next
    case (Fail err)
    with st Some show ?thesis by (simp add: in_session_def)
  qed
qed

lemma keys_ok_site_step:
  assumes s: "site_inv s" and st: "site_step e s = Inr s'" and k: "keys_ok (sprog s)"
  shows "keys_ok (sprog s')"
proof (cases e)
  case (InSession ev)
  with st show ?thesis using keys_ok_in_session [OF s _ k] by simp
next
  case (HeaderSwitch key v)
  with st show ?thesis using keys_ok_in_session [OF s _ k] k
    by (auto simp: keys_ok_def patchSettings_def split: if_splits)
next
  case HeaderReset
  with st show ?thesis using keys_ok_in_session [OF s _ k]
    by (auto simp: resetAll_def split: if_splits)
qed (use st k in \<open>auto simp: start_session_def Let_def\<close>)

lemma page_store_init:
  assumes "page_store st"
  shows "\<exists>p. init_progress st t = encode p \<and> keys_ok p \<and> progress_ok p"
proof -
  from assms consider "st = None \<or> st = Some Unparsable"
    | p where "st = Some (Stringified (encode p))" "keys_ok p" "progress_ok p"
    by (auto simp: page_store_def)
  then show ?thesis
  proof cases
    case 1
    then have "init_progress st t = encode (emptyProgress t)"
      by (auto simp: init_progress_def loadProgress_def)
    then show ?thesis using progress_ok_fresh keys_ok_emptyProgress by blast
  next
    case 2
    then show ?thesis by (auto simp: init_progress_def loadProgress_def truthy_byId_encode)
  qed
qed

lemma app_inv:
  "app_reachable a \<Longrightarrow>
     site_reachable (app_site a) \<and> keys_ok (sprog (app_site a)) \<and>
     store a = Some (Stringified (encode (sprog (app_site a))))"
proof (induction rule: app_reachable.induct)
  case (start st rs t tn a)
  from page_store_init [OF start.hyps(1), of t] obtain p where
    i: "init_progress st t = encode p" and k: "keys_ok p" and ok: "progress_ok p" by blast
  with start.hyps(3) have a: "a = \<lparr>app_site = site_init p rs t tn, store = Some (Stringified (encode p))\<rparr>"
    by (simp add: app_mount_def decode_encode saveProgress_def)
  have "site_reachable (site_init p rs t tn)"
    using start.hyps(2) ok by (rule site_reachable.start)
  with a k show ?case by (simp add: site_init_def)
next
  case (step a e a')
  from step.hyps(3) obtain s' where st: "site_step e (app_site a) = Inr s'"
    and a': "a' = \<lparr>app_site = s',
                   store = (if sprog s' = sprog (app_site a) then store a
                            else saveProgress True (encode (sprog s')) (store a))\<rparr>"
    by (auto simp: app_step_def split: sum.splits)
  have r': "site_reachable s'"
    using step.IH step.hyps(2) st by (blast intro: site_reachable.step)
  have "keys_ok (sprog s')"
    using keys_ok_site_step [OF site_reachable_inv st] step.IH by blast
  with a' r' step.IH show ?case by (auto simp: saveProgress_def)
qed

lemma load_encode: "keys_ok p \<Longrightarrow> loadProgress (Some (Stringified (encode p))) \<bind> decode = Some p"
  by (simp add: loadProgress_def truthy_byId_encode decode_encode)

lemma app_step_failed_save: "app_step False e a = Inr a' \<Longrightarrow> store a' = store a"
  by (auto simp: app_step_def saveProgress_def split: sum.splits if_splits)

lemma app_mount_fresh:
  "app_mount None True rs t tn =
     Some \<lparr>app_site = site_init (emptyProgress t) rs t tn,
           store = Some (Stringified (encode (emptyProgress t)))\<rparr>"
  by (simp add: app_mount_def init_progress_def loadProgress_def decode_encode saveProgress_def)

lemma app_reachable_fresh:
  "app_reachable \<lparr>app_site = site_init (emptyProgress 0) (sconst 0) 0 0,
                  store = Some (Stringified (encode (emptyProgress 0)))\<rparr>"
  by (rule app_reachable.start [where st = None and rs = "sconst 0" and t = 0 and tn = 0])
     (simp_all add: page_store_def rand_ok_sconst app_mount_fresh)

subsection \<open>Properties\<close>

text \<open>
  C19: in every state the page reaches from a store a previous run left, with every save
  succeeding, the store holds the progress on screen: reloading the page at any moment
  restores exactly that progress, and the page is a reachable state of \<open>Site\<close>.
\<close>

theorem reload_restores_progress:
  "app_reachable a \<Longrightarrow>
     site_reachable (app_site a) \<and> loadProgress (store a) \<bind> decode = Some (sprog (app_site a))"
  using app_inv [of a] by (simp add: load_encode)

theorem reload_restores_progress_witness:
  "app_reachable \<lparr>app_site = site_init (emptyProgress 0) (sconst 0) 0 0,
                  store = Some (Stringified (encode (emptyProgress 0)))\<rparr> \<and>
   loadProgress (Some (Stringified (encode (emptyProgress 0)))) \<bind> decode = Some (emptyProgress 0)"
  using reload_restores_progress [OF app_reachable_fresh] app_reachable_fresh
  by (simp add: site_init_def)

text \<open>
  C20: a save that throws is caught: every control on screen still completes with the
  page's new state, but the store keeps the old progress, so a reload after that step
  restores the progress from before it and the step's grading or setting is lost without
  notice.
\<close>

theorem failed_save_loses_step:
  assumes a: "app_reachable a" and e: "site_enabled e (app_site a)"
  shows "\<exists>a'. app_step False e a = Inr a' \<and> site_step e (app_site a) = Inr (app_site a') \<and>
              loadProgress (store a') \<bind> decode = Some (sprog (app_site a))"
proof -
  have i: "site_reachable (app_site a) \<and> keys_ok (sprog (app_site a)) \<and>
           store a = Some (Stringified (encode (sprog (app_site a))))"
    by (rule app_inv [OF a])
  obtain s' where s': "site_step e (app_site a) = Inr s'"
    using site_step_no_fail [OF conjunct1 [OF i] e] by (cases "site_step e (app_site a)") auto
  then obtain a' where st: "app_step False e a = Inr a'" and "app_site a' = s'"
    by (simp add: app_step_def)
  moreover have "store a' = store a" using st by (rule app_step_failed_save)
  ultimately show ?thesis using i s' by (simp add: load_encode)
qed

theorem failed_save_loses_step_witness:
  "\<exists>a'. app_step False (HeaderSwitch KToneMarks False)
            \<lparr>app_site = site_init (emptyProgress 0) (sconst 0) 0 0,
             store = Some (Stringified (encode (emptyProgress 0)))\<rparr> = Inr a' \<and>
         site_step (HeaderSwitch KToneMarks False) (site_init (emptyProgress 0) (sconst 0) 0 0) = Inr (app_site a') \<and>
         loadProgress (store a') \<bind> decode = Some (emptyProgress 0)"
proof -
  have e: "site_enabled (HeaderSwitch KToneMarks False)
            (app_site \<lparr>app_site = site_init (emptyProgress 0) (sconst 0) 0 0,
                       store = Some (Stringified (encode (emptyProgress 0)))\<rparr>)"
    by simp
  have p: "sprog (site_init (emptyProgress 0) (sconst 0) 0 0) = emptyProgress 0"
    by (simp add: site_init_def)
  from failed_save_loses_step [OF app_reachable_fresh e] show ?thesis by (simp only: app.select_convs p)
qed

end
