(* ===== verification/Display.thy ===== *)
theory Display
  imports Session Theme
begin

text \<open>
  The values \<open>StudySession\<close> renders from its state (\<open>src/app/page.tsx\<close>): the
  deck size \<open>total = deck.length || 1\<close>, the progress bar
  \<open>pct = Math.round(((index + 1) / total) * 100)\<close>, the card counter
  \<open>`${index + 1}/${total}`\<close>, and the timer \<open>timeStr\<close>,
  \<open>`${Math.floor(seconds / 60)}:${String(seconds % 60).padStart(2, "0")}`\<close>, and
  the information panel beside the card. The percentage is computed on reals, where
  JavaScript computes on doubles: \<open>Math.round\<close> of a non-negative number is the floor of
  the number plus a half, and a double can fall just below a half where the real value
  is at it (for card 23 of 40, \<open>23 / 40 * 100\<close> is \<open>57.49999999999999\<close>, so the page
  shows 57 where \<open>pct\<close> gives 58). The bounds proved for \<open>pct\<close> are of the real value.
  \<open>parse_time\<close> is not code: it reads a timer text back and states what the text
  means.
\<close>

definition total :: "session \<Rightarrow> nat" where
  "total s = (if deck s = [] then 1 else length (deck s))"

definition pct :: "session \<Rightarrow> int" where
  "pct s = \<lfloor>real (Suc (index s)) / real (total s) * 100 + 1 / 2\<rfloor>"

definition card_counter :: "session \<Rightarrow> string" where
  "card_counter s = nat_str (Suc (index s)) @ ''/'' @ nat_str (total s)"

text \<open>
  The information panel beside the card: the due date of the card's record \<open>pr\<close>,
  \<open>pr.correct || 0\<close>, \<open>pr.wrong || 0\<close> (the counters are numbers, so \<open>|| 0\<close> leaves
  them as they are) and the learned flag.
\<close>

definition info_panel :: "world \<Rightarrow> day \<times> nat \<times> nat \<times> bool" where
  "info_panel w = (let r = pr w in (due r, correct r, wrong r, learned r))"

text \<open>\<open>String.prototype.padStart(n, c)\<close> with a one-character pad.\<close>

definition padStart :: "nat \<Rightarrow> char \<Rightarrow> string \<Rightarrow> string" where
  "padStart n c s = replicate (n - length s) c @ s"

definition timeStr :: "nat \<Rightarrow> string" where
  "timeStr sec = nat_str (sec div 60) @ '':'' @ padStart 2 (CHR ''0'') (nat_str (sec mod 60))"

text \<open>
  The header row of the session: the theme's label of the mode, the card counter, the
  box \<open>pr.box || 1\<close> and the timer text.
\<close>

definition session_header :: "world \<Rightarrow> string \<times> string \<times> int \<times> string" where
  "session_header w =
     (meta_label (MODE_META (sess_mode (sess w))), card_counter (sess w), num_or (box (pr w)) 1,
      timeStr (seconds (sess w)))"

definition parse_time :: "string \<Rightarrow> nat option" where
  "parse_time s =
     (case dropWhile (\<lambda>c. c \<noteq> CHR '':'') s of
        [] \<Rightarrow> None
      | _ # r \<Rightarrow> Some (60 * str_nat (takeWhile (\<lambda>c. c \<noteq> CHR '':'') s) + str_nat r))"

subsection \<open>Lemmas\<close>

lemma nat_str_digit: "c \<in> set (nat_str n) \<Longrightarrow> 48 \<le> (of_char c :: nat) \<and> (of_char c :: nat) < 58"
proof (induction n rule: nat_str.induct)
  case (1 n)
  show ?case
  proof (cases "n < 10")
    case True
    with "1.prems" show ?thesis by (simp add: nat_str.simps [of n])
  next
    case False
    with "1.prems" have "c \<in> set (nat_str (n div 10)) \<or> c = char_of (48 + n mod 10)"
      by (auto simp add: nat_str.simps [of n])
    with "1.IH" False show ?thesis by auto
  qed
qed

lemma colon_notin_nat_str: "CHR '':'' \<notin> set (nat_str n)"
  using nat_str_digit [of "CHR '':''" n] by auto

lemma length_nat_str_small: "n < 100 \<Longrightarrow> length (nat_str n) \<le> 2"
proof (cases "n < 10")
  case False
  moreover assume "n < 100"
  ultimately have "n div 10 < 10" by simp
  with False show ?thesis by (simp add: nat_str.simps [of n] nat_str.simps [of "n div 10"])
qed (simp add: nat_str.simps [of n])

lemma str_nat_zeros: "str_nat (replicate k (CHR ''0'') @ s) = str_nat s"
proof -
  have "foldl (\<lambda>acc c. 10 * acc + (of_char c - 48)) (0::nat) (replicate k (CHR ''0'')) = 0"
    by (induction k) simp_all
  then show ?thesis by (simp add: str_nat_def)
qed

lemma deck_ok_length: "deck_ok d \<Longrightarrow> length d \<le> 60"
proof -
  assume "deck_ok d"
  then have "distinct d" "set d \<subseteq> set idsAll" by (simp_all add: deck_ok_def)
  then have "Finite_Set.card (set d) \<le> Finite_Set.card (set idsAll)" by (simp add: card_mono)
  with \<open>distinct d\<close> show ?thesis by (simp add: distinct_card length_idsAll distinct_card [OF distinct_idsAll])
qed

text \<open>The rounding, on the integers the session can hold: \<open>1 \<le> k \<le> L \<le> 60\<close>.\<close>

lemma round_pct:
  assumes k: "1 \<le> k" "k \<le> L" and L: "L \<le> (60::nat)"
  shows "2 \<le> \<lfloor>real k / real L * 100 + 1 / 2\<rfloor> \<and> \<lfloor>real k / real L * 100 + 1 / 2\<rfloor> \<le> 100 \<and>
         (\<lfloor>real k / real L * 100 + 1 / 2\<rfloor> = 100 \<longleftrightarrow> k = L)"
proof -
  from k have Lp: "0 < real L" by simp
  have eq: "real k / real L * 100 = 100 * real k / real L" by simp
  have lo: "3 / 2 \<le> 100 * real k / real L"
    using k L Lp by (simp add: pos_le_divide_eq)
  have hi: "100 * real k / real L \<le> 100"
    using k Lp by (simp add: pos_divide_le_eq)
  have last: "k = L \<Longrightarrow> 100 * real k / real L = 100" using Lp by simp
  have notlast: "k < L \<Longrightarrow> 100 * real k / real L < 199 / 2"
  proof -
    assume "k < L"
    then have "real k \<le> real L - 1" by linarith
    then have "100 * real k \<le> 100 * real L - 100" by simp
    also have "\<dots> < 199 / 2 * real L" using L by simp
    finally show ?thesis using Lp by (simp add: pos_divide_less_eq)
  qed
  show ?thesis
  proof (intro conjI)
    show "2 \<le> \<lfloor>real k / real L * 100 + 1 / 2\<rfloor>" using lo eq by (simp add: le_floor_iff)
    show "\<lfloor>real k / real L * 100 + 1 / 2\<rfloor> \<le> 100" using hi eq by (simp add: floor_le_iff)
    show "(\<lfloor>real k / real L * 100 + 1 / 2\<rfloor> = 100) = (k = L)"
    proof
      assume f: "\<lfloor>real k / real L * 100 + 1 / 2\<rfloor> = 100"
      show "k = L"
      proof (rule ccontr)
        assume "k \<noteq> L"
        with k have "k < L" by simp
        with notlast eq have "real k / real L * 100 + 1 / 2 < 100" by simp
        then have "\<lfloor>real k / real L * 100 + 1 / 2\<rfloor> < 100" by (simp add: floor_less_iff)
        with f show False by simp
      qed
    next
      assume "k = L"
      with last eq show "\<lfloor>real k / real L * 100 + 1 / 2\<rfloor> = 100" by (simp add: floor_eq_iff)
    qed
  qed
qed

lemma reachable_deck_index:
  "reachable w \<Longrightarrow> deck_ok (deck (sess w)) \<and> index (sess w) < length (deck (sess w))"
  by (drule reachable_sess_inv) (simp add: sess_inv_def pre_inv_def)

lemma length_padStart: "length s \<le> n \<Longrightarrow> length (padStart n c s) = n"
  by (simp add: padStart_def)

lemma str_nat_padStart: "str_nat (padStart n (CHR ''0'') s) = str_nat s"
  by (simp add: padStart_def str_nat_zeros)

lemma timeStr_split:
  "takeWhile (\<lambda>c. c \<noteq> CHR '':'') (timeStr n) = nat_str (n div 60) \<and>
   dropWhile (\<lambda>c. c \<noteq> CHR '':'') (timeStr n) =
     CHR '':'' # padStart 2 (CHR ''0'') (nat_str (n mod 60))"
proof -
  have p: "\<And>x. x \<in> set (nat_str (n div 60)) \<Longrightarrow> x \<noteq> CHR '':''"
    using colon_notin_nat_str by blast
  show ?thesis by (simp add: timeStr_def takeWhile_append2 [OF p] dropWhile_append2 [OF p])
qed

subsection \<open>Properties\<close>

text \<open>C32: On every reachable session the progress bar value is between 2 and 100, and it
  is 100 exactly on the last card of the deck.\<close>

theorem pct_bounds:
  "reachable w \<Longrightarrow> 2 \<le> pct (sess w) \<and> pct (sess w) \<le> 100 \<and>
     (pct (sess w) = 100 \<longleftrightarrow> Suc (index (sess w)) = length (deck (sess w)))"
proof -
  assume "reachable w"
  from reachable_deck_index [OF this]
  have d: "deck (sess w) \<noteq> []" "Suc (index (sess w)) \<le> length (deck (sess w))"
    "length (deck (sess w)) \<le> 60"
    by (auto simp: deck_ok_def intro: deck_ok_length)
  then have "total (sess w) = length (deck (sess w))" by (simp add: total_def)
  with round_pct [of "Suc (index (sess w))" "length (deck (sess w))"] d
  show ?thesis by (simp add: pct_def)
qed

theorem pct_bounds_witness:
  "reachable (mount Learn (emptyProgress 0) (sconst 0) 0 0) \<and>
   2 \<le> pct (sess (mount Learn (emptyProgress 0) (sconst 0) 0 0)) \<and>
   pct (sess (mount Learn (emptyProgress 0) (sconst 0) 0 0)) \<noteq> 100"
proof -
  have h: "reachable (mount Learn (emptyProgress 0) (sconst 0) 0 0)"
    by (intro reachable_mount rand_ok_sconst progress_ok_fresh) simp_all
  have "index (sess (mount Learn (emptyProgress 0) (sconst 0) 0 0)) = 0 \<and>
        length (deck (sess (mount Learn (emptyProgress 0) (sconst 0) 0 0))) = 60"
    by (simp add: mount_learn default_settings_def)
  with pct_bounds [OF h] h show ?thesis by simp
qed

text \<open>C33: The timer text reads back as the number of seconds: minutes, a colon, and the
  seconds of the minute on exactly two digits.\<close>

theorem timeStr_roundtrip:
  "parse_time (timeStr n) = Some n \<and> length (timeStr n) = length (nat_str (n div 60)) + 3"
proof -
  have l: "length (nat_str (n mod 60)) \<le> 2" by (rule length_nat_str_small) simp
  have "parse_time (timeStr n) = Some (60 * (n div 60) + n mod 60)"
    using timeStr_split [of n] by (simp add: parse_time_def str_nat_padStart)
  moreover have "length (timeStr n) = length (nat_str (n div 60)) + 3"
    using length_padStart [OF l] by (simp add: timeStr_def)
  ultimately show ?thesis by simp
qed

end
