(* ===== verification/View.thy ===== *)
theory View
  imports Session
begin

text \<open>
  What \<open>StudySession\<close> (\<open>src/app/page.tsx\<close>) shows on its card and below it. In learn
  and review mode: a button holding the card (\<open>handleFlip\<close>) with the radical and the
  box badge \<open>pr.box || 1\<close>, and once \<open>flipped\<close> the back: the Vietnamese name, the
  pinyin as \<open>formatPinyin\<close> gives it, the meaning, the mnemonic if \<open>showMnemonic\<close>,
  the examples if \<open>showExamples\<close>; below the card the show-answer button, or the four
  grade buttons once flipped, each with the keyboard hint if \<open>keyboardShortcuts\<close>. In
  quiz mode: the radical, one button per option of \<open>quiz?.options\<close> with the classes
  it gets (picked, correct, wrong), and either the submit button (disabled while nothing
  is chosen) or the correct answer \<open>quiz.correct\<close> with the next button; that read of
  \<open>quiz.correct\<close> throws when \<open>quiz\<close> is \<open>null\<close>. \<open>normalize\<close>, which
  \<open>formatPinyin\<close> applies when tone marks are off, is the parameter \<open>nrm\<close>, as in
  \<open>Search\<close>.
\<close>

definition formatPinyin :: "(string \<Rightarrow> string) \<Rightarrow> radical \<Rightarrow> bool \<Rightarrow> string" where
  "formatPinyin nrm r tm = (if tm then pinyin r else nrm (pinyin r))"

record flash_back =
  back_vn :: string
  back_pinyin :: string
  back_meaning :: string
  back_mnemonic :: "string option"
  back_examples :: "string list option"

text \<open>The buttons below a flashcard; the flag is whether the keyboard hint is shown.\<close>

datatype flash_controls = ShowAnswerButton bool | GradeButtons bool

record option_view =
  opt_text :: string
  opt_picked :: bool
  opt_correct :: bool
  opt_wrong :: bool

text \<open>The footer of a quiz: the submit button (the flag is \<open>disabled\<close>), or the answer and next.\<close>

datatype quiz_footer = SubmitButton bool | AnswerNext string

datatype card_view =
    FlashCard string int "flash_back option" flash_controls
  | QuizCard string "option_view list" quiz_footer

definition option_of :: "session \<Rightarrow> quiz \<Rightarrow> string \<Rightarrow> option_view" where
  "option_of s q opt =
     \<lparr>opt_text = opt, opt_picked = (quizChoice s = Some opt),
      opt_correct = (quizReveal s \<and> opt = fst q),
      opt_wrong = (quizReveal s \<and> quizChoice s = Some opt \<and> opt \<noteq> fst q)\<rparr>"

definition card_view :: "(string \<Rightarrow> string) \<Rightarrow> world \<Rightarrow> js_error + card_view" where
  "card_view nrm w =
     (let s = sess w; c = card s; st = settings (progress w) in
      if sess_mode s \<noteq> Quiz then
        Inr (FlashCard (radical c) (num_or (box (pr w)) 1)
               (if flipped s
                then Some \<lparr>back_vn = vn c, back_pinyin = formatPinyin nrm c (toneMarks st),
                           back_meaning = meaning c,
                           back_mnemonic = (if showMnemonic st then Some (mnemonic c) else None),
                           back_examples = (if showExamples st then Some (examples c) else None)\<rparr>
                else None)
               (if flipped s then GradeButtons (keyboardShortcuts st)
                else ShowAnswerButton (keyboardShortcuts st)))
      else
        (let opts = (case quiz_of s of None \<Rightarrow> [] | Some q \<Rightarrow> map (option_of s q) (snd q)) in
         if \<not> quizReveal s then Inr (QuizCard (radical c) opts (SubmitButton (quizChoice s = None)))
         else case quiz_of s of
                None \<Rightarrow> Inl TypeError
              | Some q \<Rightarrow> Inr (QuizCard (radical c) opts (AnswerNext (fst q)))))"

text \<open>
  The events the buttons of a view dispatch: the card button (\<open>handleFlip\<close>), show
  answer, the grades 1 to 4, one option each, submit (when not disabled) and next.
\<close>

fun controls :: "card_view \<Rightarrow> sevent list" where
  "controls (FlashCard r b back (ShowAnswerButton k)) = [ClickCard, ClickShowAnswer]"
| "controls (FlashCard r b back (GradeButtons k)) = ClickCard # map ClickGrade [1, 2, 3, 4]"
| "controls (QuizCard r opts (SubmitButton d)) =
     map (ClickOption \<circ> opt_text) opts @ (if d then [] else [ClickSubmit])"
| "controls (QuizCard r opts (AnswerNext a)) = map (ClickOption \<circ> opt_text) opts @ [ClickNext]"

text \<open>The events that belong to a control on the card or below it.\<close>

fun card_event :: "sevent \<Rightarrow> bool" where
  "card_event ClickCard = True"
| "card_event ClickShowAnswer = True"
| "card_event (ClickGrade g) = True"
| "card_event (ClickOption opt) = True"
| "card_event ClickSubmit = True"
| "card_event ClickNext = True"
| "card_event _ = False"

subsection \<open>Lemmas\<close>

lemma reachable_view_facts:
  assumes "reachable w"
  shows "(sess_mode (sess w) = Quiz \<longrightarrow>
            (\<exists>q. quiz_of (sess w) = Some q \<and> quiz_ok (card (sess w)) q)) \<and>
         (sess_mode (sess w) \<noteq> Quiz \<longrightarrow> \<not> quizReveal (sess w))"
  using reachable_sess_inv [OF assms]
  by (auto simp: sess_inv_def pre_inv_def memo_ok_def quiz_of_def)

lemma pr_render [simp]: "pr (render w) = pr w"
  by (simp add: pr_def render_frame split: option.split)

lemma option_of_text [simp]: "map (opt_text \<circ> option_of s q) xs = xs"
  by (induction xs) (simp_all add: option_of_def)

lemma opt_text_option_of [simp]: "opt_text (option_of s q x) = x"
  by (simp add: option_of_def)

lemma controls_options: "map (ClickOption \<circ> opt_text) (map (option_of s q) xs) = map ClickOption xs"
  by (induction xs) (simp_all add: option_of_def)

lemma correct_options:
  "distinct xs \<Longrightarrow> fst q \<in> set xs \<Longrightarrow>
     map opt_text (filter opt_correct (map (option_of s q) xs)) = (if quizReveal s then [fst q] else [])"
  by (induction xs) (auto simp: option_of_def filter_empty_conv)

lemma wrong_options: "\<not> quizReveal s \<Longrightarrow> filter opt_wrong (map (option_of s q) xs) = []"
  by (induction xs) (simp_all add: option_of_def)

lemma quiz_view:
  assumes "sess_mode (sess w) = Quiz" and "quiz_of (sess w) = Some q"
  shows "card_view nrm w =
           Inr (QuizCard (radical (card (sess w))) (map (option_of (sess w) q) (snd q))
                  (if quizReveal (sess w) then AnswerNext (fst q)
                   else SubmitButton (quizChoice (sess w) = None)))"
  using assms by (simp add: card_view_def Let_def)

lemma flash_view:
  assumes "sess_mode (sess w) \<noteq> Quiz"
  shows "\<exists>back. card_view nrm w =
           Inr (FlashCard (radical (card (sess w))) (num_or (box (pr w)) 1) back
                  (if flipped (sess w) then GradeButtons (keyboardShortcuts (settings (progress w)))
                   else ShowAnswerButton (keyboardShortcuts (settings (progress w)))))"
  using assms by (simp add: card_view_def Let_def)

lemma showAnswer_frame [simp]:
  "card (sess (showAnswer w)) = card (sess w)" "pr (showAnswer w) = pr w"
  "progress (showAnswer w) = progress w" "flipped (sess (showAnswer w))"
  "sess_mode (sess (showAnswer w)) = sess_mode (sess w)"
  by (simp_all add: showAnswer_def card_def current_id_def pr_def split: option.split)

subsection \<open>Properties\<close>

text \<open>C14: rendering the card never throws in a reachable state: the answer is read only
  after a submit, and a quiz exists then.\<close>

theorem card_view_no_crash: "reachable w \<Longrightarrow> \<exists>v. card_view nrm w = Inr v"
  using reachable_view_facts [of w]
  by (auto simp: card_view_def Let_def split: option.split)

theorem card_view_no_crash_witness:
  "\<exists>v. card_view id (mount Quiz (emptyProgress 0) (sconst 0) 0 0) = Inr v"
proof -
  have h: "reachable (mount Quiz (emptyProgress 0) (sconst 0) 0 0)"
    by (intro reachable_mount rand_ok_sconst progress_ok_fresh) simp_all
  show ?thesis using card_view_no_crash [OF h, of id] .
qed

text \<open>
  C15: the buttons the view shows are exactly the card controls the model enables: an event
  of the card is on screen in a reachable state if and only if \<open>enabled\<close> admits it,
  so the traces of \<open>reachable\<close> are the traces a user can click.
\<close>

theorem view_controls_enabled:
  assumes r: "reachable w" and v: "card_view nrm w = Inr v" and e: "card_event e"
  shows "e \<in> set (controls v) \<longleftrightarrow> enabled e w"
proof (cases "sess_mode (sess w) = Quiz")
  case True
  with reachable_view_facts [OF r] obtain q where q: "quiz_of (sess w) = Some q" by auto
  from v quiz_view [OF True q, of nrm]
  have "v = QuizCard (radical (card (sess w))) (map (option_of (sess w) q) (snd q))
              (if quizReveal (sess w) then AnswerNext (fst q)
               else SubmitButton (quizChoice (sess w) = None))" by simp
  with e True q show ?thesis by (cases e) (auto simp: controls_options)
next
  case False
  from flash_view [OF False, of nrm] v obtain bk where
    "v = FlashCard (radical (card (sess w))) (num_or (box (pr w)) 1) bk
           (if flipped (sess w) then GradeButtons (keyboardShortcuts (settings (progress w)))
            else ShowAnswerButton (keyboardShortcuts (settings (progress w))))" by auto
  with e False show ?thesis by (cases e) auto
qed

theorem view_controls_enabled_witness:
  "reachable (mount Quiz (emptyProgress 0) (sconst 0) 0 0) \<and>
   card_view id (mount Quiz (emptyProgress 0) (sconst 0) 0 0) =
     Inr (QuizCard (radical (card (sess (mount Quiz (emptyProgress 0) (sconst 0) 0 0))))
            (map (option_of (sess (mount Quiz (emptyProgress 0) (sconst 0) 0 0))
                   (the (quiz_of (sess (mount Quiz (emptyProgress 0) (sconst 0) 0 0)))))
                 (snd (the (quiz_of (sess (mount Quiz (emptyProgress 0) (sconst 0) 0 0))))))
            (SubmitButton True)) \<and>
   card_event ClickSubmit \<and>
   \<not> enabled ClickSubmit (mount Quiz (emptyProgress 0) (sconst 0) 0 0)"
proof -
  let ?w = "mount Quiz (emptyProgress 0) (sconst 0) 0 0"
  have r: "reachable ?w"
    by (intro reachable_mount rand_ok_sconst progress_ok_fresh) simp_all
  have m: "sess_mode (sess ?w) = Quiz" by (simp add: sess_mode_mount)
  with reachable_view_facts [OF r] obtain q where q: "quiz_of (sess ?w) = Some q" by auto
  have s: "\<not> quizReveal (sess ?w) \<and> quizChoice (sess ?w) = None"
    by (simp add: mount_def Let_def render_frame case_prod_beta reset_deck_def)
  have v: "card_view id ?w = Inr (QuizCard (radical (card (sess ?w)))
             (map (option_of (sess ?w) q) (snd q)) (SubmitButton True))"
    using quiz_view [OF m q, of id] s by simp
  have "ClickSubmit \<notin> set (controls (QuizCard (radical (card (sess ?w)))
             (map (option_of (sess ?w) q) (snd q)) (SubmitButton True)))"
    by (induction "snd q") auto
  with view_controls_enabled [OF r v, of ClickSubmit] v q r show ?thesis by simp
qed

text \<open>
  C16: a quiz shows its answer exactly after the submit: before it no option is marked
  correct or wrong and the footer is the submit button, disabled while nothing is
  chosen; after it exactly one option is marked correct, the card's meaning, which the
  footer also shows.
\<close>

theorem quiz_answer_view:
  assumes r: "reachable w" and m: "sess_mode (sess w) = Quiz"
  shows "\<exists>opts f. card_view nrm w = Inr (QuizCard (radical (card (sess w))) opts f) \<and>
           map opt_text (filter opt_correct opts) =
             (if quizReveal (sess w) then [meaning (card (sess w))] else []) \<and>
           (if quizReveal (sess w) then f = AnswerNext (meaning (card (sess w)))
            else f = SubmitButton (quizChoice (sess w) = None) \<and> filter opt_wrong opts = [])"
proof -
  from reachable_view_facts [OF r] m obtain q where
    q: "quiz_of (sess w) = Some q" and ok: "quiz_ok (card (sess w)) q" by auto
  from ok have a: "fst q = meaning (card (sess w))" "distinct (snd q)" "fst q \<in> set (snd q)"
    by (simp_all add: quiz_ok_def)
  show ?thesis
    using quiz_view [OF m q, of nrm] correct_options [OF a(2,3), of "sess w"]
          wrong_options [of "sess w" q "snd q"] a(1)
    by auto
qed

theorem quiz_answer_view_witness:
  "reachable (mount Quiz (emptyProgress 0) (sconst 0) 0 0) \<and>
   sess_mode (sess (mount Quiz (emptyProgress 0) (sconst 0) 0 0)) = Quiz \<and>
   (\<exists>opts. card_view id (mount Quiz (emptyProgress 0) (sconst 0) 0 0) =
      Inr (QuizCard (radical (card (sess (mount Quiz (emptyProgress 0) (sconst 0) 0 0)))) opts
             (SubmitButton True)))"
proof -
  let ?w = "mount Quiz (emptyProgress 0) (sconst 0) 0 0"
  have r: "reachable ?w"
    by (intro reachable_mount rand_ok_sconst progress_ok_fresh) simp_all
  have m: "sess_mode (sess ?w) = Quiz" by (simp add: mount_def Let_def render_frame case_prod_beta reset_deck_def)
  have s: "\<not> quizReveal (sess ?w) \<and> quizChoice (sess ?w) = None"
    by (simp add: mount_def Let_def render_frame case_prod_beta reset_deck_def)
  show ?thesis using quiz_answer_view [OF r m, of id] r m s by auto
qed

text \<open>
  C17: the show-answer button turns the current card over: the same card stays on screen,
  its back shows the card's Vietnamese name and meaning, and the four grade buttons
  replace the button.
\<close>

theorem show_answer_view:
  assumes "enabled ClickShowAnswer w"
  shows "\<exists>w' b. session_step ClickShowAnswer w = Stay w' \<and>
           card_view nrm w' =
             Inr (FlashCard (radical (card (sess w))) (num_or (box (pr w)) 1) (Some b)
                    (GradeButtons (keyboardShortcuts (settings (progress w))))) \<and>
           back_vn b = vn (card (sess w)) \<and> back_meaning b = meaning (card (sess w))"
  using assms by (simp add: card_view_def Let_def render_frame)

theorem show_answer_view_witness:
  "enabled ClickShowAnswer (mount Learn (emptyProgress 0) (sconst 0) 0 0) \<and>
   (\<exists>w' b. session_step ClickShowAnswer (mount Learn (emptyProgress 0) (sconst 0) 0 0) = Stay w' \<and>
      back_meaning (b :: flash_back) = meaning (card (sess (mount Learn (emptyProgress 0) (sconst 0) 0 0))))"
proof -
  let ?w = "mount Learn (emptyProgress 0) (sconst 0) 0 0"
  have e: "enabled ClickShowAnswer ?w" by (simp add: mount_learn default_settings_def)
  have "\<exists>w' b. session_step ClickShowAnswer ?w = Stay w' \<and>
          back_meaning (b :: flash_back) = meaning (card (sess ?w))"
    using show_answer_view [OF e, of id]
    by (elim exE conjE) blast
  with e show ?thesis by (rule conjI)
qed

end
