(* ===== verification/Spec2Isabelle.thy ===== *)
theory Spec2Isabelle
  imports App Display Search View Theme
begin

text \<open>
  Verification of the spaced-repetition core of the radicals flashcard site
  (\<open>src/app/page.tsx\<close>, one React component file).

  \<^bold>\<open>The program.\<close> A fixed catalog of sixty items (\<open>RADICALS\<close>); a progress store
  (\<open>useProgress\<close>: one record per item with its Leitner box, counters and due day, plus
  five settings, persisted to \<open>localStorage\<close>); a scheduler (\<open>applyGrade\<close>,
  \<open>intervalByBox\<close>, \<open>addDays\<close>); a deck builder (\<open>buildDeck\<close> with the
  Fisher-Yates \<open>shuffle\<close>); and the study session (\<open>StudySession\<close>: deck, index,
  flip, quiz options and answer, timer, keyboard), which the root component
  (\<open>Radicals60StudySite\<close>) mounts with a mode and the progress store. The session reads
  the store and writes it only through \<open>patchId\<close> (grading) and \<open>resetAll\<close> (the
  reset button); the settings dialog writes it through \<open>patchSettings\<close>.

  \<^bold>\<open>Theories.\<close>
  \<^item> \<open>Prelude\<close>: the model's types (item identifiers, days, instants, the stream of
    \<open>Math.random()\<close> draws), the JavaScript idioms (\<open>||\<close> on numbers,
    \<open>Math.floor(Math.random() * (i + 1))\<close>, the destructuring swap) and shared lemmas.
  \<^item> \<open>Catalog\<close>: \<open>RADICALS\<close> as sixty records, byte for byte (UTF-8); \<open>idsAll\<close>
    and the card lookup \<open>card_of\<close> (\<open>find\<close> with the fallback to the first radical);
    that the ids are \<open>1..60\<close> and the meanings distinct.
  \<^item> \<open>Scheduler\<close>: \<open>applyGrade\<close>, \<open>intervalByBox\<close>, \<open>addDays\<close> on integers, and
    the Leitner scheme they implement (five levels, four answers) with the refinement
    lemma; bounds, monotonicity, and what happens to invalid grades and corrupt boxes.
  \<^item> \<open>Progress\<close>: the records \<open>ProgressItem\<close>, \<open>Settings\<close>, \<open>ProgressState\<close>,
    \<open>emptyProgress\<close>, \<open>patchId\<close>, \<open>patchSettings\<close>, \<open>resetAll\<close>, the switch
    patches of the settings dialog, and the well-formedness invariant \<open>progress_ok\<close>.
  \<^item> \<open>Deck\<close>: \<open>shuffle\<close> with its loop \<open>shuffle_for\<close> on the integer counter
    \<open>i\<close> (a \<open>function\<close> whose termination is proved with the measure \<open>nat i\<close>),
    equal to the structural recursion \<open>fy_loop\<close> the lemmas use, consuming one draw
    per step; \<open>buildDeck\<close> for the three modes. Lemmas: the loop stops after exactly
    \<open>max 0 i\<close> iterations; the
    shuffle is a permutation for every draw sequence in \<open>[0, 1)\<close>, and every
    permutation is produced by some such sequence (completeness of Fisher-Yates); every
    deck is non-empty, duplicate-free and inside the catalog; the review deck is the due
    items in catalog order, or the whole catalog when none is due.
  \<^item> \<open>Session\<close>: the session state as the record \<open>session\<close> inside a \<open>world\<close> that
    adds the store, the random source and the clock. One definition per handler
    (\<open>handleFlip\<close>, \<open>showAnswer\<close>, \<open>grade\<close>, \<open>chooseOption\<close>, \<open>submitQuiz\<close>,
    \<open>nextQuiz\<close>, \<open>tick\<close>, \<open>onKey\<close>); React's behaviour is explicit: \<open>render\<close>
    refreshes the \<open>useMemo\<close> quiz when the card id changes and re-registers the keyboard
    listener only when its effect dependencies change (the listener keeps the record
    \<open>key_pr\<close> it closed over); \<open>mount\<close> builds the deck twice, once in the state
    initialiser and once in the mount effect, as the code does; \<open>set_progress\<close>
    rebuilds the deck when \<open>shuffleLearn\<close> changes. The events a user can cause are the
    datatype \<open>sevent\<close>, \<open>session_step\<close> runs one, \<open>enabled\<close> says which controls
    are on screen, \<open>reachable\<close> is the inductive set of worlds reachable from a mount on
    a well-formed store. Lemmas: the invariant \<open>sess_inv\<close> (deck well formed, index in
    range, store well formed, quiz options valid, memo and listener consistent) holds in
    every reachable world; no enabled event raises; the quiz has four distinct options
    with the right answer among them; grading stores exactly the record the spec gives;
    repeated grading visits every card; the progress changes only by grading or reset.
  \<^item> \<open>Persistence\<close>: the stored blob and the page's state as JSON values
    (\<open>json\<close>), JavaScript property reads (\<open>get_opt\<close> for \<open>?.\<close>, \<open>get\<close> for
    \<open>.\<close>, which throws on \<open>null\<close> and \<open>undefined\<close>) and truthiness;
    \<open>loadProgress\<close>, \<open>saveProgress\<close> and the initialiser of \<open>useProgress\<close>;
    the store's mutators as object spreads on JSON values (\<open>patchId_json\<close>,
    \<open>patchSettings_json\<close>, \<open>resetAll_json\<close>); what \<open>JSON.stringify\<close> writes for a
    typed state (\<open>encode\<close>) and its abstraction \<open>decode\<close>. Lemmas: the round trip
    through storage for every state a session reaches from a fresh store; the fallbacks
    of \<open>loadProgress\<close>; the JSON-level mutators refine the typed ones of \<open>Progress\<close>
    under \<open>decode\<close>; every stored value with a truthy \<open>byId\<close> and no (or a null)
    \<open>settings\<close> passes \<open>loadProgress\<close> and crashes the page.
  \<^item> \<open>Site\<close>: the root component \<open>Radicals60StudySite\<close> as the record \<open>site\<close>:
    the page (\<open>home\<close>, \<open>select\<close>, \<open>session\<close>, \<open>list\<close>), the chosen mode, the
    store shared with the session, the clock, the mounted session (a \<open>world\<close> of
    \<open>Session\<close>, present exactly on the session page), and the memos of \<open>dueCount\<close> and
    \<open>learnedCount\<close>, each stored with the \<open>progress.byId\<close> it was computed for and
    recomputed by \<open>site_render\<close> when that changes. \<open>site_step\<close> runs one control of
    the page (\<open>site_event\<close>): the navigation buttons, start (\<open>start_session\<close> mounts
    \<open>StudySession\<close> with the page's mode, store and random source), the session's own
    controls (\<open>in_session\<close> runs \<open>session_step\<close> and unmounts on \<open>onExit\<close>), the
    header's settings dialog (on the mounted session, or on the store when none is), and
    the clock; \<open>home_view\<close> is the home page's progress card (learned and due counts and
    the suggestion derived from the due count), \<open>select_view\<close> the select page's mode
    buttons, \<open>list_view\<close> the rows of the list page for its query (the state of
    \<open>ManageList\<close>, empty each time the page opens, set by \<open>TypeQuery\<close>). Lemmas: every reachable page state mounts only reachable sessions that share
    its store and mode, so every \<open>Session\<close> theorem applies inside the page; no control
    raises; the home page is at most two clicks away from every reachable state, and
    going back keeps the progress; a step that leaves the stored records as they were
    leaves the home page's counts as they were (\<open>home_view_keeps\<close>), and the count
    shown is the count of some day no later than the current one (\<open>due_memo_day\<close>).
  \<^item> \<open>App\<close>: the page together with \<open>localStorage\<close>: \<open>app_mount\<close> loads the
    store, decodes it to the typed progress and saves once after the first render;
    \<open>app_step\<close> runs a \<open>site_step\<close> and the save effect of \<open>useProgress\<close> when the
    progress changed, with \<open>setItem\<close> succeeding or throwing. Lemmas: with every save
    succeeding, the store always holds the progress on screen, so a reload at any moment
    restores it; a save that throws is caught, every control still completes, and that
    step's change is lost on reload.
  \<^item> \<open>Theme\<close>: \<open>MODE_META\<close>, the label and colour classes of each mode, and the
    mode buttons of the select page (\<open>select_buttons\<close>), exactly one of them marked as
    chosen.
  \<^item> \<open>Display\<close>: the values \<open>StudySession\<close> shows: the header row
    (\<open>session_header\<close>), \<open>total\<close>, the progress
    percentage \<open>pct\<close> (\<open>Math.round\<close> as the floor of \<open>x + 1/2\<close>, on reals: the
    doubles of JavaScript can fall just below a half where the real value is at it, so
    for card 23 of 40 the page shows 57 and the model 58; the bounds below are proved for
    the real value), the card
    counter, the information panel (\<open>info_panel\<close>) and the timer text
    \<open>timeStr\<close> with \<open>padStart\<close>. Lemmas: \<open>pct\<close> lies in
    \<open>2..100\<close> and is 100 exactly on the last card (decks have at most 60 cards); the
    timer text reads back (\<open>parse_time\<close>, a reader of the format, not code) as the
    seconds, with two digits of seconds.
  \<^item> \<open>Normalize\<close>: \<open>normalize\<close> with the removal of the combining marks
    U+0300..U+036F (\<open>strip_marks\<close>) and \<open>trim\<close> (\<open>js_trim\<close>, over the table
    \<open>js_ws\<close> of ECMAScript white space) on UTF-8 bytes; lower-casing and NFD, the
    engine's Unicode tables, are the parameters \<open>low\<close> and \<open>nfd\<close>. Lemmas: the
    byte-level removal refines the regular expression on code points (through the
    encoding \<open>utf8\<close>); \<open>normalize\<close> ends by removing exactly the white space at
    both ends; a query of white space normalises to the empty string.
  \<^item> \<open>Search\<close>: the \<open>ManageList\<close> filter \<open>search_list\<close> with the haystack \<open>hay\<close>,
    \<open>join\<close> and \<open>includes\<close> (\<open>str_includes\<close>, \<open>includes\<close> being an Isabelle
    keyword), for any normalising function, and the rows of the list (\<open>row_of\<close>,
    \<open>manage_list\<close>) with the box and learned badge read from the store. Lemmas:
    \<open>str_includes\<close> is the substring relation \<open>sublist\<close>; the list is the catalog
    filtered by it; a longer query narrows the list; an empty query lists all sixty; a
    row shows the record \<open>patchId\<close> stored, and box 1, not learned, on a fresh store;
    with \<open>normalize\<close>, a query of white space only lists all sixty.
  \<^item> \<open>View\<close>: what \<open>StudySession\<close> shows on and below its card (\<open>card_view\<close>):
    the flashcard with its back once flipped (\<open>formatPinyin\<close>, the mnemonic and the
    examples under their settings), the quiz options with their picked, correct and wrong
    marks (\<open>option_of\<close>), the submit button or the answer (whose read of
    \<open>quiz.correct\<close> throws on a null quiz), and the buttons below the card; \<open>controls\<close>
    maps a view to the events its buttons dispatch. Lemmas: rendering never throws in a
    reachable state; the buttons on screen are exactly the events \<open>enabled\<close> admits, so
    the \<open>reachable\<close> traces are the clickable ones; a quiz shows its answer only after the
    submit; the show-answer button turns the current card over.
  \<^item> \<open>Spec2Isabelle\<close> (this theory): the properties that span the session, the page
    and the deck builder: the stale keyboard closure after "reset all", from any reachable
    session with the card about to be revealed; the home page's due count, which only a
    change of the stored records recomputes; and the review deck the start button builds,
    set against the count the home page shows. \<open>review_fixture\<close> is the store of
    their witnesses: one item due on day 0, the others on day 5.

  \<^bold>\<open>Time and randomness.\<close> Due dates are local calendar days (\<open>todayStart()\<close> is a
  parameter of each event); the stored ISO strings are identified with the values they
  parse back to. \<open>Math.random()\<close> is an infinite stream of reals, assumed in
  \<open>[0, 1)\<close> (\<open>rand_ok\<close>). There is no fuel: the only explicit loop of the code is the
  \<open>for\<close> loop of \<open>shuffle\<close>, a \<open>function\<close> with a termination proof; the loops
  inside the library calls \<open>normalize\<close> makes (\<open>replace\<close> and \<open>trim\<close>) are a
  structural recursion and two \<open>function\<close>s that terminate by the length of the text;
  every event's handler is a non-recursive function.

  \<^bold>\<open>Findings.\<close> A stored value with \<open>byId\<close> but no \<open>settings\<close> is accepted by
  \<open>loadProgress\<close> and crashes every render (\<open>load_without_settings_crashes\<close>). The keyboard listener grades with the record it captured when it was
  registered, so a digit key after "reset all" writes the pre-reset history back
  (\<open>keyboard_grade_after_reset_stale\<close>); \<open>applyGrade\<close> treats an invalid grade as
  Easy, and keeps a corrupt box above 5; the review deck cannot tell "nothing due" from
  "review everything"; the mount builds and shuffles the deck twice. The home page's due
  count is memoised on the store only, so it stays at the previous day's value after
  midnight while the review deck already holds the newly due items (\<open>due_count_stale\<close>).

  \<^bold>\<open>Not modelled.\<close> The Unicode tables of \<open>toLowerCase\<close> and
  \<open>normalize("NFD")\<close>, library functions \<open>normalize\<close> calls: they are parameters, and
  the search and \<open>formatPinyin\<close> are proved for every normalising function. The JSX
  markup, the styling and the icons beyond the labels and classes \<open>MODE_META\<close> and the buttons
  carry, which hold no state (the tip panels, \<open>TopBar\<close>, \<open>StatChip\<close>,
  \<open>SmallKbd\<close>, the animations of \<open>motion\<close>). The text of JSON and of ISO dates
  (\<open>JSON.parse\<close>, \<open>JSON.stringify\<close>, \<open>toISOString\<close>, the \<open>Date\<close> parser), which
  belong to the JavaScript library: stored values are JSON values, and a stored time stamp
  is the value it denotes.
\<close>

text \<open>
  A progress state for the due count: every item has its initial record, item 1 is due
  on day 0 and all others on day 5.
\<close>

definition review_fixture :: progress_state where
  "review_fixture =
     \<lparr>byId = (\<lambda>j. if j \<in> {1..60} then Some (fresh_item (if j = 1 then 0 else 5)) else None),
      settings = default_settings\<rparr>"

lemma review_fixture_deck:
  "fst (buildDeck Review review_fixture (shuffleLearn (settings review_fixture)) 0 rs) = [1]"
proof -
  have "filter (\<lambda>i. dueDay review_fixture i \<le> 0) idsAll = [1]"
    by (rule filter_singleton_distinct)
       (auto simp: set_idsAll dueDay_def review_fixture_def fresh_item_def)
  then show ?thesis by (simp add: buildDeck_review)
qed

lemma progress_ok_review_fixture: "progress_ok review_fixture"
  by (rule progress_okI) (simp add: review_fixture_def box_ok_def fresh_item_def)

lemma dueCount_review_fixture_before: "dueCount review_fixture (-1) = 0"
  by (auto simp: dueCount_idsAll filter_empty_conv set_idsAll dueDay_def review_fixture_def fresh_item_def)

lemma dueCount_review_fixture: "dueCount review_fixture 0 = 1"
proof -
  have "filter (\<lambda>i. dueDay review_fixture i \<le> 0) idsAll = [1]"
    by (rule filter_singleton_distinct)
       (auto simp: set_idsAll dueDay_def review_fixture_def fresh_item_def)
  then show ?thesis by (simp add: dueCount_idsAll)
qed

lemma learnedCount_review_fixture: "learnedCount (byId review_fixture) = 0"
  by (auto simp: learnedCount_idsAll filter_empty_conv review_fixture_def fresh_item_def)

text \<open>The page state after midnight: the clock moves from day -1 to day 0.\<close>

lemma review_fixture_clock:
  "site_reachable (site_init review_fixture (sconst 0) (-1) 0) \<and>
   site_enabled (SiteClock 0 7) (site_init review_fixture (sconst 0) (-1) 0) \<and>
   site_step (SiteClock 0 7) (site_init review_fixture (sconst 0) (-1) 0) =
     Inr ((site_init review_fixture (sconst 0) (-1) 0)\<lparr>stoday := 0, snow := 7\<rparr>)"
proof -
  have "site_reachable (site_init review_fixture (sconst 0) (-1) 0)"
    by (intro site_reachable.start rand_ok_sconst progress_ok_review_fixture) simp_all
  then show ?thesis by (simp add: site_init_def)
qed

text \<open>
  C8: the keyboard listener grades with a stale record. Its effect depends on
  \<open>[keyboardShortcuts, flipped, mode, card.id]\<close> only. From any reachable session
  on a card not yet revealed, outside quiz mode, with shortcuts on and shuffling off:
  show the answer, then "reset all" in the settings dialog. A digit key then stores the
  record graded from the card's record before the reset, writing the old history back,
  while the grade button on the same screen grades the fresh record the reset stored.
  Every control used is on screen.
\<close>

theorem keyboard_grade_after_reset_stale:
  assumes r: "reachable w0" and m: "sess_mode (sess w0) \<noteq> Quiz" and f: "\<not> flipped (sess w0)"
    and k: "keyboardShortcuts (settings (progress w0))"
    and sl: "\<not> shuffleLearn (settings (progress w0))" and n: "n \<in> {1, 2, 3, 4}"
  shows "run_ok [ClickShowAnswer, ClickReset, KeyDown (KeyDigit n)] w0 \<and>
         run_ok [ClickShowAnswer, ClickReset, ClickGrade (int n)] w0 \<and>
         (\<exists>wk wb. run [ClickShowAnswer, ClickReset, KeyDown (KeyDigit n)] w0 = Stay wk \<and>
            run [ClickShowAnswer, ClickReset, ClickGrade (int n)] w0 = Stay wb \<and>
            byId (progress wk) (radical_id (card (sess w0))) =
              Some (grade_patch (pr w0) (int n) (today w0) (now w0)) \<and>
            byId (progress wb) (radical_id (card (sess w0))) =
              Some (grade_patch (fresh_item (today w0)) (int n) (today w0) (now w0)))"
proof -
  define i where "i = radical_id (card (sess w0))"
  have kd: "key_deps (sess w0) = key_deps_of w0" using r by (rule reachable_key_deps)
  define w1 where "w1 = render (showAnswer w0)"
  have w1: "key_pr (sess w1) = pr w0 \<and> key_deps (sess w1) = (True, True, i) \<and>
            flipped (sess w1) \<and> sess_mode (sess w1) = sess_mode (sess w0) \<and>
            card (sess w1) = card (sess w0) \<and> progress w1 = progress w0 \<and>
            today w1 = today w0 \<and> now w1 = now w0"
    using kd k f m by (simp add: w1_def render_def refresh_other showAnswer_def register_now_def
        key_deps_of_def pr_def i_def split: option.split)
  define w2 where "w2 = set_progress (resetAll (today w1) (progress w1)) w1"
  have w2: "key_pr (sess w2) = pr w0 \<and> flipped (sess w2) \<and> sess_mode (sess w2) = sess_mode (sess w0) \<and>
            card (sess w2) = card (sess w0) \<and> progress w2 = emptyProgress (today w0) \<and>
            today w2 = today w0 \<and> now w2 = now w0"
    using w1 sl m by (simp add: w2_def set_progress_def render_def refresh_other resetAll_def
        key_deps_of_def default_settings_def i_def Let_def)
  have pr2: "pr w2 = fresh_item (today w0)"
    using w2 card_id_in [of "sess w0"] by (simp add: pr_def byId_emptyProgress)
  have key: "session_step (KeyDown (KeyDigit n)) w2 = Stay (render (grade_with (pr w0) (int n) w2))"
    using w2 m n by (simp add: onKey_def default_settings_def)
  have btn: "session_step (ClickGrade (int n)) w2 =
               Stay (render (grade_with (fresh_item (today w0)) (int n) w2))"
    using pr2 by (simp add: grade_def)
  have s1: "session_step ClickShowAnswer w0 = Stay w1" by (simp add: w1_def)
  have s2: "session_step ClickReset w1 = Stay w2" by (simp add: w2_def)
  show ?thesis
    using s1 s2 key btn w2 m f n render_frame
    by (simp add: grade_with_def byId_patchId i_def)
qed

theorem keyboard_grade_after_reset_stale_witness:
  "run_ok [ClickShowAnswer, ClickReset, KeyDown (KeyDigit 3)] (mount Learn (patchId 1 \<lparr>box = 4, learned = True, correct = 10, wrong = 2, lastReviewed = Some 0, due = 0\<rparr> (emptyProgress 0)) (sconst 0) 0 0) \<and>
   run_ok [ClickShowAnswer, ClickReset, ClickGrade 3] (mount Learn (patchId 1 \<lparr>box = 4, learned = True, correct = 10, wrong = 2, lastReviewed = Some 0, due = 0\<rparr> (emptyProgress 0)) (sconst 0) 0 0) \<and>
   (\<exists>wk wb. run [ClickShowAnswer, ClickReset, KeyDown (KeyDigit 3)] (mount Learn (patchId 1 \<lparr>box = 4, learned = True, correct = 10, wrong = 2, lastReviewed = Some 0, due = 0\<rparr> (emptyProgress 0)) (sconst 0) 0 0) = Stay wk \<and>
      run [ClickShowAnswer, ClickReset, ClickGrade 3] (mount Learn (patchId 1 \<lparr>box = 4, learned = True, correct = 10, wrong = 2, lastReviewed = Some 0, due = 0\<rparr> (emptyProgress 0)) (sconst 0) 0 0) = Stay wb \<and>
      byId (progress wk) 1 =
        Some \<lparr>box = 5, learned = True, correct = 11, wrong = 2, lastReviewed = Some 0, due = 14\<rparr> \<and>
      byId (progress wb) 1 =
        Some \<lparr>box = 2, learned = True, correct = 1, wrong = 0, lastReviewed = Some 0, due = 1\<rparr>)"
proof -
  have r: "reachable (mount Learn (patchId 1 \<lparr>box = 4, learned = True, correct = 10, wrong = 2, lastReviewed = Some 0, due = 0\<rparr> (emptyProgress 0)) (sconst 0) 0 0)"
  proof (rule reachable_mount)
    show "rand_ok (sconst 0)" by (simp add: rand_ok_sconst)
    show "progress_ok (patchId 1 \<lparr>box = 4, learned = True, correct = 10, wrong = 2, lastReviewed = Some 0, due = 0\<rparr> (emptyProgress 0))"
      by (rule progress_ok_patchId [OF progress_ok_fresh]) (simp add: box_ok_def)
  qed
  have w: "sess_mode (sess (mount Learn (patchId 1 \<lparr>box = 4, learned = True, correct = 10, wrong = 2, lastReviewed = Some 0, due = 0\<rparr> (emptyProgress 0)) (sconst 0) 0 0)) \<noteq> Quiz \<and> \<not> flipped (sess (mount Learn (patchId 1 \<lparr>box = 4, learned = True, correct = 10, wrong = 2, lastReviewed = Some 0, due = 0\<rparr> (emptyProgress 0)) (sconst 0) 0 0)) \<and>
           keyboardShortcuts (settings (progress (mount Learn (patchId 1 \<lparr>box = 4, learned = True, correct = 10, wrong = 2, lastReviewed = Some 0, due = 0\<rparr> (emptyProgress 0)) (sconst 0) 0 0))) \<and> \<not> shuffleLearn (settings (progress (mount Learn (patchId 1 \<lparr>box = 4, learned = True, correct = 10, wrong = 2, lastReviewed = Some 0, due = 0\<rparr> (emptyProgress 0)) (sconst 0) 0 0))) \<and>
           radical_id (card (sess (mount Learn (patchId 1 \<lparr>box = 4, learned = True, correct = 10, wrong = 2, lastReviewed = Some 0, due = 0\<rparr> (emptyProgress 0)) (sconst 0) 0 0))) = 1 \<and> pr (mount Learn (patchId 1 \<lparr>box = 4, learned = True, correct = 10, wrong = 2, lastReviewed = Some 0, due = 0\<rparr> (emptyProgress 0)) (sconst 0) 0 0) = \<lparr>box = 4, learned = True, correct = 10, wrong = 2, lastReviewed = Some 0, due = 0\<rparr> \<and> today (mount Learn (patchId 1 \<lparr>box = 4, learned = True, correct = 10, wrong = 2, lastReviewed = Some 0, due = 0\<rparr> (emptyProgress 0)) (sconst 0) 0 0) = 0 \<and> now (mount Learn (patchId 1 \<lparr>box = 4, learned = True, correct = 10, wrong = 2, lastReviewed = Some 0, due = 0\<rparr> (emptyProgress 0)) (sconst 0) 0 0) = 0"
    by (simp add: mount_learn default_settings_def card_def current_id_def idsAll_0 card_of_Suc0
        pr_def byId_patchId)
  have n: "(3::nat) \<in> {1, 2, 3, 4}" by simp
  from keyboard_grade_after_reset_stale [OF r, of 3] w n show ?thesis
    by (simp add: grade_patch_def applyGrade_def intervalByBox_def addDays_def num_or_def fresh_item_def)
qed

text \<open>
  C12: the due count on the home page is memoised on \<open>progress.byId\<close> only. From
  any reachable page state, a step that leaves the stored records as they were leaves the
  home page's counts and suggestion as they were, whatever happens to the day: after
  midnight (\<open>SiteClock\<close>) the page still shows the previous day's due count.
\<close>

theorem due_count_stale:
  "site_reachable s \<Longrightarrow> site_step e s = Inr s' \<Longrightarrow> byId (sprog s') = byId (sprog s) \<Longrightarrow>
     home_view s' = home_view s"
  by (blast intro: home_view_keeps site_reachable_inv)

theorem due_count_stale_witness:
  "site_step (SiteClock 0 7) (site_init review_fixture (sconst 0) (-1) 0) =
     Inr ((site_init review_fixture (sconst 0) (-1) 0)\<lparr>stoday := 0, snow := 7\<rparr>) \<and>
   home_view ((site_init review_fixture (sconst 0) (-1) 0)\<lparr>stoday := 0, snow := 7\<rparr>) =
     (0, 0, SuggestLearnOrQuiz) \<and>
   dueCount review_fixture 0 = 1"
proof -
  have c: "site_reachable (site_init review_fixture (sconst 0) (-1) 0) \<and>
           site_step (SiteClock 0 7) (site_init review_fixture (sconst 0) (-1) 0) =
             Inr ((site_init review_fixture (sconst 0) (-1) 0)\<lparr>stoday := 0, snow := 7\<rparr>)"
    using review_fixture_clock by blast
  have "home_view ((site_init review_fixture (sconst 0) (-1) 0)\<lparr>stoday := 0, snow := 7\<rparr>) =
        home_view (site_init review_fixture (sconst 0) (-1) 0)"
    using due_count_stale [OF conjunct1 [OF c] conjunct2 [OF c]] by simp
  then show ?thesis using c
    by (simp add: site_init_def home_view_def dueCount_review_fixture_before dueCount_review_fixture
        learnedCount_review_fixture)
qed

text \<open>
  C13: the start button of a review session, in any reachable page state, builds a deck
  of the items due on the current day, or of all sixty when none is, while the due count
  the home page shows is the count of some day no later than the current one (the day its
  memo was last computed). The two agree when the memo is current; after midnight the
  home page can show 0 while the review holds the items that fell due.
\<close>

theorem review_deck_due_count:
  assumes "site_reachable s" and "site_mode s = Review"
  shows "length (deck (sess (the (session (start_session s))))) =
           (if dueCount (sprog s) (stoday s) = 0 then 60 else dueCount (sprog s) (stoday s)) \<and>
         (\<exists>d \<le> stoday s. fst (snd (home_view s)) = dueCount (sprog s) d)"
proof -
  have "length (deck (sess (the (session (start_session s))))) =
          (if dueCount (sprog s) (stoday s) = 0 then 60 else dueCount (sprog s) (stoday s))"
    using assms(2) by (simp add: deck_start_review dueCount_idsAll Let_def length_idsAll)
  moreover have "\<exists>d \<le> stoday s. fst (snd (home_view s)) = dueCount (sprog s) d"
    using due_memo_day [OF assms(1)] by (simp add: home_view_def)
  ultimately show ?thesis by blast
qed

theorem review_deck_due_count_witness:
  "length (deck (sess (the (session (start_session (((site_init review_fixture (sconst 0) (-1) 0)\<lparr>stoday := 0, snow := 7\<rparr>)\<lparr>site_mode := Review\<rparr>)))))) = 1 \<and>
   fst (snd (home_view (((site_init review_fixture (sconst 0) (-1) 0)\<lparr>stoday := 0, snow := 7\<rparr>)\<lparr>site_mode := Review\<rparr>))) = 0"
proof -
  have c: "site_reachable (site_init review_fixture (sconst 0) (-1) 0) \<and> site_enabled (SiteClock 0 7) (site_init review_fixture (sconst 0) (-1) 0) \<and> site_step (SiteClock 0 7) (site_init review_fixture (sconst 0) (-1) 0) = Inr ((site_init review_fixture (sconst 0) (-1) 0)\<lparr>stoday := 0, snow := 7\<rparr>)"
    by (rule review_fixture_clock)
  have r1: "site_reachable ((site_init review_fixture (sconst 0) (-1) 0)\<lparr>stoday := 0, snow := 7\<rparr>)" using c by (blast intro: site_reachable.step)
  have "site_reachable (site_render (((site_init review_fixture (sconst 0) (-1) 0)\<lparr>stoday := 0, snow := 7\<rparr>)\<lparr>site_mode := Review, page := Select\<rparr>))"
    by (rule site_reachable.step [OF r1, of "ChooseMode Review"]) (simp_all add: site_init_def)
  moreover have "site_render (((site_init review_fixture (sconst 0) (-1) 0)\<lparr>stoday := 0, snow := 7\<rparr>)\<lparr>site_mode := Review, page := Select\<rparr>) = ((site_init review_fixture (sconst 0) (-1) 0)\<lparr>stoday := 0, snow := 7\<rparr>)\<lparr>site_mode := Review, page := Select\<rparr>"
    by (simp add: site_render_def site_init_def Let_def)
  ultimately have r: "site_reachable (((site_init review_fixture (sconst 0) (-1) 0)\<lparr>stoday := 0, snow := 7\<rparr>)\<lparr>site_mode := Review, page := Select\<rparr>)" by simp
  have "length (deck (sess (the (session (start_session (((site_init review_fixture (sconst 0) (-1) 0)\<lparr>stoday := 0, snow := 7\<rparr>)\<lparr>site_mode := Review, page := Select\<rparr>)))))) =
          (if dueCount review_fixture 0 = 0 then 60 else dueCount review_fixture 0)"
    using conjunct1 [OF review_deck_due_count [OF r]] by (simp add: site_init_def)
  moreover have "start_session (((site_init review_fixture (sconst 0) (-1) 0)\<lparr>stoday := 0, snow := 7\<rparr>)\<lparr>site_mode := Review, page := Select\<rparr>) =
                 start_session (((site_init review_fixture (sconst 0) (-1) 0)\<lparr>stoday := 0, snow := 7\<rparr>)\<lparr>site_mode := Review\<rparr>)"
    by (simp add: start_session_def)
  ultimately show ?thesis
    by (simp add: dueCount_review_fixture home_view_def site_init_def dueCount_review_fixture_before)
qed

end
